(* ===== verification/Prelude.thy ===== *)
theory Prelude
  imports Main
begin

text \<open>
  Shared vocabulary of the development: Python's exceptions as a datatype, the
  sum type \<open>exn + 'a\<close> for code that may raise (with \<open>sbind\<close> for sequencing and
  \<open>py_try\<close> for \<^verbatim>\<open>try/except\<close>), and the \<^verbatim>\<open>str\<close> and \<^verbatim>\<open>list\<close> methods the
  scripts call (\<^verbatim>\<open>startswith\<close>, \<^verbatim>\<open>endswith\<close>, \<^verbatim>\<open>in\<close>, \<^verbatim>\<open>replace\<close>,
  \<^verbatim>\<open>split\<close>, \<^verbatim>\<open>join\<close>, \<^verbatim>\<open>lstrip\<close>, \<^verbatim>\<open>list.insert\<close>) as executable HOL
  functions, with the lemmas the component theories share.
  A Python \<^verbatim>\<open>str\<close> is a \<^typ>\<open>string\<close>; each \<^typ>\<open>char\<close> stands for one code point
  below U+0100 (the recipes and names the scripts handle are ASCII).
\<close>

named_theorems py_simps \<open>evaluation equations of the modelled Python operations\<close>

section \<open>Exceptions and the sum monad\<close>

datatype exn =
    RequestError   \<comment> \<open>\<^verbatim>\<open>urlopen\<close> or \<^verbatim>\<open>json.loads\<close> raised (HTTP error, network, bad JSON)\<close>
  | AttributeError \<comment> \<open>a method called on a value of the wrong JSON type\<close>
  | TypeError      \<comment> \<open>subscripting or iterating a value of the wrong JSON type\<close>
  | KeyError       \<comment> \<open>\<^verbatim>\<open>d[k]\<close> with \<open>k\<close> missing\<close>
  | ReError        \<comment> \<open>\<^verbatim>\<open>re.error\<close> raised while compiling a replacement template\<close>
  | IndexError     \<comment> \<open>a replacement template naming a group the pattern lacks\<close>

definition sbind :: "'e + 'a \<Rightarrow> ('a \<Rightarrow> 'e + 'b) \<Rightarrow> 'e + 'b" where
  "sbind m f = (case m of Inl e \<Rightarrow> Inl e | Inr a \<Rightarrow> f a)"

definition py_try :: "'e + 'a \<Rightarrow> ('e \<Rightarrow> 'e + 'a) \<Rightarrow> 'e + 'a" where
  "py_try m h = (case m of Inl e \<Rightarrow> h e | Inr a \<Rightarrow> Inr a)"

text \<open>
  The file system the scripts read and write: a path names the contents of a file, or
  nothing (\<^verbatim>\<open>Path.exists()\<close> is false).
\<close>

type_synonym fs = "string \<Rightarrow> string option"

section \<open>Loops that return the first hit\<close>

text \<open>
  \<^verbatim>\<open>for x in xs: r = f(x); if r is found: return r\<close>, the shape of every search
  loop of the scripts.
\<close>

fun first_some :: "('a \<Rightarrow> 'b option) \<Rightarrow> 'a list \<Rightarrow> 'b option" where
  "first_some f [] = None"
| "first_some f (x # xs) = (case f x of None \<Rightarrow> first_some f xs | Some y \<Rightarrow> Some y)"

section \<open>String methods\<close>

definition py_startswith :: "string \<Rightarrow> string \<Rightarrow> bool" where
  "py_startswith s p \<longleftrightarrow> take (length p) s = p"

definition py_endswith :: "string \<Rightarrow> string \<Rightarrow> bool" where
  "py_endswith s p \<longleftrightarrow> length p \<le> length s \<and> drop (length s - length p) s = p"

text \<open>\<^verbatim>\<open>needle in hay\<close> for strings: a substring test.\<close>

fun py_in :: "string \<Rightarrow> string \<Rightarrow> bool" where
  "py_in n [] \<longleftrightarrow> n = []"
| "py_in n (c # cs) \<longleftrightarrow> py_startswith (c # cs) n \<or> py_in n cs"

text \<open>
  \<^verbatim>\<open>s.replace(old, new)\<close>: every non-overlapping occurrence, left to right. With an
  empty \<open>old\<close>, Python puts \<open>new\<close> before every character and at the end.
\<close>

function py_replace :: "string \<Rightarrow> string \<Rightarrow> string \<Rightarrow> string" where
  "py_replace old new s =
     (if old = [] then concat (map (\<lambda>c. new @ [c]) s) @ new
      else if s = [] then []
      else if py_startswith s old then new @ py_replace old new (drop (length old) s)
      else hd s # py_replace old new (tl s))"
  by pat_completeness auto
termination
  by (relation "measure (\<lambda>(old, new, s). length s)") auto

declare py_replace.simps [simp del]

text \<open>\<^verbatim>\<open>s.split(sep)\<close> for a one-character separator, and \<^verbatim>\<open>sep.join(ws)\<close>.\<close>

fun py_split :: "char \<Rightarrow> string \<Rightarrow> string list" where
  "py_split d [] = [[]]"
| "py_split d (c # cs) =
     (if c = d then [] # py_split d cs
      else (case py_split d cs of w # ws \<Rightarrow> (c # w) # ws | [] \<Rightarrow> [[c]]))"

fun py_join :: "string \<Rightarrow> string list \<Rightarrow> string" where
  "py_join sep [] = []"
| "py_join sep [w] = w"
| "py_join sep (w # v # ws) = w @ sep @ py_join sep (v # ws)"

text \<open>\<^verbatim>\<open>s.lstrip(c)\<close> for one character, \<^verbatim>\<open>xs.insert(i, x)\<close> for \<open>0 \<le> i\<close>.\<close>

definition py_lstrip :: "char \<Rightarrow> string \<Rightarrow> string" where
  "py_lstrip c s = dropWhile (\<lambda>x. x = c) s"

definition py_list_insert :: "nat \<Rightarrow> 'a \<Rightarrow> 'a list \<Rightarrow> 'a list" where
  "py_list_insert i x xs = take i xs @ x # drop i xs"

lemmas py_defs [py_simps] = py_startswith_def py_endswith_def py_lstrip_def py_list_insert_def

section \<open>Lemmas\<close>

subsection \<open>The sum monad and \<^verbatim>\<open>try\<close>\<close>

lemma sbind_simps [simp]:
  "sbind (Inl e) f = Inl e"
  "sbind (Inr a) f = f a"
  by (simp_all add: sbind_def)

lemma py_try_simps [simp]:
  "py_try (Inl e) h = h e"
  "py_try (Inr a) h = Inr a"
  by (simp_all add: py_try_def)

lemma sbind_eq_Inr_iff:
  "sbind m f = Inr b \<longleftrightarrow> (\<exists>a. m = Inr a \<and> f a = Inr b)"
  by (cases m) simp_all

lemma sbind_eq_Inl_iff:
  "sbind m f = Inl e \<longleftrightarrow> m = Inl e \<or> (\<exists>a. m = Inr a \<and> f a = Inl e)"
  by (cases m) simp_all

text \<open>A bare \<^verbatim>\<open>except: return x\<close> turns any failure into \<open>x\<close>.\<close>

lemma py_try_const: "py_try m (\<lambda>_. Inr x) = Inr (case m of Inl _ \<Rightarrow> x | Inr a \<Rightarrow> a)"
  by (cases m) simp_all

text \<open>A handler that never raises makes the whole \<^verbatim>\<open>try\<close> statement total.\<close>

lemma py_try_total:
  assumes "\<And>e. \<exists>a. h e = Inr a"
  shows "\<exists>a. py_try m h = Inr a"
  using assms by (cases m) auto

subsection \<open>First-hit loops\<close>

lemma first_some_Some_D:
  "first_some f xs = Some y \<Longrightarrow> \<exists>x \<in> set xs. f x = Some y"
  by (induction xs) (auto split: option.splits)

lemma first_some_None_iff:
  "first_some f xs = None \<longleftrightarrow> (\<forall>x \<in> set xs. f x = None)"
  by (induction xs) (auto split: option.splits)

lemma first_some_append:
  "first_some f (xs @ ys) = (case first_some f xs of None \<Rightarrow> first_some f ys | Some y \<Rightarrow> Some y)"
  by (induction xs) (auto split: option.splits)

lemma first_some_cong:
  "(\<And>x. x \<in> set xs \<Longrightarrow> f x = g x) \<Longrightarrow> first_some f xs = first_some g xs"
  by (induction xs) (auto split: option.splits)

lemma py_replace_Nil [simp]: "old \<noteq> [] \<Longrightarrow> py_replace old new [] = []"
  by (simp add: py_replace.simps)

lemma py_replace_Cons:
  "old \<noteq> [] \<Longrightarrow> py_replace old new (c # cs) =
     (if py_startswith (c # cs) old then new @ py_replace old new (drop (length old) (c # cs))
      else c # py_replace old new cs)"
  by (simp add: py_replace.simps [of old new "c # cs"])

subsection \<open>Code equations\<close>

text \<open>
  Evaluation equations for \<open>py_startswith\<close> and \<open>py_replace\<close> that recurse on the
  string's constructors: a prefix test stops at the first mismatch, and neither unfolds
  on a string that is not yet computed.
\<close>

lemma py_startswith_code [code]:
  "py_startswith s [] = True"
  "py_startswith [] (c # cs) = False"
  "py_startswith (d # ds) (c # cs) = (d = c \<and> py_startswith ds cs)"
  by (auto simp: py_startswith_def)

lemma py_replace_code [code]:
  "py_replace old new [] = (if old = [] then new else [])"
  "py_replace old new (c # cs) =
     (if old = [] then new @ c # py_replace old new cs
      else if py_startswith (c # cs) old then new @ py_replace old new (drop (length old) (c # cs))
      else c # py_replace old new cs)"
  by (simp_all add: py_replace.simps [of old new "[]"] py_replace.simps [of old new "c # cs"]
      py_replace.simps [of "[]" new cs])

subsection \<open>Lemmas on the string methods\<close>

lemma py_split_nonempty [simp]: "py_split d s \<noteq> []"
  by (induction s) (auto split: list.splits)

lemma py_split_no_sep: "w \<in> set (py_split d s) \<Longrightarrow> d \<notin> set w"
proof (induction s arbitrary: w)
  case Nil
  then show ?case by simp
next
  case (Cons c cs)
  then show ?case
    by (cases "py_split d cs") (auto split: if_splits)
qed

lemma py_join_split [simp]: "py_join [d] (py_split d s) = s"
proof (induction s)
  case Nil
  then show ?case by simp
next
  case (Cons c cs)
  then show ?case
  proof (cases "py_split d cs")
    case Nil
    then show ?thesis by simp
  next
    case (Cons w ws)
    with Cons.IH show ?thesis by (cases ws) auto
  qed
qed

lemma py_split_no_sep_word: "d \<notin> set w \<Longrightarrow> py_split d w = [w]"
  by (induction w) auto

lemma py_split_append_sep:
  "d \<notin> set w \<Longrightarrow> py_split d (w @ d # r) = w # py_split d r"
  by (induction w) auto

lemma py_split_join:
  "ws \<noteq> [] \<Longrightarrow> (\<forall>w \<in> set ws. d \<notin> set w) \<Longrightarrow> py_split d (py_join [d] ws) = ws"
proof (induction ws)
  case Nil
  then show ?case by simp
next
  case (Cons w ws)
  then show ?case
    by (cases ws) (auto simp: py_split_no_sep_word py_split_append_sep)
qed

lemma py_startswith_Cons [simp]:
  "py_startswith s (c # cs) \<longleftrightarrow> (\<exists>s'. s = c # s' \<and> py_startswith s' cs)"
  by (cases s) (auto simp: py_startswith_def)

lemma py_startswith_Nil [simp]: "py_startswith s []"
  by (simp add: py_startswith_def)

lemma py_startswith_append [simp]: "py_startswith (p @ s) p"
  by (simp add: py_startswith_def)

lemma py_startswith_iff: "py_startswith s p \<longleftrightarrow> (\<exists>r. s = p @ r)"
  unfolding py_startswith_def by (metis append_eq_conv_conj append_take_drop_id)

lemma py_in_iff: "py_in n s \<longleftrightarrow> (\<exists>a b. s = a @ n @ b)"
proof (induction s)
  case Nil
  then show ?case by simp
next
  case (Cons c cs)
  have "py_startswith (c # cs) n \<longleftrightarrow> (\<exists>b. c # cs = n @ b)"
    by (simp add: py_startswith_iff)
  moreover have "(\<exists>a b. c # cs = a @ n @ b) \<longleftrightarrow>
      (\<exists>b. c # cs = n @ b) \<or> (\<exists>a b. cs = a @ n @ b)"
    by (auto simp: Cons_eq_append_conv)
  ultimately show ?case using Cons.IH by simp
qed

lemma py_in_append: "py_in n s \<Longrightarrow> py_in n (a @ s @ b)"
  by (auto simp: py_in_iff) (metis append.assoc)

lemma hd_py_split: "hd (py_split d s) = takeWhile (\<lambda>x. x \<noteq> d) s"
  by (induction s) (auto split: list.splits)

lemma startswith_takeWhile:
  "d \<notin> set w \<Longrightarrow> py_startswith (takeWhile (\<lambda>x. x \<noteq> d) s) w \<longleftrightarrow> py_startswith s w"
proof (induction w arbitrary: s)
  case Nil
  then show ?case by simp
next
  case (Cons a w)
  then show ?case by (cases s) auto
qed

text \<open>
  An occurrence of \<open>x\<close> in \<open>a @ b\<close> that crossed the seam would contain the last
  character of \<open>a\<close>.
\<close>

lemma py_in_append_sep:
  assumes "a \<noteq> []" "last a \<notin> set x"
  shows "py_in x (a @ b) \<longleftrightarrow> py_in x a \<or> py_in x b"
proof
  assume "py_in x (a @ b)"
  then obtain p q where e: "a @ b = p @ x @ q" by (auto simp: py_in_iff)
  show "py_in x a \<or> py_in x b"
  proof (cases "length p + length x \<le> length a")
    case True
    have "take (length a) (a @ b) = take (length a) (p @ x @ q)" using e by simp
    then have "a = p @ x @ take (length a - length p - length x) q"
      using True by simp
    then show ?thesis by (auto simp: py_in_iff)
  next
    case False
    show ?thesis
    proof (cases "length a \<le> length p")
      case True
      have "drop (length a) (a @ b) = drop (length a) (p @ x @ q)" using e by simp
      then have "b = drop (length a) p @ x @ q"
        using True by simp
      then show ?thesis by (auto simp: py_in_iff)
    next
      case False': False
      define i where "i = length a - 1"
      have i: "length p \<le> i" "i - length p < length x"
        using False' \<open>\<not> length p + length x \<le> length a\<close> by (simp_all add: i_def)
      have "(a @ b) ! i = (p @ x @ q) ! i" using e by simp
      also have "\<dots> = x ! (i - length p)"
        using i by (simp add: nth_append)
      finally have "(a @ b) ! (length a - 1) = x ! (length a - 1 - length p)"
        by (simp add: i_def)
      moreover have "(a @ b) ! (length a - 1) = last a"
        using assms(1) by (simp add: nth_append last_conv_nth)
      moreover have "length a - 1 - length p < length x"
        using \<open>\<not> length p + length x \<le> length a\<close> False' by simp
      ultimately show ?thesis using assms(2) by (metis nth_mem)
    qed
  qed
next
  assume "py_in x a \<or> py_in x b"
  then show "py_in x (a @ b)"
  proof
    assume "py_in x a"
    then obtain p q where "a = p @ x @ q" by (auto simp: py_in_iff)
    then have "a @ b = p @ x @ (q @ b)" by simp
    then show ?thesis unfolding py_in_iff by blast
  next
    assume "py_in x b"
    then obtain p q where "b = p @ x @ q" by (auto simp: py_in_iff)
    then have "a @ b = (a @ p) @ x @ q" by simp
    then show ?thesis unfolding py_in_iff by blast
  qed
qed

lemma py_in_Cons_D: "py_in (a # x) s \<Longrightarrow> py_in x s"
proof -
  assume "py_in (a # x) s"
  then obtain p q where "s = (p @ [a]) @ x @ q" by (auto simp: py_in_iff)
  then show ?thesis unfolding py_in_iff by blast
qed

subsection \<open>\<^verbatim>\<open>str.replace\<close> that re-emits what it matched\<close>

text \<open>
  \<open>s.replace(old, old + ins)\<close> inserts \<open>ins\<close> after each occurrence of \<open>old\<close>. When
  \<open>old\<close> and \<open>ins\<close> end with the same character \<open>q\<close>, a \<open>q\<close>-free string occurs
  in the result only where it occurred in \<open>s\<close> or in \<open>ins\<close>.
\<close>

lemma py_replace_old:
  "old \<noteq> [] \<Longrightarrow> py_replace old new (old @ r) = new @ py_replace old new r"
  by (simp add: py_replace.simps [of old new "old @ r"])

lemma py_replace_startswith:
  assumes "old \<noteq> []" "last old \<notin> set v" "py_startswith (py_replace old (old @ ins) s) v"
  shows "py_startswith s v"
  using assms(2,3)
proof (induction "length s" arbitrary: s v rule: less_induct)
  case less
  show ?case
  proof (cases s)
    case Nil
    with less.prems assms(1) show ?thesis by simp
  next
    case (Cons c cs)
    show ?thesis
    proof (cases "py_startswith s old")
      case True
      then obtain r where s: "s = old @ r" by (auto simp: py_startswith_iff)
      have out: "py_startswith (old @ ins @ py_replace old (old @ ins) r) v"
        using less.prems assms(1) by (simp add: s py_replace_old)
      show ?thesis
      proof (cases "length v \<le> length old")
        case True
        with out have "take (length v) old = v" by (simp add: py_startswith_def)
        with True show ?thesis by (simp add: s py_startswith_def)
      next
        case False
        with out have "take (length old) v = old"
          by (auto simp: py_startswith_def min_def dest: arg_cong [where f = "take (length old)"])
        then have "last old \<in> set v"
          using assms(1) by (metis last_in_set set_take_subset subsetD)
        with less.prems(1) show ?thesis by blast
      qed
    next
      case False
      then have out: "py_startswith (c # py_replace old (old @ ins) cs) v"
        using less.prems assms(1) by (simp add: Cons py_replace_Cons)
      show ?thesis
      proof (cases v)
        case Nil
        then show ?thesis by simp
      next
        case (Cons a v')
        with out have "a = c" "py_startswith (py_replace old (old @ ins) cs) v'" by auto
        moreover have "last old \<notin> set v'" using less.prems(1) Cons by simp
        ultimately show ?thesis
          using less.hyps [of cs v'] \<open>s = c # cs\<close> Cons by simp
      qed
    qed
  qed
qed

lemma py_replace_not_in:
  assumes "old \<noteq> []" "ins \<noteq> []" "last ins = last old" "last old \<notin> set x"
    "\<not> py_in x ins" "\<not> py_in x s"
  shows "\<not> py_in x (py_replace old (old @ ins) s)"
  using assms(6)
proof (induction "length s" arbitrary: s rule: less_induct)
  case less
  show ?case
  proof (cases s)
    case Nil
    with less.prems assms(1) show ?thesis by simp
  next
    case (Cons c cs)
    show ?thesis
    proof (cases "py_startswith s old")
      case True
      then obtain r where s: "s = old @ r" by (auto simp: py_startswith_iff)
      have "\<not> py_in x old" "\<not> py_in x r"
        using less.prems py_in_append [of x old "[]" r] py_in_append [of x r old "[]"] by (auto simp: s)
      moreover have "\<not> py_in x (py_replace old (old @ ins) r)"
        using less.hyps [of r] \<open>\<not> py_in x r\<close> assms(1) by (simp add: s)
      ultimately show ?thesis
        using assms by (simp add: s py_replace_old py_in_append_sep)
    next
      case False
      have x: "x \<noteq> []" using less.prems by (cases s) auto
      have "\<not> py_startswith (c # py_replace old (old @ ins) cs) x"
      proof
        assume h: "py_startswith (c # py_replace old (old @ ins) cs) x"
        then obtain x' where "x = c # x'" "py_startswith (py_replace old (old @ ins) cs) x'"
          using x by (cases x) auto
        moreover have "last old \<notin> set x'" using assms(4) \<open>x = c # x'\<close> by simp
        ultimately have "py_startswith s x"
          using py_replace_startswith [OF assms(1)] Cons by auto
        with less.prems Cons show False by simp
      qed
      moreover have "\<not> py_in x (py_replace old (old @ ins) cs)"
        using less.hyps [of cs] less.prems Cons by simp
      ultimately show ?thesis
        using False assms(1) by (simp add: Cons py_replace_Cons)
    qed
  qed
qed

lemma py_lstrip_no_lead: "py_lstrip c s = [] \<or> hd (py_lstrip c s) \<noteq> c"
  unfolding py_lstrip_def by (induction s) auto

end
