(* ===== verification/Regex.thy ===== *)
theory Regex
  imports Prelude
begin

text \<open>
  The fragment of Python's \<^verbatim>\<open>re\<close> module the scripts use, as an executable matcher
  that follows the backtracking order of Python's engine (\<^verbatim>\<open>sre\<close>).
  A pattern is a sequence of atoms: a character class (\<^verbatim>\<open>x\<close>, \<^verbatim>\<open>.\<close>,
  \<^verbatim>\<open>\d\<close>, \<^verbatim>\<open>\s\<close>, \<^verbatim>\<open>[...]\<close>, \<^verbatim>\<open>[^...]\<close>), a repetition of a class
  (\<^verbatim>\<open>*\<close>, \<^verbatim>\<open>+\<close>, \<^verbatim>\<open>?\<close>, \<^verbatim>\<open>{m,}\<close>, greedy or lazy), the anchor \<^verbatim>\<open>^\<close>
  without and with \<^verbatim>\<open>re.MULTILINE\<close>, and a mark bounding a capture group.
  Every pattern of \<^verbatim>\<open>update_component.py\<close> and \<^verbatim>\<open>test_component_updates.py\<close> is such
  a sequence.
  \<open>rmatch\<close> is \<^verbatim>\<open>re.match\<close> at one position, \<open>re_search\<close> is \<^verbatim>\<open>re.search\<close>,
  \<open>re_sub\<close> is \<^verbatim>\<open>re.sub\<close> with its replacement-template parser \<open>ptpl\<close>
  (\<^verbatim>\<open>re._parser.parse_template\<close> for a pattern without groups).
\<close>

section \<open>Character classes\<close>

abbreviation dq :: char where "dq \<equiv> CHR 0x22"        \<comment> \<open>the double quote\<close>
abbreviation bsl :: char where "bsl \<equiv> CHR 0x5C"       \<comment> \<open>the backslash\<close>
abbreviation nl :: char where "nl \<equiv> CHR ''\<newline>''"

definition is_digit :: "char \<Rightarrow> bool" where
  "is_digit c \<longleftrightarrow> 48 \<le> (of_char c :: nat) \<and> (of_char c :: nat) \<le> 57"

definition is_octdigit :: "char \<Rightarrow> bool" where
  "is_octdigit c \<longleftrightarrow> 48 \<le> (of_char c :: nat) \<and> (of_char c :: nat) \<le> 55"

text \<open>
  \<^verbatim>\<open>\s\<close> on a \<^verbatim>\<open>str\<close> pattern: the code points below U+0100 for which
  \<^verbatim>\<open>str.isspace()\<close> holds.
\<close>

definition is_space :: "char \<Rightarrow> bool" where
  "is_space c \<longleftrightarrow> (let n = (of_char c :: nat) in
     (9 \<le> n \<and> n \<le> 13) \<or> (28 \<le> n \<and> n \<le> 32) \<or> n = 133 \<or> n = 160)"

definition is_ascii_letter :: "char \<Rightarrow> bool" where
  "is_ascii_letter c \<longleftrightarrow> (let n = (of_char c :: nat) in
     (65 \<le> n \<and> n \<le> 90) \<or> (97 \<le> n \<and> n \<le> 122))"

datatype cclass =
    Chr char            \<comment> \<open>a literal character\<close>
  | AnyNoNl             \<comment> \<open>\<^verbatim>\<open>.\<close> without \<^verbatim>\<open>re.DOTALL\<close>\<close>
  | Digit               \<comment> \<open>\<^verbatim>\<open>\d\<close>\<close>
  | Space               \<comment> \<open>\<^verbatim>\<open>\s\<close>\<close>
  | OneOf "char list"   \<comment> \<open>\<^verbatim>\<open>[...]\<close>\<close>
  | NoneOf "char list"  \<comment> \<open>\<^verbatim>\<open>[^...]\<close>\<close>

fun in_class :: "cclass \<Rightarrow> char \<Rightarrow> bool" where
  "in_class (Chr d) c \<longleftrightarrow> c = d"
| "in_class AnyNoNl c \<longleftrightarrow> c \<noteq> nl"
| "in_class Digit c \<longleftrightarrow> is_digit c"
| "in_class Space c \<longleftrightarrow> is_space c"
| "in_class (OneOf ds) c \<longleftrightarrow> c \<in> set ds"
| "in_class (NoneOf ds) c \<longleftrightarrow> c \<notin> set ds"

section \<open>Patterns and matching\<close>

datatype ratom =
    Bos                                  \<comment> \<open>\<^verbatim>\<open>^\<close>: start of the string\<close>
  | Bol                                  \<comment> \<open>\<^verbatim>\<open>^\<close> under \<^verbatim>\<open>re.MULTILINE\<close>: start of a line\<close>
  | Atom cclass                          \<comment> \<open>one character of the class\<close>
  | Rep cclass nat "nat option" bool     \<comment> \<open>\<open>c{lo,hi}\<close>, greedy when the flag is set\<close>
  | Mark                                 \<comment> \<open>a group boundary: records the position\<close>

type_synonym regex = "ratom list"

definition lits :: "string \<Rightarrow> regex" where
  "lits w = map (\<lambda>c. Atom (Chr c)) w"

text \<open>The number of characters a repetition can take, and the order it tries them.\<close>

definition run_len :: "cclass \<Rightarrow> nat option \<Rightarrow> string \<Rightarrow> nat" where
  "run_len c hi s = (let n = length (takeWhile (in_class c) s) in
     case hi of None \<Rightarrow> n | Some h \<Rightarrow> min n h)"

definition rep_counts :: "nat \<Rightarrow> nat \<Rightarrow> bool \<Rightarrow> nat list" where
  "rep_counts lo n greedy = (if greedy then rev [lo..<Suc n] else [lo..<Suc n])"

text \<open>
  \<open>rmatch p prev pos s\<close> matches \<open>p\<close> at the front of \<open>s\<close>; \<open>prev\<close> is the
  character before (\<open>None\<close> at the start of the string), \<open>pos\<close> the offset of
  \<open>s\<close>. The result is the end offset of the first match in backtracking order and the
  offsets of the marks passed. A repetition tries its counts from the most (greedy) or
  the fewest (lazy), as \<^verbatim>\<open>sre\<close> does.
\<close>

fun rmatch :: "regex \<Rightarrow> char option \<Rightarrow> nat \<Rightarrow> string \<Rightarrow> (nat \<times> nat list) option" where
  "rmatch [] prev pos s = Some (pos, [])"
| "rmatch (Bos # r) prev pos s = (if prev = None then rmatch r prev pos s else None)"
| "rmatch (Bol # r) prev pos s =
     (if prev = None \<or> prev = Some nl then rmatch r prev pos s else None)"
| "rmatch (Atom c # r) prev pos s =
     (case s of [] \<Rightarrow> None
      | x # xs \<Rightarrow> if in_class c x then rmatch r (Some x) (Suc pos) xs else None)"
| "rmatch (Mark # r) prev pos s = map_option (\<lambda>(e, ms). (e, pos # ms)) (rmatch r prev pos s)"
| "rmatch (Rep c lo hi g # r) prev pos s =
     first_some (\<lambda>k. rmatch r (if k = 0 then prev else Some (s ! (k - 1))) (pos + k) (drop k s))
       (rep_counts lo (run_len c hi s) g)"

definition re_match :: "regex \<Rightarrow> string \<Rightarrow> (nat \<times> nat list) option" where
  "re_match p s = rmatch p None 0 s"

text \<open>\<^verbatim>\<open>re.search\<close>: the first start position with a match; start, end and marks.\<close>

fun search_from :: "regex \<Rightarrow> char option \<Rightarrow> nat \<Rightarrow> string \<Rightarrow> (nat \<times> nat \<times> nat list) option" where
  "search_from p prev pos s =
     (case rmatch p prev pos s of
        Some (e, ms) \<Rightarrow> Some (pos, e, ms)
      | None \<Rightarrow> (case s of [] \<Rightarrow> None | c # cs \<Rightarrow> search_from p (Some c) (Suc pos) cs))"

definition re_search :: "regex \<Rightarrow> string \<Rightarrow> (nat \<times> nat \<times> nat list) option" where
  "re_search p s = search_from p None 0 s"

text \<open>\<^verbatim>\<open>m.group(1)\<close> of a pattern whose only group is bounded by its two marks.\<close>

definition group1 :: "string \<Rightarrow> nat \<times> nat \<times> nat list \<Rightarrow> string" where
  "group1 s m = (case m of (_, _, m1 # m2 # _) \<Rightarrow> take (m2 - m1) (drop m1 s) | _ \<Rightarrow> [])"

section \<open>Replacement templates\<close>

text \<open>
  \<^verbatim>\<open>re.sub\<close> parses its replacement string before it scans: backslash escapes
  \<^verbatim>\<open>\\ \a \b \f \n \r \t \v\<close> become one character, \<^verbatim>\<open>\0\<close> starts an octal escape,
  \<^verbatim>\<open>\g<0>\<close> (any all-zero decimal name) inserts the whole match; a group reference
  to a group the pattern does not have, \<^verbatim>\<open>\\\<close> followed by another ASCII letter,
  or a trailing backslash raise. Any other escaped character is kept with its backslash.
\<close>

datatype titem = TChr char | TMatch

definition simple_escape :: "char \<Rightarrow> char option" where
  "simple_escape d =
     (if d = CHR ''a'' then Some (CHR 0x07) else if d = CHR ''b'' then Some (CHR 0x08)
      else if d = CHR ''f'' then Some (CHR 0x0C) else if d = CHR ''n'' then Some nl
      else if d = CHR ''r'' then Some (CHR 0x0D) else if d = CHR ''t'' then Some (CHR 0x09)
      else if d = CHR ''v'' then Some (CHR 0x0B) else if d = bsl then Some bsl else None)"

definition oct_val :: "string \<Rightarrow> nat" where
  "oct_val ds = foldl (\<lambda>v d. 8 * v + (of_char d - 48)) 0 ds"

definition ptcons :: "titem list \<Rightarrow> exn + titem list \<Rightarrow> exn + titem list" where
  "ptcons xs r = map_sum id (\<lambda>t. xs @ t) r"

function ptpl :: "string \<Rightarrow> exn + titem list" where
  "ptpl s =
     (case s of
        [] \<Rightarrow> Inr []
      | c # cs \<Rightarrow>
          if c \<noteq> bsl then ptcons [TChr c] (ptpl cs)
          else (case cs of
            [] \<Rightarrow> Inl ReError
          | d # ds \<Rightarrow>
              if d = CHR ''g'' then
                (if ds = [] \<or> hd ds \<noteq> CHR ''<'' then Inl ReError
                 else (let name = takeWhile (\<lambda>x. x \<noteq> CHR ''>'') (tl ds);
                           rest = dropWhile (\<lambda>x. x \<noteq> CHR ''>'') (tl ds) in
                       if rest = [] \<or> name = [] then Inl ReError
                       else if list_all (\<lambda>x. x = CHR ''0'') name then ptcons [TMatch] (ptpl (tl rest))
                       else if list_all is_digit name then Inl ReError
                       else Inl IndexError))
              else if d = CHR ''0'' then
                (let os = take 2 (takeWhile is_octdigit ds) in
                 ptcons [TChr (char_of (oct_val (d # os) mod 256))] (ptpl (drop (length os) ds)))
              else if is_digit d then
                (case ds of
                   e # es \<Rightarrow>
                     if is_octdigit d \<and> is_octdigit e \<and> es \<noteq> [] \<and> is_octdigit (hd es) then
                       (if 255 < oct_val [d, e, hd es] then Inl ReError
                        else ptcons [TChr (char_of (oct_val [d, e, hd es]))] (ptpl (tl es)))
                     else Inl ReError
                 | [] \<Rightarrow> Inl ReError)
              else (case simple_escape d of
                      Some x \<Rightarrow> ptcons [TChr x] (ptpl ds)
                    | None \<Rightarrow> if is_ascii_letter d then Inl ReError
                              else ptcons [TChr c, TChr d] (ptpl ds))))"
  by pat_completeness auto
termination
proof (relation "measure length")
  fix s c cs d ds x
  assume "s = c # cs" "cs = d # ds" "x = dropWhile (\<lambda>x. x \<noteq> CHR ''>'') (tl ds)"
  then show "(tl x, s) \<in> measure length"
    using length_dropWhile_le [of "\<lambda>x. x \<noteq> CHR ''>''" "tl ds"] by (cases ds) auto
qed auto

declare ptpl.simps [simp del]

definition texpand :: "titem list \<Rightarrow> string \<Rightarrow> string" where
  "texpand t m = concat (map (\<lambda>i. case i of TChr c \<Rightarrow> [c] | TMatch \<Rightarrow> m) t)"

section \<open>Lines that start with a word\<close>

text \<open>
  \<open>line_start prev\<close>: the position after \<open>prev\<close> starts a line (\<^verbatim>\<open>^\<close> under
  \<^verbatim>\<open>re.MULTILINE\<close> matches there). \<open>bol_free w prev s\<close>: no line of \<open>s\<close> starts
  with \<open>w\<close>, read after \<open>prev\<close>; the executable form of the line invariants of the
  recipe mutator (\<open>bol_free_lines\<close> states it over \<^verbatim>\<open>s.split('\n')\<close>).
\<close>

definition line_start :: "char option \<Rightarrow> bool" where
  "line_start prev \<longleftrightarrow> prev = None \<or> prev = Some nl"

fun bol_free :: "string \<Rightarrow> char option \<Rightarrow> string \<Rightarrow> bool" where
  "bol_free w prev [] \<longleftrightarrow> \<not> (line_start prev \<and> w = [])"
| "bol_free w prev (c # cs) \<longleftrightarrow> \<not> (line_start prev \<and> py_startswith (c # cs) w) \<and> bol_free w (Some c) cs"

lemmas regex_defs [py_simps] = re_match_def re_search_def lits_def group1_def texpand_def ptcons_def

section \<open>Lemmas on matching\<close>

lemma set_rep_counts [simp]: "set (rep_counts lo n g) = {lo..n}"
  by (auto simp: rep_counts_def)

lemma first_some_rep_counts:
  assumes "first_some f (rep_counts lo n g) = Some y"
  shows "\<exists>k. lo \<le> k \<and> k \<le> n \<and> f k = Some y"
proof -
  from first_some_Some_D [OF assms] obtain k where "k \<in> set (rep_counts lo n g)" "f k = Some y"
    by blast
  then show ?thesis by auto
qed

lemma run_len_le: "run_len c hi s \<le> length s"
proof -
  have "length (takeWhile (in_class c) s) \<le> length s" by (rule length_takeWhile_le)
  then show ?thesis by (auto simp: run_len_def Let_def split: option.splits)
qed

text \<open>A match ends between its start and the end of the input.\<close>

lemma rmatch_bounds:
  "rmatch p prev pos s = Some (e, ms) \<Longrightarrow> pos \<le> e \<and> e \<le> pos + length s"
proof (induction p prev pos s arbitrary: e ms rule: rmatch.induct)
  case (4 c r prev pos s)
  then show ?case by (fastforce split: list.splits if_splits)
next
  case (6 c lo hi g r prev pos s)
  from "6.prems" obtain k where k: "k \<le> run_len c hi s"
    and m: "rmatch r (if k = 0 then prev else Some (s ! (k - 1))) (pos + k) (drop k s) = Some (e, ms)"
    by (auto dest!: first_some_rep_counts)
  with "6.IH" [OF m] run_len_le [of c hi s] show ?case by auto
qed (auto split: if_splits)

lemma first_some_greedy_Some:
  "first_some (\<lambda>k. Some (f k)) (rep_counts lo n True) = (if lo \<le> n then Some (f n) else None)"
  by (simp add: rep_counts_def)
lemma rmatch_tail_base:
  "rmatch [Mark, Rep c 1 None True, Mark] prev pos s =
     (if 1 \<le> run_len c None s then Some (pos + run_len c None s, [pos, pos + run_len c None s]) else None)"
  by (simp add: first_some_greedy_Some)
text \<open>
  A pattern ending in \<^verbatim>\<open>([c]+)\<close> with no other group: the group is the
  non-empty run of class characters that ends the match.
\<close>

lemma rmatch_group_tail:
  assumes "rmatch (p @ [Mark, Rep c 1 None True, Mark]) prev pos s = Some (e, ms)"
    and "Mark \<notin> set p"
  shows "\<exists>m1. ms = [m1, e] \<and> pos \<le> m1 \<and> m1 < e \<and> e \<le> pos + length s \<and>
           (\<forall>x \<in> set (take (e - m1) (drop (m1 - pos) s)). in_class c x)"
  using assms
proof (induction p arbitrary: prev pos s e ms)
  case Nil
  let ?n = "run_len c None s"
  from Nil.prems(1) have "1 \<le> ?n" and e: "e = pos + ?n" and ms: "ms = [pos, pos + ?n]"
    by (simp_all only: append_Nil rmatch_tail_base split: if_splits) auto
  have "?n \<le> length s" by (rule run_len_le)
  moreover have "\<forall>x \<in> set (take ?n s). in_class c x"
  proof -
    have "take ?n s = takeWhile (in_class c) s"
      by (simp add: run_len_def takeWhile_eq_take [symmetric])
    then show ?thesis by (auto dest: set_takeWhileD)
  qed
  ultimately show ?case using \<open>1 \<le> ?n\<close> e ms by auto
next
  case (Cons a p)
  show ?case
  proof (cases a)
    case Bos
    with Cons.prems(1) have m: "rmatch (p @ [Mark, Rep c 1 None True, Mark]) prev pos s = Some (e, ms)"
      by (simp split: if_splits)
    from Cons.IH [OF m] Cons.prems(2) show ?thesis by simp
  next
    case Bol
    with Cons.prems(1) have m: "rmatch (p @ [Mark, Rep c 1 None True, Mark]) prev pos s = Some (e, ms)"
      by (simp split: if_splits)
    from Cons.IH [OF m] Cons.prems(2) show ?thesis by simp
  next
    case (Atom d)
    with Cons.prems obtain x xs where s: "s = x # xs"
      and m: "rmatch (p @ [Mark, Rep c 1 None True, Mark]) (Some x) (Suc pos) xs = Some (e, ms)"
      by (auto split: list.splits if_splits)
    from Cons.IH [OF m] Cons.prems(2) obtain m1 where
      "ms = [m1, e]" "Suc pos \<le> m1" "m1 < e" "e \<le> Suc pos + length xs"
      "\<forall>y \<in> set (take (e - m1) (drop (m1 - Suc pos) xs)). in_class c y"
      by auto
    moreover have "drop (m1 - pos) s = drop (m1 - Suc pos) xs"
      using \<open>Suc pos \<le> m1\<close> s by (simp add: Suc_diff_Suc [symmetric])
    ultimately show ?thesis using s by auto
  next
    case (Rep d lo hi g)
    with Cons.prems obtain k where k: "k \<le> run_len d hi s"
      and m: "rmatch (p @ [Mark, Rep c 1 None True, Mark]) (if k = 0 then prev else Some (s ! (k - 1)))
                (pos + k) (drop k s) = Some (e, ms)"
      by (auto dest!: first_some_rep_counts)
    have ks: "k \<le> length s" using k run_len_le [of d hi s] by simp
    from Cons.IH [OF m] Cons.prems(2) obtain m1 where
      "ms = [m1, e]" "pos + k \<le> m1" "m1 < e" "e \<le> pos + k + length (drop k s)"
      "\<forall>y \<in> set (take (e - m1) (drop (m1 - (pos + k)) (drop k s))). in_class c y"
      by auto
    moreover have "drop (m1 - (pos + k)) (drop k s) = drop (m1 - pos) s"
      using \<open>pos + k \<le> m1\<close> by (simp add: add.commute)
    ultimately show ?thesis using ks by auto
  next
    case Mark
    with Cons.prems show ?thesis by simp
  qed
qed

lemma search_from_rmatch:
  "search_from p prev pos s = Some (st, e, ms) \<Longrightarrow>
     \<exists>i \<le> length s. st = pos + i \<and> rmatch p (if i = 0 then prev else Some (s ! (i - 1))) st (drop i s) = Some (e, ms)"
proof (induction p prev pos s rule: search_from.induct)
  case (1 p prev pos s)
  show ?case
  proof (cases "rmatch p prev pos s")
    case (Some r)
    with "1.prems" show ?thesis by (auto intro: exI [of _ 0])
  next
    case None
    with "1.prems" obtain c cs where s: "s = c # cs"
      and r: "search_from p (Some c) (Suc pos) cs = Some (st, e, ms)"
      by (auto split: list.splits)
    from "1.IH" [OF None s r] obtain i where "i \<le> length cs" "st = Suc pos + i"
      "rmatch p (if i = 0 then Some c else Some (cs ! (i - 1))) st (drop i cs) = Some (e, ms)"
      by blast
    with s show ?thesis by (intro exI [of _ "Suc i"]) (auto simp: nth_Cons')
  qed
qed

lemma re_search_group:
  assumes "re_search (p @ [Mark, Rep c 1 None True, Mark]) s = Some m" and "Mark \<notin> set p"
  shows "group1 s m \<noteq> [] \<and> (\<forall>x \<in> set (group1 s m). in_class c x)"
proof -
  obtain st e ms where m: "m = (st, e, ms)" by (cases m) auto
  from assms(1) m have "search_from (p @ [Mark, Rep c 1 None True, Mark]) None 0 s = Some (st, e, ms)"
    by (simp add: re_search_def del: search_from.simps)
  from search_from_rmatch [OF this] obtain i where i: "i \<le> length s" "st = i"
    and r: "rmatch (p @ [Mark, Rep c 1 None True, Mark]) (if i = 0 then None else Some (s ! (i - 1)))
              st (drop i s) = Some (e, ms)"
    by auto
  from rmatch_group_tail [OF r assms(2)] obtain m1 where
    g: "ms = [m1, e]" "st \<le> m1" "m1 < e" "e \<le> st + length (drop i s)"
       "\<forall>x \<in> set (take (e - m1) (drop (m1 - st) (drop i s))). in_class c x"
    by blast
  have "drop (m1 - st) (drop i s) = drop m1 s" using g(2) i by simp
  with g i m show ?thesis by (auto simp: group1_def)
qed

section \<open>Lemmas on templates\<close>

lemma ptcons_Inl: "ptcons xs r = Inl e \<longleftrightarrow> r = Inl e"
  by (cases r) (simp_all add: ptcons_def)

lemma ptpl_Inl: "ptpl s = Inl e \<Longrightarrow> e = ReError \<or> e = IndexError"
proof (induction s rule: ptpl.induct)
  case (1 s)
  show ?case
  proof (cases s)
    case Nil
    with "1.prems" show ?thesis by (simp add: ptpl.simps)
  next
    case (Cons c cs)
    note IH = "1.IH" [OF Cons]
    show ?thesis
    proof (cases "c = bsl")
      case False
      with "1.prems" Cons IH(1) show ?thesis by (simp add: ptpl.simps [of "c # cs"] ptcons_Inl)
    next
      case True
      show ?thesis
      proof (cases cs)
        case Nil
        with "1.prems" Cons True show ?thesis by (simp add: ptpl.simps [of "[bsl]"])
      next
        case (Cons d ds)
        with "1.prems" \<open>s = c # cs\<close> True IH show ?thesis
          by (simp add: ptpl.simps [of "bsl # d # ds"] ptcons_Inl Let_def split: if_splits list.splits option.splits)
      qed
    qed
  qed
qed

lemma ptpl_plain: "bsl \<notin> set s \<Longrightarrow> ptpl s = Inr (map TChr s)"
proof (induction s)
  case Nil
  then show ?case by (simp add: ptpl.simps)
next
  case (Cons c cs)
  from Cons.prems have "c \<noteq> bsl" "bsl \<notin> set cs" by auto
  with Cons.IH show ?case by (simp add: ptpl.simps [of "c # cs"] ptcons_def)
qed

lemma texpand_plain [simp]: "texpand (map TChr r) m = r"
  by (induction r) (simp_all add: texpand_def)

section \<open>Literal prefixes and line starts\<close>

text \<open>A greedy repetition takes the whole run of class characters when the rest matches after it.\<close>

lemma rmatch_greedy_run:
  assumes "x \<noteq> []" "list_all (in_class c) x" "y = [] \<or> \<not> in_class c (hd y)"
    and "rmatch r (Some (last x)) (pos + length x) y = Some m"
  shows "rmatch (Rep c 1 None True # r) prev pos (x @ y) = Some m"
proof -
  have tw: "takeWhile (in_class c) (x @ y) = x"
    using assms(2,3) by (cases y) (simp_all add: list_all_iff takeWhile_append2)
  then have n: "run_len c None (x @ y) = length x" by (simp add: run_len_def)
  obtain k where k: "length x = Suc k" using assms(1) by (cases x) auto
  have "(x @ y) ! k = last x" using assms(1) k by (simp add: last_conv_nth nth_append)
  with assms(4) k show ?thesis by (simp add: n rep_counts_def)
qed

lemma in_class_Digit: "in_class Digit = is_digit"
  by (rule ext) simp

lemma rmatch_lits:
  "rmatch (lits w @ r) prev pos s =
     (if py_startswith s w then rmatch r (if w = [] then prev else Some (last w)) (pos + length w) (drop (length w) s)
      else None)"
proof (induction w arbitrary: prev pos s)
  case Nil
  then show ?case by (simp add: lits_def)
next
  case (Cons a w)
  show ?case
    by (cases s) (auto simp: lits_def Cons [unfolded lits_def])
qed

lemma rmatch_bol_lits:
  "rmatch (Bol # lits w) prev pos s = (if line_start prev \<and> py_startswith s w then Some (pos + length w, []) else None)"
  using rmatch_lits [of w "[]" prev pos s] by (simp add: line_start_def)

lemma rmatch_bol_lits_tail:
  "rmatch (Bol # lits w @ r) prev pos s =
     (if line_start prev \<and> py_startswith s w
      then rmatch r (if w = [] then prev else Some (last w)) (pos + length w) (drop (length w) s) else None)"
  using rmatch_lits [of w r prev pos s] by (simp add: line_start_def)

text \<open>A search for a line-anchored literal finds nothing where no line starts with it.\<close>

lemma search_from_bol_free:
  "bol_free w prev s \<Longrightarrow> search_from (Bol # lits w @ r) prev pos s = None"
proof (induction s arbitrary: prev pos)
  case Nil
  then show ?case by (cases w) (simp_all add: rmatch_bol_lits_tail py_startswith_code del: rmatch.simps)
next
  case (Cons c cs)
  then have "\<not> (line_start prev \<and> py_startswith (c # cs) w)" "bol_free w (Some c) cs" by simp_all
  then have "rmatch (Bol # lits w @ r) prev pos (c # cs) = None"
    and "search_from (Bol # lits w @ r) (Some c) (Suc pos) cs = None"
    using Cons.IH by (simp_all only: rmatch_bol_lits_tail if_False)
  then show ?case by (subst search_from.simps) (simp del: search_from.simps)
qed

lemma bol_free_prev: "line_start p = line_start q \<Longrightarrow> bol_free w p s = bol_free w q s"
  by (cases s) simp_all

lemma bol_free_plain_tail:
  "\<not> line_start prev \<Longrightarrow> nl \<notin> set x \<Longrightarrow>
     bol_free w prev (x @ y) = bol_free w (if x = [] then prev else Some (last x)) y"
proof (induction x arbitrary: prev)
  case Nil
  then show ?case by simp
next
  case (Cons a x)
  have "\<not> line_start (Some a)" using Cons.prems(2) by (auto simp: line_start_def)
  with Cons.IH [of "Some a"] Cons.prems show ?case by (simp add: line_start_def)
qed

lemma bol_free_replacement:
  assumes "x = a # x'" "nl \<notin> set x" "w \<noteq> []" "a \<noteq> hd w"
  shows "bol_free w prev (x @ y) = bol_free w (Some (last x)) y"
proof -
  have "\<not> py_startswith (a # x' @ y) w" using assms(3,4) by (cases w) auto
  moreover have "\<not> line_start (Some a)" using assms(1,2) by (auto simp: line_start_def)
  ultimately show ?thesis
    using bol_free_plain_tail [of "Some a" x' w y] assms(1,2) by simp
qed

lemma bol_free_drop:
  "bol_free w prev s \<Longrightarrow> k \<le> length s \<Longrightarrow> bol_free w (if k = 0 then prev else Some (s ! (k - 1))) (drop k s)"
proof (induction s arbitrary: prev k)
  case Nil
  then show ?case by simp
next
  case (Cons c cs)
  show ?case
  proof (cases k)
    case 0
    with Cons.prems show ?thesis by simp
  next
    case (Suc j)
    from Cons.prems have "bol_free w (Some c) cs" "j \<le> length cs" using Suc by auto
    from Cons.IH [OF this] Suc show ?thesis by (cases j) auto
  qed
qed

lemma not_in_bol_free: "\<not> py_in w s \<Longrightarrow> bol_free w prev s"
  by (induction s arbitrary: prev) auto

lemma bol_free_split:
  assumes "w \<noteq> []" "nl \<notin> set w"
  shows "bol_free w prev s \<longleftrightarrow>
     (line_start prev \<longrightarrow> \<not> py_startswith (hd (py_split nl s)) w) \<and>
     (\<forall>l \<in> set (tl (py_split nl s)). \<not> py_startswith l w)"
  using assms
proof (induction s arbitrary: prev)
  case Nil
  then show ?case by (cases w) auto
next
  case (Cons c cs)
  obtain y ys where ys: "py_split nl cs = y # ys" by (cases "py_split nl cs") auto
  have y: "y = takeWhile (\<lambda>x. x \<noteq> nl) cs" using hd_py_split [of nl cs] ys by simp
  show ?case
  proof (cases "c = nl")
    case True
    have "\<not> py_startswith (nl # cs) w" "\<not> py_startswith [] w" using Cons.prems by (cases w; auto)+
    then have "bol_free w prev (c # cs) = bol_free w (Some nl) cs" using True by simp
    also have "\<dots> \<longleftrightarrow> \<not> py_startswith y w \<and> (\<forall>l \<in> set ys. \<not> py_startswith l w)"
      using Cons.IH [of "Some nl"] Cons.prems ys by (simp add: line_start_def)
    finally show ?thesis using True ys \<open>\<not> py_startswith [] w\<close> by simp
  next
    case False
    have ns: "\<not> line_start (Some c)" using False by (simp add: line_start_def)
    have "py_startswith (c # cs) w \<longleftrightarrow> py_startswith (c # y) w"
      using startswith_takeWhile [of nl w "c # cs"] Cons.prems(2) False y by simp
    moreover have "bol_free w (Some c) cs \<longleftrightarrow> (\<forall>l \<in> set ys. \<not> py_startswith l w)"
      using Cons.IH [of "Some c"] Cons.prems ns ys by simp
    ultimately show ?thesis using False ys by simp
  qed
qed

lemma bol_free_lines:
  "w \<noteq> [] \<Longrightarrow> nl \<notin> set w \<Longrightarrow> bol_free w None s \<longleftrightarrow> (\<forall>l \<in> set (py_split nl s). \<not> py_startswith l w)"
  using bol_free_split [of w None s]
  by (cases "py_split nl s") (auto simp: line_start_def)

end
