(* ===== verification/Regex_Sub.thy ===== *)
theory Regex_Sub
  imports Regex
begin

text \<open>
  \<^verbatim>\<open>re.sub\<close> over the matcher of \<open>Regex\<close>: the scanning loop \<open>sub_scan\<close>
  (its termination rests on \<open>rmatch_bounds\<close>) and \<open>re_sub\<close>, which parses the
  replacement template first and raises before scanning when it is malformed.
\<close>

text \<open>
  \<open>sub_scan\<close> is the loop of \<^verbatim>\<open>re.sub\<close>: try a match at the current position; on a
  match, emit the expanded template and go on after it; otherwise copy one character.
  An empty match emits the template and then copies one character, as Python does when
  no longer match starts there; every pattern the scripts substitute consumes at least
  one character.
\<close>

function sub_scan :: "regex \<Rightarrow> titem list \<Rightarrow> char option \<Rightarrow> string \<Rightarrow> string" where
  "sub_scan p t prev s =
     (case rmatch p prev 0 s of
        Some (k, _) \<Rightarrow>
          if k = 0 then texpand t [] @ (case s of [] \<Rightarrow> [] | c # cs \<Rightarrow> c # sub_scan p t (Some c) cs)
          else texpand t (take k s) @ sub_scan p t (Some (s ! (k - 1))) (drop k s)
      | None \<Rightarrow> (case s of [] \<Rightarrow> [] | c # cs \<Rightarrow> c # sub_scan p t (Some c) cs))"
  by pat_completeness auto
termination
  by (relation "measure (\<lambda>(p, t, prev, s). length s)") (auto dest: rmatch_bounds)

declare sub_scan.simps [simp del]

definition re_sub :: "regex \<Rightarrow> string \<Rightarrow> string \<Rightarrow> exn + string" where
  "re_sub p repl s = sbind (ptpl repl) (\<lambda>t. Inr (sub_scan p t None s))"

lemmas regex_sub_defs [py_simps] = re_sub_def

section \<open>Lemmas\<close>

lemma re_sub_plain: "bsl \<notin> set r \<Longrightarrow> re_sub p r s = Inr (sub_scan p (map TChr r) None s)"
  by (simp add: re_sub_def ptpl_plain)

lemma re_sub_Inl:
  assumes "re_sub p r s = Inl e"
  shows "(e = ReError \<or> e = IndexError) \<and> bsl \<in> set r"
proof -
  from assms have t: "ptpl r = Inl e"
    by (cases "ptpl r") (simp_all add: re_sub_def)
  then have "bsl \<in> set r" using ptpl_plain [of r] by auto
  with ptpl_Inl [OF t] show ?thesis by simp
qed

lemma sub_scan_nomatch:
  "rmatch p prev 0 s = None \<Longrightarrow>
     sub_scan p t prev s = (case s of [] \<Rightarrow> [] | c # cs \<Rightarrow> c # sub_scan p t (Some c) cs)"
  by (simp add: sub_scan.simps [of p t prev s])

lemma sub_scan_match:
  "rmatch p prev 0 s = Some (k, ms) \<Longrightarrow> 0 < k \<Longrightarrow>
     sub_scan p t prev s = texpand t (take k s) @ sub_scan p t (Some (s ! (k - 1))) (drop k s)"
  by (simp add: sub_scan.simps [of p t prev s])

lemma sub_scan_not_bol:
  assumes "\<not> line_start prev"
  shows "sub_scan (Bol # r) t prev s = (case s of [] \<Rightarrow> [] | c # cs \<Rightarrow> c # sub_scan (Bol # r) t (Some c) cs)"
proof -
  have "rmatch (Bol # r) prev 0 s = None" using assms by (auto simp: line_start_def)
  then show ?thesis by (rule sub_scan_nomatch)
qed

lemma sub_scan_bol_prefix:
  "\<not> line_start prev \<Longrightarrow> nl \<notin> set v \<Longrightarrow> py_startswith (sub_scan (Bol # r) t prev s) v \<Longrightarrow> py_startswith s v"
proof (induction v arbitrary: prev s)
  case Nil
  then show ?case by simp
next
  case (Cons a v)
  from Cons.prems(1) have eq: "sub_scan (Bol # r) t prev s = (case s of [] \<Rightarrow> [] | c # cs \<Rightarrow> c # sub_scan (Bol # r) t (Some c) cs)"
    by (rule sub_scan_not_bol)
  show ?case
  proof (cases s)
    case Nil
    with Cons.prems(3) eq show ?thesis by simp
  next
    case (Cons c cs)
    with Cons.prems(3) eq have "c = a" "py_startswith (sub_scan (Bol # r) t (Some c) cs) v" by auto
    moreover have "\<not> line_start (Some c)" using Cons.prems(2) \<open>c = a\<close> by (auto simp: line_start_def)
    ultimately have "py_startswith cs v" using Cons.IH Cons.prems(2) by auto
    with \<open>s = c # cs\<close> \<open>c = a\<close> show ?thesis by simp
  qed
qed

text \<open>Substituting \<open>^w\<close> by a line that does not start like \<open>w\<close> leaves no line starting with \<open>w\<close>.\<close>

lemma sub_scan_bol_free:
  assumes "p = Bol # lits w" "t = map TChr r" "w \<noteq> []" "nl \<notin> set w" "r \<noteq> []" "nl \<notin> set r" "hd r \<noteq> hd w"
  shows "bol_free w prev (sub_scan p t prev s)"
  using assms
proof (induction p t prev s rule: sub_scan.induct)
  case (1 p t prev s)
  show ?case
  proof (cases "line_start prev \<and> py_startswith s w")
    case True
    then obtain s' where s: "s = w @ s'" by (auto simp: py_startswith_iff)
    have m: "rmatch p prev 0 s = Some (length w, [])"
      unfolding "1.prems"(1) rmatch_bol_lits using True by simp
    have eq: "sub_scan p t prev s = r @ sub_scan p t (Some (s ! (length w - 1))) (drop (length w) s)"
      using sub_scan_match [OF m] "1.prems"(2,3) by simp
    have ih: "bol_free w (Some (s ! (length w - 1))) (sub_scan p t (Some (s ! (length w - 1))) (drop (length w) s))"
      using "1.IH"(3) [OF m refl] "1.prems" by simp
    have "s ! (length w - 1) \<in> set w" using s "1.prems"(3) by (simp add: nth_append)
    moreover have "last r \<noteq> nl" using "1.prems"(5,6) last_in_set [of r] by metis
    ultimately have "line_start (Some (s ! (length w - 1))) = line_start (Some (last r))"
      using "1.prems"(4) by (auto simp: line_start_def)
    with ih have "bol_free w (Some (last r)) (sub_scan p t (Some (s ! (length w - 1))) (drop (length w) s))"
      using bol_free_prev by blast
    moreover obtain a r' where "r = a # r'" using "1.prems"(5) by (cases r) auto
    ultimately show ?thesis
      using eq bol_free_replacement [of r a r' w prev] "1.prems"(3,6,7) by simp
  next
    case False
    have m: "rmatch p prev 0 s = None"
      unfolding "1.prems"(1) rmatch_bol_lits using False by simp
    show ?thesis
    proof (cases s)
      case Nil
      with m "1.prems"(3) show ?thesis by (simp add: sub_scan_nomatch)
    next
      case (Cons c cs)
      have eq: "sub_scan p t prev s = c # sub_scan p t (Some c) cs"
        using m Cons by (simp add: sub_scan_nomatch)
      have ih: "bol_free w (Some c) (sub_scan p t (Some c) cs)"
        using "1.IH"(1) [OF m Cons] "1.prems" by simp
      have "\<not> (line_start prev \<and> py_startswith (c # sub_scan p t (Some c) cs) w)"
      proof
        assume a: "line_start prev \<and> py_startswith (c # sub_scan p t (Some c) cs) w"
        then obtain w' where w: "w = c # w'" "py_startswith (sub_scan p t (Some c) cs) w'"
          using "1.prems"(3) by (cases w) auto
        have "\<not> line_start (Some c)" using w(1) "1.prems"(4) by (auto simp: line_start_def)
        then have "py_startswith cs w'"
          using sub_scan_bol_prefix [of "Some c" w' "lits w" t cs] w "1.prems"(1,4) by simp
        with w(1) a False Cons show False by simp
      qed
      with ih eq show ?thesis by simp
    qed
  qed
qed

end
