(* ===== verification/Remote_Api.thy ===== *)
theory Remote_Api
  imports Prelude
begin

text \<open>
  The remote repository API as the scripts see it: \<^verbatim>\<open>_api_request(url)\<close> in
  \<^verbatim>\<open>src/.github/scripts/update_component.py\<close> returns the JSON document at a URL or
  raises. The hosting service is outside the program, so it is a parameter: a
  \<open>remote\<close> is any function from URLs to \<open>Some\<close> JSON document or \<open>None\<close> (an HTTP
  error, a network failure or unparsable JSON; \<^verbatim>\<open>urlopen\<close> raises on all of them).
  The theory also holds the Python operations the resolver applies to decoded JSON:
  \<^verbatim>\<open>d.get(k, default)\<close>, \<^verbatim>\<open>d[k]\<close>, iteration, \<^verbatim>\<open>.startswith\<close> on a value,
  truthiness, and \<^verbatim>\<open>str()\<close> as an f-string applies it.
  JSON numbers are integers here (the API sends no fractions in the fields read).
\<close>

datatype json =
    JNull
  | JBool bool
  | JInt int
  | JStr string
  | JList "json list"
  | JObj "(string \<times> json) list"

type_synonym remote = "string \<Rightarrow> json option"

definition api_request :: "remote \<Rightarrow> string \<Rightarrow> exn + json" where
  "api_request env url = (case env url of None \<Rightarrow> Inl RequestError | Some j \<Rightarrow> Inr j)"

section \<open>Dictionaries decoded by \<^verbatim>\<open>json.loads\<close>\<close>

text \<open>
  A decoded object with a repeated key keeps the last value at the first key's
  position; \<open>obj_lookup\<close> and \<open>obj_keys\<close> give that dictionary's lookup and key order.
\<close>

definition obj_lookup :: "(string \<times> json) list \<Rightarrow> string \<Rightarrow> json option" where
  "obj_lookup kvs k = map_of (rev kvs) k"

definition obj_keys :: "(string \<times> json) list \<Rightarrow> string list" where
  "obj_keys kvs = rev (remdups (rev (map fst kvs)))"

text \<open>\<^verbatim>\<open>d.get(k, default)\<close>: only a dictionary has \<^verbatim>\<open>get\<close>.\<close>

fun obj_get :: "json \<Rightarrow> string \<Rightarrow> json \<Rightarrow> exn + json" where
  "obj_get (JObj kvs) k dflt = Inr (case obj_lookup kvs k of None \<Rightarrow> dflt | Some v \<Rightarrow> v)"
| "obj_get _ k dflt = Inl AttributeError"

text \<open>\<^verbatim>\<open>d[k]\<close> with a string key.\<close>

fun obj_index :: "json \<Rightarrow> string \<Rightarrow> exn + json" where
  "obj_index (JObj kvs) k = (case obj_lookup kvs k of None \<Rightarrow> Inl KeyError | Some v \<Rightarrow> Inr v)"
| "obj_index _ k = Inl TypeError"

text \<open>\<^verbatim>\<open>for b in data\<close>: a list yields its items, a dictionary its keys, a string its characters.\<close>

fun py_iter :: "json \<Rightarrow> exn + json list" where
  "py_iter (JList xs) = Inr xs"
| "py_iter (JObj kvs) = Inr (map JStr (obj_keys kvs))"
| "py_iter (JStr s) = Inr (map (\<lambda>c. JStr [c]) s)"
| "py_iter _ = Inl TypeError"

text \<open>A value on which a \<^verbatim>\<open>str\<close> method is called must be a string.\<close>

fun as_str :: "json \<Rightarrow> exn + string" where
  "as_str (JStr s) = Inr s"
| "as_str _ = Inl AttributeError"

fun py_truthy :: "json \<Rightarrow> bool" where
  "py_truthy JNull \<longleftrightarrow> False"
| "py_truthy (JBool b) \<longleftrightarrow> b"
| "py_truthy (JInt i) \<longleftrightarrow> i \<noteq> 0"
| "py_truthy (JStr s) \<longleftrightarrow> s \<noteq> []"
| "py_truthy (JList xs) \<longleftrightarrow> xs \<noteq> []"
| "py_truthy (JObj kvs) \<longleftrightarrow> kvs \<noteq> []"

text \<open>Truthiness of an \<^verbatim>\<open>Optional[str]\<close>: present and not empty.\<close>

fun opt_truthy :: "string option \<Rightarrow> bool" where
  "opt_truthy None \<longleftrightarrow> False"
| "opt_truthy (Some s) \<longleftrightarrow> s \<noteq> []"

section \<open>\<^verbatim>\<open>str()\<close> of a JSON value, as an f-string formats it\<close>

fun dec_nat :: "nat \<Rightarrow> string" where
  "dec_nat n = (if n < 10 then [char_of (48 + n)] else dec_nat (n div 10) @ [char_of (48 + n mod 10)])"

declare dec_nat.simps [simp del]

definition dec_int :: "int \<Rightarrow> string" where
  "dec_int i = (if i < 0 then CHR ''-'' # dec_nat (nat (- i)) else dec_nat (nat i))"

definition hex_digit :: "nat \<Rightarrow> char" where
  "hex_digit d = (if d < 10 then char_of (48 + d) else char_of (87 + d))"

text \<open>\<^verbatim>\<open>repr\<close> of a string: the quote Python picks, and its escapes.\<close>

definition repr_quote :: "string \<Rightarrow> char" where
  "repr_quote s = (if CHR 0x27 \<in> set s \<and> CHR 0x22 \<notin> set s then CHR 0x22 else CHR 0x27)"

definition repr_char :: "char \<Rightarrow> char \<Rightarrow> string" where
  "repr_char q c =
     (let n = (of_char c :: nat) in
      if c = CHR 0x5C then [CHR 0x5C, CHR 0x5C]
      else if c = q then [CHR 0x5C, q]
      else if n = 9 then [CHR 0x5C, CHR ''t'']
      else if n = 10 then [CHR 0x5C, CHR ''n'']
      else if n = 13 then [CHR 0x5C, CHR ''r'']
      else if (32 \<le> n \<and> n \<le> 126) \<or> (161 \<le> n \<and> n \<noteq> 173) then [c]
      else [CHR 0x5C, CHR ''x'', hex_digit (n div 16), hex_digit (n mod 16)])"

definition repr_str :: "string \<Rightarrow> string" where
  "repr_str s = (let q = repr_quote s in q # concat (map (repr_char q) s) @ [q])"

function (sequential) py_repr :: "json \<Rightarrow> string" where
  "py_repr JNull = ''None''"
| "py_repr (JBool b) = (if b then ''True'' else ''False'')"
| "py_repr (JInt i) = dec_int i"
| "py_repr (JStr s) = repr_str s"
| "py_repr (JList xs) = CHR ''['' # py_join '', '' (map py_repr xs) @ '']''"
| "py_repr (JObj kvs) =
     CHR ''{'' # py_join '', ''
       (map (\<lambda>k. repr_str k @ '': '' @ (case obj_lookup kvs k of Some v \<Rightarrow> py_repr v | None \<Rightarrow> ''''))
          (obj_keys kvs)) @ ''}''"
  by pat_completeness auto
termination
proof (relation "measure size")
  fix kvs :: "(string \<times> json) list" and k v
  assume "obj_lookup kvs k = Some v"
  then have "(k, v) \<in> set kvs" by (auto simp: obj_lookup_def dest: map_of_SomeD)
  then have "size v \<le> size_list (size_prod (\<lambda>x. 0) size) kvs"
    by (rule size_list_estimation') simp
  then show "(v, JObj kvs) \<in> measure size" by simp
next
  fix xs :: "json list" and x
  assume "x \<in> set xs"
  then have "size x \<le> size_list size xs"
    by (rule size_list_estimation') simp
  then show "(x, JList xs) \<in> measure size" by simp
qed auto

fun py_str :: "json \<Rightarrow> string" where
  "py_str (JStr s) = s"
| "py_str j = py_repr j"

lemmas json_simps [py_simps] = api_request_def obj_lookup_def obj_keys_def

end
