(* ===== verification/Branch_Resolver.thy ===== *)
theory Branch_Resolver
  imports Regex_Sub Remote_Api
begin

text \<open>
  The branch resolver of \<^verbatim>\<open>src/.github/scripts/update_component.py\<close>: the methods of
  \<^verbatim>\<open>ComponentUpdater\<close> that find the release branch containing a tag
  (\<^verbatim>\<open>find_tag_branch\<close> and its helpers, lines 47--157), the branch recorded in a recipe
  (\<^verbatim>\<open>get_current_branch_from_bb\<close>, lines 164--177), and the three-tier choice
  \<^verbatim>\<open>update_bb_file\<close> makes from them (lines 214--230), as \<open>resolve_branch\<close>.
  Every helper is a computation in \<open>exn + _\<close> wrapped in the \<^verbatim>\<open>try/except\<close> the
  source puts around it, so the lemmas can show which failures are absorbed where.
\<close>

record updater =
  github_org :: string
  api_base :: string

definition mk_updater :: "string \<Rightarrow> updater" where
  "mk_updater org = \<lparr>github_org = org, api_base = ''https://api.github.com''\<rparr>"

definition repo_url :: "updater \<Rightarrow> string \<Rightarrow> string" where
  "repo_url u repo = api_base u @ ''/repos/'' @ github_org u @ ''/'' @ repo"

section \<open>Tier 1: the commit behind the tag, and a release branch containing it\<close>

text \<open>\<^verbatim>\<open>_get_tag_sha\<close>: \<^verbatim>\<open>data.get('object', {}).get('sha')\<close>, \<^verbatim>\<open>None\<close> on any error.\<close>

definition get_tag_sha :: "updater \<Rightarrow> remote \<Rightarrow> string \<Rightarrow> string \<Rightarrow> exn + json" where
  "get_tag_sha u env repo tag =
     py_try
       (sbind (api_request env (repo_url u repo @ ''/git/refs/tags/'' @ tag)) (\<lambda>data.
        sbind (obj_get data ''object'' (JObj [])) (\<lambda>obj. obj_get obj ''sha'' JNull)))
       (\<lambda>_. Inr JNull)"

text \<open>\<^verbatim>\<open>_get_commit_sha\<close>: dereference an annotated tag; on any error the tag's own SHA.\<close>

definition get_commit_sha :: "updater \<Rightarrow> remote \<Rightarrow> string \<Rightarrow> json \<Rightarrow> exn + json" where
  "get_commit_sha u env repo tag_sha =
     py_try
       (sbind (api_request env (repo_url u repo @ ''/git/tags/'' @ py_str tag_sha)) (\<lambda>data.
        sbind (obj_get data ''object'' (JObj [])) (\<lambda>obj. obj_get obj ''sha'' tag_sha)))
       (\<lambda>_. Inr tag_sha)"

text \<open>\<^verbatim>\<open>_branch_contains_commit\<close>: the compare status is \<^verbatim>\<open>identical\<close> or \<^verbatim>\<open>behind\<close>.\<close>

definition branch_contains_commit :: "updater \<Rightarrow> remote \<Rightarrow> string \<Rightarrow> string \<Rightarrow> json \<Rightarrow> exn + bool" where
  "branch_contains_commit u env repo branch commit_sha =
     py_try
       (sbind (api_request env (repo_url u repo @ ''/compare/'' @ branch @ ''...'' @ py_str commit_sha))
          (\<lambda>data. sbind (obj_get data ''status'' (JStr [])) (\<lambda>st.
             Inr (st = JStr ''identical'' \<or> st = JStr ''behind''))))
       (\<lambda>_. Inr False)"

text \<open>
  The list comprehension of \<^verbatim>\<open>_find_branch_containing_commit\<close>:
  \<^verbatim>\<open>[b['name'] for b in branches_data if b['name'].startswith('releases/')]\<close>.
\<close>

fun release_names :: "json list \<Rightarrow> exn + string list" where
  "release_names [] = Inr []"
| "release_names (b # bs) =
     sbind (obj_index b ''name'') (\<lambda>n. sbind (as_str n) (\<lambda>name.
       if py_startswith name ''releases/''
       then sbind (release_names bs) (\<lambda>rest. Inr (name # rest))
       else release_names bs))"

text \<open>The loop \<^verbatim>\<open>for branch in release_branches: if ...: return branch\<close>.\<close>

fun first_containing :: "updater \<Rightarrow> remote \<Rightarrow> string \<Rightarrow> json \<Rightarrow> string list \<Rightarrow> exn + string option" where
  "first_containing u env repo c [] = Inr None"
| "first_containing u env repo c (b # bs) =
     sbind (branch_contains_commit u env repo b c) (\<lambda>yes.
       if yes then Inr (Some b) else first_containing u env repo c bs)"

definition find_branch_containing_commit ::
  "updater \<Rightarrow> remote \<Rightarrow> string \<Rightarrow> json \<Rightarrow> exn + string option" where
  "find_branch_containing_commit u env repo commit_sha =
     py_try
       (sbind (api_request env (repo_url u repo @ ''/branches'')) (\<lambda>data.
        sbind (py_iter data) (\<lambda>bs.
        sbind (release_names bs) (\<lambda>names.
        first_containing u env repo commit_sha names))))
       (\<lambda>_. Inr None)"

section \<open>Tier 2: naming-convention guesses\<close>

definition major_minor :: "string \<Rightarrow> string" where
  "major_minor version = py_join ''.'' (take 2 (py_split CHR ''.'' version))"

definition branch_patterns :: "string \<Rightarrow> string list" where
  "branch_patterns tag =
     (let version = py_lstrip CHR ''v'' tag; mm = major_minor version in
      [''releases/'' @ mm @ ''.0-main'',
       ''releases/'' @ version @ ''-main'',
       ''releases/'' @ mm @ ''-main'',
       ''release-'' @ mm,
       ''release-'' @ version])"

definition branch_exists :: "updater \<Rightarrow> remote \<Rightarrow> string \<Rightarrow> string \<Rightarrow> exn + bool" where
  "branch_exists u env repo branch =
     py_try (sbind (api_request env (repo_url u repo @ ''/branches/'' @ branch)) (\<lambda>_. Inr True))
       (\<lambda>_. Inr False)"

fun first_existing :: "updater \<Rightarrow> remote \<Rightarrow> string \<Rightarrow> string list \<Rightarrow> exn + string option" where
  "first_existing u env repo [] = Inr None"
| "first_existing u env repo (p # ps) =
     sbind (branch_exists u env repo p) (\<lambda>yes.
       if yes then Inr (Some p) else first_existing u env repo ps)"

definition find_branch_by_pattern :: "updater \<Rightarrow> remote \<Rightarrow> string \<Rightarrow> string \<Rightarrow> exn + string option" where
  "find_branch_by_pattern u env repo tag = first_existing u env repo (branch_patterns tag)"

section \<open>\<^verbatim>\<open>find_tag_branch\<close>\<close>

definition find_tag_branch :: "updater \<Rightarrow> remote \<Rightarrow> string \<Rightarrow> string \<Rightarrow> exn + string option" where
  "find_tag_branch u env repo tag =
     py_try
       (sbind (get_tag_sha u env repo tag) (\<lambda>tag_sha.
        sbind (if py_truthy tag_sha then
                 sbind (get_commit_sha u env repo tag_sha) (\<lambda>commit_sha.
                   if py_truthy commit_sha then find_branch_containing_commit u env repo commit_sha
                   else Inr None)
               else Inr None) (\<lambda>b1.
        if opt_truthy b1 then Inr b1
        else sbind (find_branch_by_pattern u env repo tag) (\<lambda>b2.
          if opt_truthy b2 then Inr b2 else Inr None))))
       (\<lambda>_. Inr None)"

section \<open>The branch recorded in the recipe\<close>

text \<open>
  A name interpolated into a pattern is regex text: in GitHub organisation and
  repository names (letters, digits, \<^verbatim>\<open>-\<close>, \<^verbatim>\<open>_\<close>, \<^verbatim>\<open>.\<close>) only \<^verbatim>\<open>.\<close> is a
  metacharacter, matching any character but a newline.
\<close>

definition re_name :: "string \<Rightarrow> regex" where
  "re_name w = map (\<lambda>c. if c = CHR ''.'' then Atom AnyNoNl else Atom (Chr c)) w"

text \<open>
  The names \<open>re_name\<close> translates faithfully: non-empty strings of ASCII letters,
  digits, \<^verbatim>\<open>-\<close>, \<^verbatim>\<open>_\<close> and \<^verbatim>\<open>.\<close>, the characters GitHub allows in
  organisation and repository names. Any other character is regex syntax to Python
  (\<^verbatim>\<open>wan(\<close> makes \<^verbatim>\<open>re.compile\<close> raise) and is kept literal here.
\<close>

definition github_name :: "string \<Rightarrow> bool" where
  "github_name w \<longleftrightarrow> w \<noteq> [] \<and>
     list_all (\<lambda>c. is_ascii_letter c \<or> is_digit c \<or> c \<in> set ''-_.'') w"

text \<open>\<^verbatim>\<open>rf"^#SRC_URI.*github\.com/{org}/{repo}.*?branch=([^;]+)"\<close>\<close>

definition current_branch_re :: "updater \<Rightarrow> string \<Rightarrow> regex" where
  "current_branch_re u repo =
     [Bos] @ lits ''#SRC_URI'' @ [Rep AnyNoNl 0 None True] @ lits ''github.com/'' @
     re_name (github_org u) @ lits ''/'' @ re_name repo @ [Rep AnyNoNl 0 None False] @
     lits ''branch='' @ [Mark, Rep (NoneOf '';'') 1 None True, Mark]"

definition get_current_branch_from_bb :: "updater \<Rightarrow> fs \<Rightarrow> string \<Rightarrow> string \<Rightarrow> string option" where
  "get_current_branch_from_bb u files path repo =
     (case files path of
        None \<Rightarrow> None
      | Some content \<Rightarrow>
          first_some (\<lambda>line. map_option (group1 line) (re_search (current_branch_re u repo) line))
            (py_split nl content))"

section \<open>The three tiers, as \<^verbatim>\<open>update_bb_file\<close> chains them\<close>

definition fallback_branch :: "string \<Rightarrow> string" where
  "fallback_branch tag = ''releases/'' @ major_minor (py_lstrip CHR ''v'' tag) @ ''.0-main''"

definition resolve_branch :: "updater \<Rightarrow> remote \<Rightarrow> fs \<Rightarrow> string \<Rightarrow> string \<Rightarrow> string \<Rightarrow> exn + string" where
  "resolve_branch u env files path repo tag =
     sbind (find_tag_branch u env repo tag) (\<lambda>b.
       if opt_truthy b then Inr (the b)
       else (let b' = get_current_branch_from_bb u files path repo in
             if opt_truthy b' then Inr (the b') else Inr (fallback_branch tag)))"

section \<open>Example remotes and recipes\<close>

text \<open>
  A remote in the shape of the GitHub API for \<^verbatim>\<open>rdkcentral/wan-manager\<close>: the
  annotated tag \<^verbatim>\<open>v2.11.0\<close> points at commit \<^verbatim>\<open>ccc\<close>, which
  \<^verbatim>\<open>releases/2.11.0-main\<close> contains and \<^verbatim>\<open>releases/2.10.0-main\<close> does not.
\<close>

definition wan_base :: string where
  "wan_base = ''https://api.github.com/repos/rdkcentral/wan-manager''"

definition demo_remote :: remote where
  "demo_remote url =
     (if url = wan_base @ ''/git/refs/tags/v2.11.0''
      then Some (JObj [(''object'', JObj [(''sha'', JStr ''aaa''), (''type'', JStr ''tag'')])])
      else if url = wan_base @ ''/git/tags/aaa'' then Some (JObj [(''object'', JObj [(''sha'', JStr ''ccc'')])])
      else if url = wan_base @ ''/branches''
      then Some (JList [JObj [(''name'', JStr ''develop'')], JObj [(''name'', JStr ''releases/2.10.0-main'')],
                        JObj [(''name'', JStr ''releases/2.11.0-main'')]])
      else if url = wan_base @ ''/compare/releases/2.10.0-main...ccc'' then Some (JObj [(''status'', JStr ''diverged'')])
      else if url = wan_base @ ''/compare/releases/2.11.0-main...ccc'' then Some (JObj [(''status'', JStr ''behind'')])
      else None)"

text \<open>
  A remote where the lightweight tag \<^verbatim>\<open>v2.2.0\<close> was cut on \<^verbatim>\<open>releases/2.2.0-main\<close>,
  and \<^verbatim>\<open>releases/2.10.0-main\<close>, branched later, contains the same commit. The
  branch list comes in the API's name order, in which \<^verbatim>\<open>2.10\<close> sorts before \<^verbatim>\<open>2.2\<close>.
\<close>

definition later_branch_remote :: remote where
  "later_branch_remote url =
     (if url = wan_base @ ''/git/refs/tags/v2.2.0'' then Some (JObj [(''object'', JObj [(''sha'', JStr ''ddd'')])])
      else if url = wan_base @ ''/branches''
      then Some (JList [JObj [(''name'', JStr ''releases/2.10.0-main'')], JObj [(''name'', JStr ''releases/2.2.0-main'')]])
      else if url = wan_base @ ''/compare/releases/2.10.0-main...ddd'' then Some (JObj [(''status'', JStr ''behind'')])
      else if url = wan_base @ ''/compare/releases/2.2.0-main...ddd'' then Some (JObj [(''status'', JStr ''behind'')])
      else None)"

text \<open>Recipes whose disabled \<^verbatim>\<open>#SRC_URI\<close> line records a branch.\<close>

definition recorded_recipe :: string where
  "recorded_recipe = ''SUMMARY = x'' @ [nl] @ ''#SRC_URI = '' @ [dq] @
     ''git://github.com/rdkcentral/wan-manager.git;branch=releases/2.10.0-main;protocol=https'' @ [dq] @
     [nl] @ ''SRCREV = abc''"

definition branch_last_recipe :: string where
  "branch_last_recipe = ''#SRC_URI = '' @ [dq] @
     ''git://github.com/rdkcentral/wan-manager.git;protocol=https;branch=releases/2.10.0-main'' @ [dq]"

definition one_file :: "string \<Rightarrow> fs" where
  "one_file content = (\<lambda>p. if p = ''rdk-wanmanager.bb'' then Some content else None)"

section \<open>Lemmas\<close>

lemmas resolver_defs [py_simps] = mk_updater_def repo_url_def get_tag_sha_def get_commit_sha_def
  branch_contains_commit_def find_branch_containing_commit_def major_minor_def branch_patterns_def
  branch_exists_def find_branch_by_pattern_def find_tag_branch_def re_name_def current_branch_re_def
  get_current_branch_from_bb_def fallback_branch_def resolve_branch_def

subsection \<open>Each helper absorbs its own failures\<close>

lemma branch_exists_eq:
  "branch_exists u env repo b = Inr (env (repo_url u repo @ ''/branches/'' @ b) \<noteq> None)"
  by (simp add: branch_exists_def py_try_const api_request_def split: option.splits)

lemma first_existing_find:
  "first_existing u env repo ps = Inr (find (\<lambda>p. env (repo_url u repo @ ''/branches/'' @ p) \<noteq> None) ps)"
  by (induction ps) (simp_all add: branch_exists_eq)

lemma branch_contains_commit_total: "\<exists>r. branch_contains_commit u env repo b c = Inr r"
  by (simp add: branch_contains_commit_def py_try_const)

lemma first_containing_sound:
  "first_containing u env repo c ns = Inr (Some b) \<Longrightarrow>
     b \<in> set ns \<and> branch_contains_commit u env repo b c = Inr True"
proof (induction ns)
  case Nil
  then show ?case by simp
next
  case (Cons n ns)
  obtain r where r: "branch_contains_commit u env repo n c = Inr r"
    using branch_contains_commit_total by blast
  with Cons show ?case by (cases r) auto
qed

lemma release_names_prefix:
  "release_names bs = Inr ns \<Longrightarrow> n \<in> set ns \<Longrightarrow> py_startswith n ''releases/''"
proof (induction bs arbitrary: ns)
  case Nil
  then show ?case by simp
next
  case (Cons b bs)
  then show ?case
    by (auto simp: sbind_eq_Inr_iff split: if_splits)
qed

lemma find_branch_containing_commit_sound:
  "find_branch_containing_commit u env repo c = Inr (Some b) \<Longrightarrow>
     py_startswith b ''releases/'' \<and> branch_contains_commit u env repo b c = Inr True"
  by (auto simp: find_branch_containing_commit_def py_try_const sbind_eq_Inr_iff
      split: sum.splits dest: first_containing_sound release_names_prefix)

lemma find_branch_by_pattern_sound:
  "find_branch_by_pattern u env repo tag = Inr (Some b) \<Longrightarrow>
     b \<in> set (branch_patterns tag) \<and> branch_exists u env repo b = Inr True"
  by (auto simp: find_branch_by_pattern_def first_existing_find branch_exists_eq
      dest: find_Some_iff [THEN iffD1] intro: nth_mem)

lemma branch_contains_commit_True:
  "branch_contains_commit u env repo b c = Inr True \<longleftrightarrow>
     (\<exists>d. env (repo_url u repo @ ''/compare/'' @ b @ ''...'' @ py_str c) = Some d \<and>
          (obj_get d ''status'' (JStr []) = Inr (JStr ''identical'') \<or>
           obj_get d ''status'' (JStr []) = Inr (JStr ''behind'')))"
  by (auto simp: branch_contains_commit_def py_try_const api_request_def sbind_def
      split: option.splits sum.splits)

lemma branch_exists_True:
  "branch_exists u env repo b = Inr True \<longleftrightarrow> env (repo_url u repo @ ''/branches/'' @ b) \<noteq> None"
  by (simp add: branch_exists_eq)

lemma find_tag_branch_tiers_sound:
  "find_tag_branch u env repo tag = Inr (Some b) \<Longrightarrow>
     (py_startswith b ''releases/'' \<and> (\<exists>c. branch_contains_commit u env repo b c = Inr True))
       \<or> (b \<in> set (branch_patterns tag) \<and> branch_exists u env repo b = Inr True)"
  by (auto simp: find_tag_branch_def py_try_const sbind_eq_Inr_iff split: sum.splits if_splits
      dest: find_branch_containing_commit_sound find_branch_by_pattern_sound)

lemma find_tag_branch_total: "\<exists>r. find_tag_branch u env repo tag = Inr r"
  by (simp add: find_tag_branch_def py_try_const)

lemma resolve_branch_total: "\<exists>b. resolve_branch u env files path repo tag = Inr b"
proof -
  obtain r where "find_tag_branch u env repo tag = Inr r"
    using find_tag_branch_total by blast
  then show ?thesis by (auto simp: resolve_branch_def Let_def)
qed

lemma find_tag_branch_outage: "find_tag_branch u (\<lambda>_. None) repo tag = Inr None"
  by (simp add: find_tag_branch_def get_tag_sha_def find_branch_by_pattern_def
      first_existing_find api_request_def py_try_const find_None_iff)

lemma release_name_patterns: "b \<in> set (branch_patterns tag) \<Longrightarrow> py_startswith b ''release''"
  by (auto simp: branch_patterns_def Let_def)

lemmas demo_simps = demo_remote_def later_branch_remote_def wan_base_def find_tag_branch_def
  get_tag_sha_def get_commit_sha_def find_branch_containing_commit_def branch_contains_commit_def
  repo_url_def mk_updater_def api_request_def obj_lookup_def obj_keys_def

subsection \<open>The resolver's contract\<close>

text \<open>
  C1. Resolution never fails and never yields an empty branch: whatever the remote
  answers and whatever the recipe holds, the three tiers of \<^verbatim>\<open>update_bb_file\<close>
  produce a non-empty branch name and raise nothing.
\<close>

theorem resolve_branch_nonempty: "\<exists>b. resolve_branch u env files path repo tag = Inr b \<and> b \<noteq> []"
proof -
  obtain r where r: "find_tag_branch u env repo tag = Inr r"
    using find_tag_branch_total by blast
  have "fallback_branch tag \<noteq> []" by (simp add: fallback_branch_def)
  with r show ?thesis
    by (cases r; cases "get_current_branch_from_bb u files path repo")
       (auto simp: resolve_branch_def Let_def)
qed

text \<open>
  C2. A branch \<^verbatim>\<open>find_tag_branch\<close> returns is backed by an answer of the remote:
  either it is a \<^verbatim>\<open>releases/\<close> branch and the compare request
  \<^verbatim>\<open>/compare/{branch}...{sha}\<close> succeeded with \<^verbatim>\<open>status\<close> \<^verbatim>\<open>identical\<close> or
  \<^verbatim>\<open>behind\<close>, or it is one of the naming-convention candidates for the tag and
  the request \<^verbatim>\<open>/branches/{branch}\<close> succeeded. A failed request never
  confirms a branch.
\<close>

theorem find_tag_branch_sound:
  assumes "find_tag_branch u env repo tag = Inr (Some b)"
  shows "(py_startswith b ''releases/'' \<and>
          (\<exists>c d. env (repo_url u repo @ ''/compare/'' @ b @ ''...'' @ py_str c) = Some d \<and>
             (obj_get d ''status'' (JStr []) = Inr (JStr ''identical'') \<or>
              obj_get d ''status'' (JStr []) = Inr (JStr ''behind''))))
       \<or> (b \<in> set (branch_patterns tag) \<and> env (repo_url u repo @ ''/branches/'' @ b) \<noteq> None)"
  using find_tag_branch_tiers_sound [OF assms]
  unfolding branch_contains_commit_True branch_exists_True by blast

theorem find_tag_branch_sound_witness:
  "find_tag_branch (mk_updater ''rdkcentral'') demo_remote ''wan-manager'' ''v2.11.0''
     = Inr (Some ''releases/2.11.0-main'') \<and>
   ((py_startswith ''releases/2.11.0-main'' ''releases/'' \<and>
     (\<exists>c d. demo_remote (repo_url (mk_updater ''rdkcentral'') ''wan-manager'' @ ''/compare/'' @
               ''releases/2.11.0-main'' @ ''...'' @ py_str c) = Some d \<and>
        (obj_get d ''status'' (JStr []) = Inr (JStr ''identical'') \<or>
         obj_get d ''status'' (JStr []) = Inr (JStr ''behind''))))
    \<or> (''releases/2.11.0-main'' \<in> set (branch_patterns ''v2.11.0'') \<and>
        demo_remote (repo_url (mk_updater ''rdkcentral'') ''wan-manager'' @ ''/branches/'' @
          ''releases/2.11.0-main'') \<noteq> None))"
proof -
  have r: "find_tag_branch (mk_updater ''rdkcentral'') demo_remote ''wan-manager'' ''v2.11.0''
     = Inr (Some ''releases/2.11.0-main'')"
    by (simp add: demo_simps)
  show ?thesis using find_tag_branch_sound [OF r] r by blast
qed

text \<open>
  C3. When every request to the remote fails, the resolved branch is the one recorded
  in the recipe's disabled \<^verbatim>\<open>#SRC_URI\<close> line if there is one, and otherwise
  \<^verbatim>\<open>releases/{major}.{minor}.0-main\<close> built from the tag.
\<close>

theorem resolve_branch_outage:
  "resolve_branch u (\<lambda>_. None) files path repo tag =
     Inr (case get_current_branch_from_bb u files path repo of
            Some b \<Rightarrow> if b = [] then fallback_branch tag else b
          | None \<Rightarrow> fallback_branch tag)"
  by (simp add: resolve_branch_def find_tag_branch_outage Let_def split: option.splits)

text \<open>
  C4. The naming-convention tier probes the five candidates in the source's order and
  returns the first one the branch API answers for.
\<close>

theorem find_branch_by_pattern_first:
  "find_branch_by_pattern u env repo tag =
     Inr (find (\<lambda>b. env (repo_url u repo @ ''/branches/'' @ b) \<noteq> None) (branch_patterns tag))"
  by (simp add: find_branch_by_pattern_def first_existing_find)

text \<open>
  C5. A branch read back from the recipe is never empty and never contains a
  \<^verbatim>\<open>;\<close>: the capture group \<^verbatim>\<open>([^;]+)\<close> takes the whole run of non-\<^verbatim>\<open>;\<close>
  characters after \<^verbatim>\<open>branch=\<close>.
\<close>

theorem get_current_branch_from_bb_wf:
  "get_current_branch_from_bb u files path repo = Some b \<Longrightarrow> b \<noteq> [] \<and> CHR '';'' \<notin> set b"
proof -
  assume a: "get_current_branch_from_bb u files path repo = Some b"
  let ?p = "[Bos] @ lits ''#SRC_URI'' @ [Rep AnyNoNl 0 None True] @ lits ''github.com/'' @
     re_name (github_org u) @ lits ''/'' @ re_name repo @ [Rep AnyNoNl 0 None False] @ lits ''branch=''"
  have re: "current_branch_re u repo = ?p @ [Mark, Rep (NoneOf '';'') 1 None True, Mark]"
    by (simp add: current_branch_re_def)
  have nm: "Mark \<notin> set ?p" by (auto simp: lits_def re_name_def)
  from a obtain content line m where "line \<in> set (py_split nl content)"
    "re_search (current_branch_re u repo) line = Some m" "b = group1 line m"
    by (auto simp: get_current_branch_from_bb_def split: option.splits dest!: first_some_Some_D)
  with re_search_group [of ?p "NoneOf '';''" line m] re nm show ?thesis by auto
qed

theorem get_current_branch_from_bb_wf_witness:
  "get_current_branch_from_bb (mk_updater ''rdkcentral'') (one_file recorded_recipe) ''rdk-wanmanager.bb''
     ''wan-manager'' = Some ''releases/2.10.0-main'' \<and>
   ''releases/2.10.0-main'' \<noteq> [] \<and> CHR '';'' \<notin> set ''releases/2.10.0-main''"
proof -
  have r: "get_current_branch_from_bb (mk_updater ''rdkcentral'') (one_file recorded_recipe) ''rdk-wanmanager.bb''
     ''wan-manager'' = Some ''releases/2.10.0-main''"
    by (code_simp)
  show ?thesis using get_current_branch_from_bb_wf [OF r] r by blast
qed

end
