(* ===== verification/Recipe_Mutator.thy ===== *)
theory Recipe_Mutator
  imports Branch_Resolver
begin

text \<open>
  The recipe mutator, \<^verbatim>\<open>ComponentUpdater.update_bb_file\<close> of
  \<^verbatim>\<open>src/.github/scripts/update_component.py\<close> (lines 179--341): the input
  classification (lines 196--203), the tag-mode rewrite (lines 210--288), the
  branch-mode rewrite (lines 290--332), the blank-line collapse (line 335) and the write
  (line 338). Each \<^verbatim>\<open>re.sub\<close> is \<open>re_sub\<close> with the pattern translated atom by atom,
  each \<^verbatim>\<open>str.replace\<close> is \<open>py_replace\<close>, each \<^verbatim>\<open>'x' in content\<close> is \<open>py_in\<close>.
  The file system is explicit: \<open>update_bb_file\<close> returns the success flag and the new
  file system, or the exception that escapes (a malformed replacement template).
\<close>

section \<open>Classifying the input\<close>

text \<open>\<^verbatim>\<open>re.match(r'^v\d+\.\d+\.\d+', s)\<close>\<close>

definition version_tag_re :: regex where
  "version_tag_re =
     [Bos, Atom (Chr CHR ''v''), Rep Digit 1 None True, Atom (Chr CHR ''.''), Rep Digit 1 None True,
      Atom (Chr CHR ''.''), Rep Digit 1 None True]"

definition is_version_tag :: "string \<Rightarrow> bool" where
  "is_version_tag s \<longleftrightarrow> py_startswith s ''v'' \<and> re_match version_tag_re s \<noteq> None"

definition is_release_branch :: "string \<Rightarrow> bool" where
  "is_release_branch s \<longleftrightarrow> py_startswith s ''releases/'' \<and> py_endswith s ''-main''"

section \<open>Patterns and lines of the rewrite\<close>

text \<open>\<^verbatim>\<open>r'GIT_TAG = ".*"'\<close> and \<^verbatim>\<open>r'PV = ".*"'\<close>\<close>

definition git_tag_re :: regex where
  "git_tag_re = lits ''GIT_TAG = '' @ [Atom (Chr dq), Rep AnyNoNl 0 None True, Atom (Chr dq)]"

definition pv_re :: regex where
  "pv_re = lits ''PV = '' @ [Atom (Chr dq), Rep AnyNoNl 0 None True, Atom (Chr dq)]"

text \<open>\<^verbatim>\<open>rf'SRC_URI\s*[:=]+\s*"git://github\.com/{org}/{repo}\.git[^"]*"'\<close>\<close>

definition src_uri_re :: "updater \<Rightarrow> string \<Rightarrow> regex" where
  "src_uri_re u repo =
     lits ''SRC_URI'' @ [Rep Space 0 None True, Rep (OneOf '':='') 1 None True, Rep Space 0 None True,
       Atom (Chr dq)] @ lits ''git://github.com/'' @ re_name (github_org u) @ lits ''/'' @
     re_name repo @ lits ''.git'' @ [Rep (NoneOf [dq]) 0 None True, Atom (Chr dq)]"

text \<open>
  \<^verbatim>\<open>r'^SRCREV = '\<close>, \<^verbatim>\<open>r'^#SRCREV = '\<close>, \<^verbatim>\<open>r'^GIT_TAG = ".*"\n?'\<close> under
  \<^verbatim>\<open>re.MULTILINE\<close>; \<^verbatim>\<open>r'PV = "\$\{GIT_TAG\}\+git\$\{SRCPV\}"'\<close> (all literal);
  \<^verbatim>\<open>r'\n{3,}'\<close>.
\<close>

definition srcrev_line_re :: regex where
  "srcrev_line_re = Bol # lits ''SRCREV = ''"

definition disabled_srcrev_re :: regex where
  "disabled_srcrev_re = Bol # lits ''#SRCREV = ''"

definition git_tag_line_re :: regex where
  "git_tag_line_re =
     Bol # lits ''GIT_TAG = '' @ [Atom (Chr dq), Rep AnyNoNl 0 None True, Atom (Chr dq),
       Rep (Chr nl) 0 (Some 1) True]"

definition pv_line :: string where
  "pv_line = ''PV = '' @ [dq] @ ''${GIT_TAG}+git${SRCPV}'' @ [dq]"

definition pv_tag_re :: regex where
  "pv_tag_re = lits pv_line"

definition blank_run_re :: regex where
  "blank_run_re = [Rep (Chr nl) 3 None True]"

definition autorev_line :: string where
  "autorev_line = ''SRCREV = '' @ [dq] @ ''${AUTOREV}'' @ [dq]"

definition git_tag_line :: "string \<Rightarrow> string" where
  "git_tag_line tag = ''GIT_TAG = '' @ [dq] @ tag @ [dq]"

definition release_comment :: string where
  "release_comment = ''# Please use below part only for official release and release candidates''"

text \<open>The two \<^verbatim>\<open>new_src_uri\<close> lines (lines 260 and 303).\<close>

definition tag_src_uri :: "updater \<Rightarrow> string \<Rightarrow> string \<Rightarrow> string \<Rightarrow> string" where
  "tag_src_uri u repo branch cname =
     ''SRC_URI := '' @ [dq] @ ''git://github.com/'' @ github_org u @ ''/'' @ repo @ ''.git;branch='' @
     branch @ '';protocol=https;name='' @ cname @ '';tag=${GIT_TAG}'' @ [dq]"

definition branch_src_uri :: "updater \<Rightarrow> string \<Rightarrow> string \<Rightarrow> string \<Rightarrow> string" where
  "branch_src_uri u repo branch cname =
     ''SRC_URI = '' @ [dq] @ ''git://github.com/'' @ github_org u @ ''/'' @ repo @ ''.git;branch='' @
     branch @ '';protocol=https;name='' @ cname @ '';'' @ [dq]"

section \<open>Tag mode\<close>

text \<open>
  Where \<^verbatim>\<open>GIT_TAG\<close> goes when the recipe has none (lines 235--243): after the first
  line mentioning \<^verbatim>\<open>LIC_FILES_CHKSUM\<close>, else after the first mentioning
  \<^verbatim>\<open>DEPENDS\<close>; \<open>-1\<close> when neither occurs.
\<close>

fun insert_index :: "nat \<Rightarrow> int \<Rightarrow> string list \<Rightarrow> int" where
  "insert_index i idx [] = idx"
| "insert_index i idx (l # ls) =
     (if py_in ''LIC_FILES_CHKSUM'' l then int (i + 1)
      else if py_in ''DEPENDS'' l \<and> idx = -1 then insert_index (Suc i) (int (i + 1)) ls
      else insert_index (Suc i) idx ls)"

definition insert_git_tag :: "string \<Rightarrow> string \<Rightarrow> string" where
  "insert_git_tag tag content =
     (let lines = py_split nl content; idx = insert_index 0 (-1) lines in
      if 0 < idx then
        (let i = nat idx;
             l1 = py_list_insert i [] lines;
             l2 = py_list_insert (i + 1) release_comment l1;
             l3 = py_list_insert (i + 2) (git_tag_line tag) l2
         in py_join [nl] l3)
      else content)"

text \<open>Lines 232--288, once the branch is known.\<close>

definition tag_mode_edit ::
  "updater \<Rightarrow> string \<Rightarrow> string \<Rightarrow> string \<Rightarrow> string \<Rightarrow> string \<Rightarrow> exn + string" where
  "tag_mode_edit u repo cname tag branch c0 =
     sbind (if \<not> py_in ''GIT_TAG = '' c0 then Inr (insert_git_tag tag c0)
            else re_sub git_tag_re (git_tag_line tag) c0) (\<lambda>c1.
     (let new = tag_src_uri u repo branch cname in
      sbind (re_sub (src_uri_re u repo) new c1) (\<lambda>c2.
      sbind (if \<not> py_in ''PV = '' c2 then Inr (py_replace new (new @ [nl] @ pv_line) c2)
             else re_sub pv_re pv_line c2) (\<lambda>c3.
      re_sub srcrev_line_re ''#SRCREV = '' c3))))"

section \<open>Branch mode\<close>

text \<open>Lines 292--332.\<close>

definition branch_mode_edit ::
  "updater \<Rightarrow> string \<Rightarrow> string \<Rightarrow> string \<Rightarrow> string \<Rightarrow> exn + string" where
  "branch_mode_edit u repo cname branch c0 =
     sbind (re_sub git_tag_line_re [] c0) (\<lambda>c1.
     (let new = branch_src_uri u repo branch cname in
      sbind (re_sub (src_uri_re u repo) new c1) (\<lambda>c2.
      sbind (re_sub pv_tag_re autorev_line c2) (\<lambda>c3.
      sbind (re_sub disabled_srcrev_re ''SRCREV = '' c3) (\<lambda>c4.
      Inr (if \<not> py_in ''SRCREV = '' c4 then py_replace new (new @ [nl] @ autorev_line) c4
           else c4))))))"

section \<open>\<^verbatim>\<open>update_bb_file\<close>\<close>

text \<open>
  Arguments in the source's order: the tag or branch, the repository, the recipe path,
  the component name. A missing file and a malformed tag-or-branch return
  \<^verbatim>\<open>False\<close> with nothing written; otherwise the rewritten text, with runs of three
  or more newlines collapsed to two, replaces the file.
\<close>

definition update_bb_file ::
  "updater \<Rightarrow> remote \<Rightarrow> fs \<Rightarrow> string \<Rightarrow> string \<Rightarrow> string \<Rightarrow> string \<Rightarrow> exn + (bool \<times> fs)" where
  "update_bb_file u env files tb repo path cname =
     (case files path of
        None \<Rightarrow> Inr (False, files)
      | Some content \<Rightarrow>
          (if \<not> is_version_tag tb \<and> \<not> is_release_branch tb then Inr (False, files)
           else sbind (if is_version_tag tb
                       then sbind (resolve_branch u env files path repo tb) (\<lambda>branch.
                              tag_mode_edit u repo cname tb branch content)
                       else branch_mode_edit u repo cname tb content) (\<lambda>c.
                sbind (re_sub blank_run_re [nl, nl] c) (\<lambda>c'.
                Inr (True, files(path \<mapsto> c'))))))"

section \<open>Example recipes\<close>

text \<open>
  \<open>branch_recipe\<close> builds from a release branch; \<open>tagged_recipe\<close> is what
  \<^verbatim>\<open>update_bb_file('v2.11.0', ...)\<close> makes of it against \<open>demo_remote\<close>;
  \<open>branched_recipe\<close> is what \<^verbatim>\<open>update_bb_file('releases/2.12.0-main', ...)\<close>
  makes of \<open>tagged_recipe\<close>. The texts agree with what the Python script writes.
\<close>

definition branch_recipe :: string where
  "branch_recipe = py_join [nl] [
    ''SUMMARY = '' @ [dq] @ ''WAN Manager'' @ [dq],
    ''LIC_FILES_CHKSUM = '' @ [dq] @ ''file://LICENSE;md5=abc'' @ [dq],
    '''',
    ''SRC_URI = '' @ [dq] @ ''git://github.com/rdkcentral/wan-manager.git;branch=releases/2.10.0-main;protocol=https;name=WanManager;'' @ [dq],
    ''SRCREV = '' @ [dq] @ ''${AUTOREV}'' @ [dq], '''']"

definition tagged_recipe :: string where
  "tagged_recipe = py_join [nl] [
    ''SUMMARY = '' @ [dq] @ ''WAN Manager'' @ [dq],
    ''LIC_FILES_CHKSUM = '' @ [dq] @ ''file://LICENSE;md5=abc'' @ [dq],
    '''',
    ''# Please use below part only for official release and release candidates'',
    ''GIT_TAG = '' @ [dq] @ ''v2.11.0'' @ [dq],
    '''',
    ''SRC_URI := '' @ [dq] @ ''git://github.com/rdkcentral/wan-manager.git;branch=releases/2.11.0-main;protocol=https;name=WanManager;tag=${GIT_TAG}'' @ [dq],
    ''PV = '' @ [dq] @ ''${GIT_TAG}+git${SRCPV}'' @ [dq],
    ''#SRCREV = '' @ [dq] @ ''${AUTOREV}'' @ [dq], '''']"

definition branched_recipe :: string where
  "branched_recipe = py_join [nl] [
    ''SUMMARY = '' @ [dq] @ ''WAN Manager'' @ [dq],
    ''LIC_FILES_CHKSUM = '' @ [dq] @ ''file://LICENSE;md5=abc'' @ [dq],
    '''',
    ''# Please use below part only for official release and release candidates'',
    '''',
    ''SRC_URI = '' @ [dq] @ ''git://github.com/rdkcentral/wan-manager.git;branch=releases/2.12.0-main;protocol=https;name=WanManager;'' @ [dq],
    ''SRCREV = '' @ [dq] @ ''${AUTOREV}'' @ [dq],
    ''SRCREV = '' @ [dq] @ ''${AUTOREV}'' @ [dq], '''']"

lemmas mutator_defs [py_simps] = version_tag_re_def is_version_tag_def is_release_branch_def
  git_tag_re_def pv_re_def src_uri_re_def srcrev_line_re_def disabled_srcrev_re_def
  git_tag_line_re_def pv_line_def pv_tag_re_def blank_run_re_def autorev_line_def git_tag_line_def
  release_comment_def tag_src_uri_def branch_src_uri_def insert_git_tag_def tag_mode_edit_def
  branch_mode_edit_def update_bb_file_def

section \<open>Lemmas\<close>

subsection \<open>Shape of a run\<close>

lemma release_branch_not_version_tag: "is_release_branch s \<Longrightarrow> \<not> py_startswith s ''v''"
  by (auto simp: is_release_branch_def py_startswith_iff)

lemma tag_mode_edit_Inl:
  "tag_mode_edit u repo cname tag branch c = Inl e \<Longrightarrow>
     (e = ReError \<or> e = IndexError) \<and>
     (bsl \<in> set tag \<or> bsl \<in> set repo \<or> bsl \<in> set cname \<or> bsl \<in> set (github_org u) \<or> bsl \<in> set branch)"
  by (auto simp: tag_mode_edit_def sbind_eq_Inl_iff Let_def git_tag_line_def tag_src_uri_def
      pv_line_def split: if_splits dest!: re_sub_Inl)

lemma branch_mode_edit_Inl:
  "branch_mode_edit u repo cname branch c = Inl e \<Longrightarrow>
     (e = ReError \<or> e = IndexError) \<and>
     (bsl \<in> set repo \<or> bsl \<in> set cname \<or> bsl \<in> set (github_org u) \<or> bsl \<in> set branch)"
  by (auto simp: branch_mode_edit_def sbind_eq_Inl_iff Let_def branch_src_uri_def autorev_line_def
      split: if_splits dest!: re_sub_Inl)

lemma update_bb_file_Inr:
  "update_bb_file u env files tb repo path cname = Inr r \<Longrightarrow>
     r = (False, files) \<or> (\<exists>c. r = (True, files(path \<mapsto> c)))"
  by (auto simp: update_bb_file_def sbind_eq_Inr_iff split: option.splits if_splits)

text \<open>A run is determined by what it reports and what it leaves at \<open>path\<close>.\<close>

lemma update_bb_file_written:
  assumes "map_sum id (\<lambda>(ok, f). (ok, f path)) (update_bb_file u env files tb repo path cname) = Inr (True, Some c)"
  shows "update_bb_file u env files tb repo path cname = Inr (True, files(path \<mapsto> c))"
proof (cases "update_bb_file u env files tb repo path cname")
  case (Inl e)
  with assms show ?thesis by simp
next
  case (Inr r)
  with assms update_bb_file_Inr [OF Inr] show ?thesis by auto
qed

lemma isl_eq_Inl: "isl r \<Longrightarrow> projl r = e \<Longrightarrow> r = Inl e"
  by (cases r) simp_all

subsection \<open>The blank-line collapse\<close>

lemma rmatch_blank_run:
  "rmatch blank_run_re prev pos s =
     (if 3 \<le> length (takeWhile (\<lambda>x. x = nl) s) then Some (pos + length (takeWhile (\<lambda>x. x = nl) s), [])
      else None)"
proof -
  have "in_class (Chr nl) = (\<lambda>x. x = nl)" by (rule ext) simp
  then show ?thesis
    by (simp add: blank_run_re_def run_len_def first_some_greedy_Some)
qed

lemma takeWhile_nl_nth:
  "k \<le> length (takeWhile (\<lambda>x. x = nl) s) \<Longrightarrow> 0 < k \<Longrightarrow> s ! (k - 1) = nl"
proof -
  assume k: "k \<le> length (takeWhile (\<lambda>x. x = nl) s)" "0 < k"
  then have "k - 1 < length (takeWhile (\<lambda>x. x = nl) s)" by simp
  then have "takeWhile (\<lambda>x. x = nl) s ! (k - 1) = s ! (k - 1)" by (rule takeWhile_nth)
  moreover have "takeWhile (\<lambda>x. x = nl) s ! (k - 1) \<in> set (takeWhile (\<lambda>x. x = nl) s)"
    using \<open>k - 1 < _\<close> by (rule nth_mem)
  ultimately show ?thesis by (auto dest: set_takeWhileD)
qed

lemma collapse_prefix:
  "nl \<notin> set v \<Longrightarrow> py_startswith (sub_scan blank_run_re (map TChr [nl, nl]) prev s) v \<Longrightarrow> py_startswith s v"
proof (induction v arbitrary: prev s)
  case Nil
  then show ?case by simp
next
  case (Cons a v)
  show ?case
  proof (cases "rmatch blank_run_re prev 0 s")
    case (Some m)
    then obtain k where m: "rmatch blank_run_re prev 0 s = Some (k, [])" "3 \<le> k"
      by (auto simp: rmatch_blank_run split: if_splits)
    then have "sub_scan blank_run_re (map TChr [nl, nl]) prev s = nl # nl # sub_scan blank_run_re (map TChr [nl, nl]) (Some (s ! (k - 1))) (drop k s)"
      using sub_scan_match [OF m(1), where t = "map TChr [nl, nl]"] m(2) by (simp add: texpand_def)
    with Cons.prems show ?thesis by simp
  next
    case None
    show ?thesis
    proof (cases s)
      case Nil
      with None Cons.prems(2) show ?thesis by (simp add: sub_scan_nomatch)
    next
      case (Cons c cs)
      with None Cons.prems(2) have "c = a" "py_startswith (sub_scan blank_run_re (map TChr [nl, nl]) (Some c) cs) v"
        by (auto simp: sub_scan_nomatch)
      with Cons.IH Cons.prems(1) \<open>s = c # cs\<close> show ?thesis by simp
    qed
  qed
qed

text \<open>The collapse creates no line that starts with \<open>w\<close>.\<close>

lemma collapse_bol_free_gen:
  assumes "p = blank_run_re" "t = map TChr [nl, nl]" "w \<noteq> []" "nl \<notin> set w" "bol_free w prev s"
  shows "bol_free w prev (sub_scan p t prev s)"
  using assms
proof (induction p t prev s rule: sub_scan.induct)
  case (1 p t prev s)
  have hw: "hd w \<noteq> nl" using "1.prems"(3,4) by (cases w) auto
  show ?case
  proof (cases "rmatch p prev 0 s")
    case (Some m)
    then obtain k where m: "rmatch p prev 0 s = Some (k, [])" "3 \<le> k"
      "k \<le> length (takeWhile (\<lambda>x. x = nl) s)"
      using "1.prems"(1) by (auto simp: rmatch_blank_run split: if_splits)
    have k: "k \<le> length s" using m(3) length_takeWhile_le [of _ s] by (meson le_trans)
    have snl: "s ! (k - 1) = nl" using m(2,3) by (intro takeWhile_nl_nth) auto
    have eq: "sub_scan p t prev s = nl # nl # sub_scan p t (Some (s ! (k - 1))) (drop k s)"
      using sub_scan_match [OF m(1), where t = t] m(2) "1.prems"(2) by (simp add: texpand_def)
    have "bol_free w (Some (s ! (k - 1))) (drop k s)"
      using bol_free_drop [OF "1.prems"(5) k] m(2) by simp
    then have "bol_free w (Some (s ! (k - 1))) (sub_scan p t (Some (s ! (k - 1))) (drop k s))"
      using "1.IH"(3) [OF m(1) refl] m(2) "1.prems"(1-4) by simp
    with eq snl hw "1.prems"(3) show ?thesis by (cases w) auto
  next
    case None
    show ?thesis
    proof (cases s)
      case Nil
      with None "1.prems"(3) show ?thesis by (simp add: sub_scan_nomatch)
    next
      case (Cons c cs)
      have eq: "sub_scan p t prev s = c # sub_scan p t (Some c) cs" using None Cons by (simp add: sub_scan_nomatch)
      from "1.prems"(5) Cons have h: "\<not> (line_start prev \<and> py_startswith (c # cs) w)" "bol_free w (Some c) cs"
        by auto
      have ih: "bol_free w (Some c) (sub_scan p t (Some c) cs)"
        using "1.IH"(1) [OF None Cons] h(2) "1.prems"(1-4) by simp
      have "\<not> (line_start prev \<and> py_startswith (c # sub_scan p t (Some c) cs) w)"
      proof
        assume a: "line_start prev \<and> py_startswith (c # sub_scan p t (Some c) cs) w"
        then obtain w' where w: "w = c # w'" "py_startswith (sub_scan p t (Some c) cs) w'"
          using "1.prems"(3) by (cases w) auto
        then have "py_startswith cs w'"
          using collapse_prefix [of w' "Some c" cs] "1.prems"(1,2,4) by simp
        with w(1) a h(1) show False by simp
      qed
      with ih eq show ?thesis by simp
    qed
  qed
qed

lemma collapse_bol_free:
  "w \<noteq> [] \<Longrightarrow> nl \<notin> set w \<Longrightarrow> bol_free w prev s \<Longrightarrow>
     bol_free w prev (sub_scan blank_run_re (map TChr [nl, nl]) prev s)"
  by (rule collapse_bol_free_gen) simp_all

subsection \<open>The revision field after each mode\<close>

lemma tag_mode_edit_bol_free:
  assumes "tag_mode_edit u repo cname tag branch c0 = Inr c"
  shows "bol_free ''SRCREV = '' None c"
proof -
  from assms obtain c3 where c: "re_sub srcrev_line_re ''#SRCREV = '' c3 = Inr c"
    by (auto simp: tag_mode_edit_def sbind_eq_Inr_iff Let_def)
  then have "c = sub_scan srcrev_line_re (map TChr ''#SRCREV = '') None c3"
    by (simp add: re_sub_plain)
  moreover have "bol_free ''SRCREV = '' None (sub_scan srcrev_line_re (map TChr ''#SRCREV = '') None c3)"
    by (rule sub_scan_bol_free [where w = "''SRCREV = ''" and r = "''#SRCREV = ''"])
      (simp_all add: srcrev_line_re_def)
  ultimately show ?thesis by simp
qed

lemma branch_mode_edit_bol_free:
  assumes "branch_mode_edit u repo cname branch c0 = Inr c"
  shows "bol_free ''#SRCREV = '' None c"
proof -
  define new where "new = branch_src_uri u repo branch cname"
  from assms obtain c3 c4 where
    r: "re_sub disabled_srcrev_re ''SRCREV = '' c3 = Inr c4" and
    c: "c = (if \<not> py_in ''SRCREV = '' c4 then py_replace new (new @ [nl] @ autorev_line) c4 else c4)"
    by (auto simp: branch_mode_edit_def sbind_eq_Inr_iff new_def Let_def)
  from r have "c4 = sub_scan disabled_srcrev_re (map TChr ''SRCREV = '') None c3"
    by (simp add: re_sub_plain)
  moreover have "bol_free ''#SRCREV = '' None (sub_scan disabled_srcrev_re (map TChr ''SRCREV = '') None c3)"
    by (rule sub_scan_bol_free [where w = "''#SRCREV = ''" and r = "''SRCREV = ''"])
      (simp_all add: disabled_srcrev_re_def)
  ultimately have b4: "bol_free ''#SRCREV = '' None c4" by simp
  show ?thesis
  proof (cases "py_in ''SRCREV = '' c4")
    case True
    with b4 c show ?thesis by simp
  next
    case False
    then have "\<not> py_in ''#SRCREV = '' c4" by (auto dest: py_in_Cons_D)
    then have "\<not> py_in ''#SRCREV = '' (py_replace new (new @ [nl] @ autorev_line) c4)"
      by (intro py_replace_not_in) (simp_all add: new_def branch_src_uri_def autorev_line_def)
    with False c show ?thesis by (simp add: not_in_bol_free)
  qed
qed

subsection \<open>The example runs\<close>

lemma tag_run:
  "update_bb_file (mk_updater ''rdkcentral'') demo_remote (one_file branch_recipe) ''v2.11.0''
     ''wan-manager'' ''rdk-wanmanager.bb'' ''WanManager''
   = Inr (True, (one_file branch_recipe)(''rdk-wanmanager.bb'' \<mapsto> tagged_recipe))"
  by (rule update_bb_file_written) code_simp

lemma branch_run:
  "update_bb_file (mk_updater ''rdkcentral'') demo_remote (one_file tagged_recipe) ''releases/2.12.0-main''
     ''wan-manager'' ''rdk-wanmanager.bb'' ''WanManager''
   = Inr (True, (one_file tagged_recipe)(''rdk-wanmanager.bb'' \<mapsto> branched_recipe))"
  by (rule update_bb_file_written) code_simp

lemma one_file_upd: "(one_file c)(''rdk-wanmanager.bb'' \<mapsto> c') = one_file c'"
  by (rule ext) (simp add: one_file_def)

subsection \<open>The mutator's contract\<close>

text \<open>
  C6. A malformed version specifier (neither \<^verbatim>\<open>v\<close>\<open>N.N.N\<close> nor
  \<^verbatim>\<open>releases/\<close>\<open>...\<close>\<^verbatim>\<open>-main\<close>) is rejected: \<^verbatim>\<open>update_bb_file\<close> returns
  \<^verbatim>\<open>False\<close>, raises nothing and leaves every file as it was.
\<close>

theorem update_bb_file_malformed:
  assumes "\<not> is_version_tag tb" "\<not> is_release_branch tb"
  shows "update_bb_file u env files tb repo path cname = Inr (False, files)"
  using assms by (simp add: update_bb_file_def split: option.splits)

lemma update_bb_file_malformed_witness:
  "\<not> is_version_tag ''1.3.0'' \<and> \<not> is_release_branch ''1.3.0'' \<and>
   update_bb_file (mk_updater ''rdkcentral'') demo_remote (one_file branch_recipe) ''1.3.0''
     ''wan-manager'' ''rdk-wanmanager.bb'' ''WanManager'' = Inr (False, one_file branch_recipe)"
proof -
  have a: "\<not> is_version_tag ''1.3.0''" and b: "\<not> is_release_branch ''1.3.0''" by code_simp+
  show ?thesis using update_bb_file_malformed [OF a b] a b by simp
qed

text \<open>
  C7. A missing recipe aborts the update: \<^verbatim>\<open>update_bb_file\<close> returns \<^verbatim>\<open>False\<close>
  with no mutation, whatever the specifier.
\<close>

theorem update_bb_file_missing:
  assumes "files path = None"
  shows "update_bb_file u env files tb repo path cname = Inr (False, files)"
  using assms by (simp add: update_bb_file_def)

lemma update_bb_file_missing_witness:
  "one_file branch_recipe ''other.bb'' = None \<and>
   update_bb_file (mk_updater ''rdkcentral'') demo_remote (one_file branch_recipe) ''v2.11.0''
     ''wan-manager'' ''other.bb'' ''WanManager'' = Inr (False, one_file branch_recipe)"
proof -
  have a: "one_file branch_recipe ''other.bb'' = None" by (simp add: one_file_def)
  show ?thesis using update_bb_file_missing [where files = "one_file branch_recipe" and path = "''other.bb''", OF a] a by simp
qed

text \<open>
  C8. Tag mode disables the fixed revision: after a successful tag-mode update no line
  of the written recipe starts with \<^verbatim>\<open>SRCREV = \<close> (every such line was commented
  out, and the blank-line collapse creates none).
\<close>

theorem update_bb_file_tag_disables_srcrev:
  assumes "update_bb_file u env files tb repo path cname = Inr (True, files')" "is_version_tag tb"
  shows "\<exists>c. files' path = Some c \<and> (\<forall>l \<in> set (py_split nl c). \<not> py_startswith l ''SRCREV = '')"
proof -
  from assms obtain content branch c where
    e: "tag_mode_edit u repo cname tb branch content = Inr c"
    and f: "files' = files(path \<mapsto> sub_scan blank_run_re (map TChr [nl, nl]) None c)"
    by (auto simp: update_bb_file_def sbind_eq_Inr_iff re_sub_plain split: option.splits if_splits)
  have "bol_free ''SRCREV = '' None (sub_scan blank_run_re (map TChr [nl, nl]) None c)"
    using tag_mode_edit_bol_free [OF e] by (intro collapse_bol_free) simp_all
  with f show ?thesis by (simp add: bol_free_lines)
qed

lemma update_bb_file_tag_disables_srcrev_witness:
  "update_bb_file (mk_updater ''rdkcentral'') demo_remote (one_file branch_recipe) ''v2.11.0''
     ''wan-manager'' ''rdk-wanmanager.bb'' ''WanManager''
     = Inr (True, (one_file branch_recipe)(''rdk-wanmanager.bb'' \<mapsto> tagged_recipe)) \<and>
   is_version_tag ''v2.11.0'' \<and>
   list_all (\<lambda>l. \<not> py_startswith l ''SRCREV = '') (py_split nl tagged_recipe)"
proof -
  have v: "is_version_tag ''v2.11.0''" by code_simp
  show ?thesis using update_bb_file_tag_disables_srcrev [OF tag_run v] tag_run v by (simp add: list_all_iff)
qed

text \<open>
  C9. Branch mode leaves no disabled duplicate of the revision field: after a successful
  branch-mode update no line of the written recipe starts with \<^verbatim>\<open>#SRCREV = \<close>
  (each was re-enabled; the inserted \<^verbatim>\<open>SRCREV\<close> line and the collapse create none).
\<close>

theorem update_bb_file_branch_enables_srcrev:
  assumes "update_bb_file u env files tb repo path cname = Inr (True, files')" "is_release_branch tb"
  shows "\<exists>c. files' path = Some c \<and> (\<forall>l \<in> set (py_split nl c). \<not> py_startswith l ''#SRCREV = '')"
proof -
  have "\<not> is_version_tag tb"
    using release_branch_not_version_tag [OF assms(2)] by (simp add: is_version_tag_def)
  from assms obtain content c where
    e: "branch_mode_edit u repo cname tb content = Inr c"
    and f: "files' = files(path \<mapsto> sub_scan blank_run_re (map TChr [nl, nl]) None c)"
    using \<open>\<not> is_version_tag tb\<close>
    by (auto simp: update_bb_file_def sbind_eq_Inr_iff re_sub_plain split: option.splits if_splits)
  have "bol_free ''#SRCREV = '' None (sub_scan blank_run_re (map TChr [nl, nl]) None c)"
    using branch_mode_edit_bol_free [OF e] by (intro collapse_bol_free) simp_all
  with f show ?thesis by (simp add: bol_free_lines)
qed

lemma update_bb_file_branch_enables_srcrev_witness:
  "update_bb_file (mk_updater ''rdkcentral'') demo_remote (one_file tagged_recipe) ''releases/2.12.0-main''
     ''wan-manager'' ''rdk-wanmanager.bb'' ''WanManager''
     = Inr (True, (one_file tagged_recipe)(''rdk-wanmanager.bb'' \<mapsto> branched_recipe)) \<and>
   is_release_branch ''releases/2.12.0-main'' \<and>
   list_all (\<lambda>l. \<not> py_startswith l ''#SRCREV = '') (py_split nl branched_recipe)"
proof -
  have v: "is_release_branch ''releases/2.12.0-main''" by code_simp
  show ?thesis using update_bb_file_branch_enables_srcrev [OF branch_run v] branch_run v by (simp add: list_all_iff)
qed

text \<open>
  C10. \<^verbatim>\<open>update_bb_file\<close> touches no file but the recipe it is given, and a run that
  reports \<^verbatim>\<open>False\<close> changes nothing.
\<close>

theorem update_bb_file_frame:
  assumes "update_bb_file u env files tb repo path cname = Inr (ok, files')"
  shows "(\<forall>p. p \<noteq> path \<longrightarrow> files' p = files p) \<and> (\<not> ok \<longrightarrow> files' = files)"
  using update_bb_file_Inr [OF assms] by auto

lemma update_bb_file_frame_witness:
  "update_bb_file (mk_updater ''rdkcentral'') demo_remote (one_file branch_recipe) ''v2.11.0''
     ''wan-manager'' ''rdk-wanmanager.bb'' ''WanManager''
     = Inr (True, (one_file branch_recipe)(''rdk-wanmanager.bb'' \<mapsto> tagged_recipe)) \<and>
   ((one_file branch_recipe)(''rdk-wanmanager.bb'' \<mapsto> tagged_recipe)) ''other.bb'' = one_file branch_recipe ''other.bb''"
proof -
  have o: "''other.bb'' \<noteq> ''rdk-wanmanager.bb''" by simp
  have "((one_file branch_recipe)(''rdk-wanmanager.bb'' \<mapsto> tagged_recipe)) ''other.bb'' = one_file branch_recipe ''other.bb''"
    by (rule mp [OF spec [OF conjunct1 [OF update_bb_file_frame [OF tag_run]]] o])
  with tag_run show ?thesis by (rule conjI)
qed

text \<open>
  C11. For organisation and repository names of GitHub's alphabet, the only exception
  that escapes \<^verbatim>\<open>update_bb_file\<close> is \<^verbatim>\<open>re.error\<close> (or \<^verbatim>\<open>IndexError\<close>)
  from a replacement string, and only when the specifier, the component name or the
  resolved branch contains a backslash: remote failures never escape. (Reads and
  writes of the recipe succeed in this model; \<^verbatim>\<open>OSError\<close> from
  \<^verbatim>\<open>read_text\<close> or \<^verbatim>\<open>write_text\<close> is outside it.)
\<close>

theorem update_bb_file_raises_only_on_backslash:
  assumes "update_bb_file u env files tb repo path cname = Inl e"
    and "github_name (github_org u)" "github_name repo"
  shows "(e = ReError \<or> e = IndexError) \<and>
         (bsl \<in> set tb \<or> bsl \<in> set cname \<or>
          (\<exists>b. resolve_branch u env files path repo tb = Inr b \<and> bsl \<in> set b))"
proof -
  obtain b where b: "resolve_branch u env files path repo tb = Inr b"
    using resolve_branch_total by blast
  have nl2: "bsl \<notin> set [nl, nl]" by simp
  have names: "bsl \<notin> set (github_org u)" "bsl \<notin> set repo"
    using assms(2,3) by (auto simp: github_name_def list_all_iff is_ascii_letter_def is_digit_def)
  from assms(1) b names show ?thesis
    by (auto simp: update_bb_file_def sbind_eq_Inl_iff re_sub_plain [OF nl2]
        split: option.splits if_splits dest!: tag_mode_edit_Inl branch_mode_edit_Inl)
qed

lemma update_bb_file_raises_only_on_backslash_witness:
  "update_bb_file (mk_updater ''rdkcentral'') demo_remote (one_file branch_recipe)
     (''releases/1'' @ [bsl] @ ''x-main'') ''wan-manager'' ''rdk-wanmanager.bb'' ''WanManager'' = Inl ReError \<and>
   github_name (github_org (mk_updater ''rdkcentral'')) \<and> github_name ''wan-manager'' \<and>
   bsl \<in> set (''releases/1'' @ [bsl] @ ''x-main'')"
proof -
  have "isl (update_bb_file (mk_updater ''rdkcentral'') demo_remote (one_file branch_recipe)
     (''releases/1'' @ [bsl] @ ''x-main'') ''wan-manager'' ''rdk-wanmanager.bb'' ''WanManager'') \<and>
    projl (update_bb_file (mk_updater ''rdkcentral'') demo_remote (one_file branch_recipe)
     (''releases/1'' @ [bsl] @ ''x-main'') ''wan-manager'' ''rdk-wanmanager.bb'' ''WanManager'') = ReError"
    by code_simp
  then have r: "update_bb_file (mk_updater ''rdkcentral'') demo_remote (one_file branch_recipe)
     (''releases/1'' @ [bsl] @ ''x-main'') ''wan-manager'' ''rdk-wanmanager.bb'' ''WanManager'' = Inl ReError"
    by (blast intro: isl_eq_Inl)
  have o: "github_name (github_org (mk_updater ''rdkcentral''))" by code_simp
  have w: "github_name ''wan-manager''" by code_simp
  show ?thesis using update_bb_file_raises_only_on_backslash [OF r o w] r o w by simp
qed

text \<open>
  C12. The two modes are exclusive: no specifier is both a version tag and a release
  branch, so \<^verbatim>\<open>update_bb_file\<close> never mixes the two rewrites.
\<close>

theorem version_tag_not_release_branch: "\<not> (is_version_tag s \<and> is_release_branch s)"
proof
  assume "is_version_tag s \<and> is_release_branch s"
  then obtain r where "s = ''v'' @ r" "py_startswith s ''releases/''"
    by (auto simp: is_version_tag_def is_release_branch_def py_startswith_iff)
  then show False by simp
qed

subsection \<open>The duplicated revision field\<close>

text \<open>
  Branch mode on the example recipe in tag mode leaves the revision field active twice:
  the tag-based \<^verbatim>\<open>PV\<close> line becomes \<^verbatim>\<open>SRCREV = "${AUTOREV}"\<close> and the disabled
  \<^verbatim>\<open>#SRCREV\<close> line is re-enabled too.
\<close>

lemma update_bb_file_branch_duplicates_srcrev:
  "update_bb_file (mk_updater ''rdkcentral'') demo_remote (one_file tagged_recipe) ''releases/2.12.0-main''
     ''wan-manager'' ''rdk-wanmanager.bb'' ''WanManager'' = Inr (True, one_file branched_recipe) \<and>
   length (filter (\<lambda>l. l = autorev_line) (py_split nl branched_recipe)) = 2"
proof -
  have "length (filter (\<lambda>l. l = autorev_line) (py_split nl branched_recipe)) = 2" by code_simp
  with branch_run show ?thesis by (simp add: one_file_upd)
qed

end
