(* ===== verification/Cli_Main.thy ===== *)
theory Cli_Main
  imports Recipe_Mutator
begin

text \<open>
  \<^verbatim>\<open>main\<close> of \<^verbatim>\<open>src/.github/scripts/update_component.py\<close> (lines 344--396), after
  argument parsing: the parsed arguments are the record \<open>cli_args\<close>. \<open>main_cli\<close>
  validates the specifier before touching anything, then either performs the dry run
  (resolve and report, lines 382--390) or calls \<^verbatim>\<open>update_bb_file\<close> (lines 393--394).
  Its value is the process exit code, the file system afterwards and the dry run's
  report line. The path is used as given (\<^verbatim>\<open>Path\<close> normalisation is not modelled).
\<close>

record cli_args =
  a_tag_or_branch :: string
  a_repo :: string
  a_bb_file :: string
  a_component_name :: string
  a_org :: string
  a_dry_run :: bool

text \<open>
  The dry run's branch (lines 384--387): \<^verbatim>\<open>find_tag_branch\<close>, else the recorded branch,
  else the literal \<^verbatim>\<open>"fallback-pattern"\<close> (\<^verbatim>\<open>x or y\<close> tests truthiness).
\<close>

definition dry_run_branch :: "updater \<Rightarrow> remote \<Rightarrow> fs \<Rightarrow> string \<Rightarrow> string \<Rightarrow> string \<Rightarrow> exn + string" where
  "dry_run_branch u env files path repo tag =
     sbind (find_tag_branch u env repo tag) (\<lambda>b.
       if opt_truthy b then Inr (the b)
       else Inr (let b' = get_current_branch_from_bb u files path repo in
                 if opt_truthy b' then the b' else ''fallback-pattern''))"

definition main_cli :: "remote \<Rightarrow> fs \<Rightarrow> cli_args \<Rightarrow> exn + (int \<times> fs \<times> string option)" where
  "main_cli env files a =
     (let tb = a_tag_or_branch a in
      if \<not> is_version_tag tb \<and> \<not> is_release_branch tb then Inr (1, files, None)
      else
        (let u = mk_updater (a_org a); bb = a_bb_file a in
         if a_dry_run a then
           (if is_version_tag tb then
              sbind (dry_run_branch u env files bb (a_repo a) tb) (\<lambda>branch.
                Inr (0, files, Some (''Would update '' @ bb @ '' with tag '' @ tb @ '' on branch '' @ branch)))
            else Inr (0, files, Some (''Would update '' @ bb @ '' with release branch '' @ tb)))
         else
           sbind (update_bb_file u env files tb (a_repo a) bb (a_component_name a)) (\<lambda>(ok, files').
             Inr (if ok then 0 else 1, files', None))))"

definition demo_args :: "string \<Rightarrow> bool \<Rightarrow> cli_args" where
  "demo_args tb dry =
     \<lparr>a_tag_or_branch = tb, a_repo = ''wan-manager'', a_bb_file = ''rdk-wanmanager.bb'',
      a_component_name = ''WanManager'', a_org = ''rdkcentral'', a_dry_run = dry\<rparr>"

lemmas cli_defs [py_simps] = dry_run_branch_def main_cli_def

section \<open>Lemmas\<close>

lemma dry_run_branch_total: "\<exists>b. dry_run_branch u env files path repo tag = Inr b"
proof -
  obtain r where "find_tag_branch u env repo tag = Inr r"
    using find_tag_branch_total by blast
  then show ?thesis by (auto simp: dry_run_branch_def)
qed

text \<open>
  C13. A malformed specifier is rejected before any I/O: \<^verbatim>\<open>main\<close> exits with 1, the
  remote is not asked, no file is read or written and nothing is reported.
\<close>

theorem main_cli_rejects_malformed:
  assumes "\<not> is_version_tag (a_tag_or_branch a)" "\<not> is_release_branch (a_tag_or_branch a)"
  shows "main_cli env files a = Inr (1, files, None)"
  using assms by (simp add: main_cli_def)

lemma main_cli_rejects_malformed_witness:
  "\<not> is_version_tag (a_tag_or_branch (demo_args ''1.3.0'' False)) \<and>
   \<not> is_release_branch (a_tag_or_branch (demo_args ''1.3.0'' False)) \<and>
   main_cli demo_remote (one_file branch_recipe) (demo_args ''1.3.0'' False) = Inr (1, one_file branch_recipe, None)"
proof -
  have a: "\<not> is_version_tag (a_tag_or_branch (demo_args ''1.3.0'' False))"
    and b: "\<not> is_release_branch (a_tag_or_branch (demo_args ''1.3.0'' False))"
    by (simp_all add: demo_args_def is_version_tag_def is_release_branch_def py_endswith_def)
  show ?thesis using main_cli_rejects_malformed [OF a b] a b by simp
qed

text \<open>
  C14. A dry run writes nothing and never fails: for a well-formed specifier
  \<^verbatim>\<open>main --dry-run\<close> exits with 0, leaves every file as it was and reports one line.
\<close>

theorem main_cli_dry_run_no_write:
  assumes "a_dry_run a" "is_version_tag (a_tag_or_branch a) \<or> is_release_branch (a_tag_or_branch a)"
  shows "\<exists>r. main_cli env files a = Inr (0, files, Some r)"
proof -
  obtain b where "dry_run_branch (mk_updater (a_org a)) env files (a_bb_file a) (a_repo a) (a_tag_or_branch a) = Inr b"
    using dry_run_branch_total by blast
  with assms show ?thesis by (auto simp: main_cli_def Let_def)
qed

lemma main_cli_dry_run_no_write_witness:
  "a_dry_run (demo_args ''v2.11.0'' True) \<and>
   (is_version_tag (a_tag_or_branch (demo_args ''v2.11.0'' True)) \<or>
    is_release_branch (a_tag_or_branch (demo_args ''v2.11.0'' True))) \<and>
   (\<exists>r. main_cli (\<lambda>_. None) (one_file branch_recipe) (demo_args ''v2.11.0'' True) = Inr (0, one_file branch_recipe, Some r))"
proof -
  have a: "a_dry_run (demo_args ''v2.11.0'' True)" by (simp add: demo_args_def)
  have b: "is_version_tag (a_tag_or_branch (demo_args ''v2.11.0'' True)) \<or>
    is_release_branch (a_tag_or_branch (demo_args ''v2.11.0'' True))"
    by (simp add: demo_args_def) code_simp
  show ?thesis using main_cli_dry_run_no_write [OF a b] a b by blast
qed

text \<open>
  C15. The dry run reports the branch the real run uses, except when the remote and the
  recipe both give nothing: then the real run synthesizes
  \<^verbatim>\<open>releases/{major}.{minor}.0-main\<close> and the dry run reports the placeholder
  \<^verbatim>\<open>fallback-pattern\<close>.
\<close>

theorem dry_run_branch_vs_resolve_branch:
  assumes "find_tag_branch u env repo tag = Inr r"
  shows "dry_run_branch u env files path repo tag =
     (if opt_truthy r \<or> opt_truthy (get_current_branch_from_bb u files path repo)
      then resolve_branch u env files path repo tag else Inr ''fallback-pattern'') \<and>
   (\<not> opt_truthy r \<and> \<not> opt_truthy (get_current_branch_from_bb u files path repo) \<longrightarrow>
      resolve_branch u env files path repo tag = Inr (fallback_branch tag))"
  using assms by (simp add: dry_run_branch_def resolve_branch_def Let_def)

lemma dry_run_branch_vs_resolve_branch_witness:
  "find_tag_branch (mk_updater ''rdkcentral'') (\<lambda>_. None) ''wan-manager'' ''v2.11.0'' = Inr None \<and>
   dry_run_branch (mk_updater ''rdkcentral'') (\<lambda>_. None) (one_file branch_recipe) ''rdk-wanmanager.bb''
     ''wan-manager'' ''v2.11.0'' = Inr ''fallback-pattern'' \<and>
   resolve_branch (mk_updater ''rdkcentral'') (\<lambda>_. None) (one_file branch_recipe) ''rdk-wanmanager.bb''
     ''wan-manager'' ''v2.11.0'' = Inr (fallback_branch ''v2.11.0'')"
proof -
  have r: "find_tag_branch (mk_updater ''rdkcentral'') (\<lambda>_. None) ''wan-manager'' ''v2.11.0'' = Inr None"
    by (rule find_tag_branch_outage)
  have g: "get_current_branch_from_bb (mk_updater ''rdkcentral'') (one_file branch_recipe) ''rdk-wanmanager.bb''
     ''wan-manager'' = None"
    by code_simp
  show ?thesis using dry_run_branch_vs_resolve_branch [OF r, of "one_file branch_recipe" "''rdk-wanmanager.bb''"] r g
    by simp
qed

text \<open>
  C16. The exit code of a real run tells what happened to the file system: 0 means the
  recipe, and only the recipe, was rewritten; 1 means nothing was written.
\<close>

theorem main_cli_exit_code:
  assumes "main_cli env files a = Inr (code, files', rep)" "\<not> a_dry_run a"
  shows "rep = None \<and>
         (code = 0 \<and> (\<exists>c. files' = files(a_bb_file a \<mapsto> c)) \<or> code = 1 \<and> files' = files)"
proof (cases "is_version_tag (a_tag_or_branch a) \<or> is_release_branch (a_tag_or_branch a)")
  case True
  with assms obtain ok where
    "update_bb_file (mk_updater (a_org a)) env files (a_tag_or_branch a) (a_repo a) (a_bb_file a)
       (a_component_name a) = Inr (ok, files')" "code = (if ok then 0 else 1)" "rep = None"
    by (auto simp: main_cli_def Let_def sbind_eq_Inr_iff split: if_splits)
  then show ?thesis by (auto dest: update_bb_file_Inr)
next
  case False
  with assms show ?thesis by (simp add: main_cli_def)
qed

lemma main_cli_exit_code_witness:
  "main_cli (\<lambda>_. None) (one_file branch_recipe) (demo_args ''1.3.0'' False) = Inr (1, one_file branch_recipe, None) \<and>
   \<not> a_dry_run (demo_args ''1.3.0'' False) \<and>
   None = (None :: string option) \<and>
   (1 = (0::int) \<and> (\<exists>c. one_file branch_recipe = (one_file branch_recipe)(a_bb_file (demo_args ''1.3.0'' False) \<mapsto> c)) \<or>
    1 = (1::int) \<and> one_file branch_recipe = one_file branch_recipe)"
proof -
  have m: "main_cli (\<lambda>_. None) (one_file branch_recipe) (demo_args ''1.3.0'' False) = Inr (1, one_file branch_recipe, None)"
    by (simp add: main_cli_def demo_args_def is_version_tag_def is_release_branch_def py_endswith_def)
  have d: "\<not> a_dry_run (demo_args ''1.3.0'' False)" by (simp add: demo_args_def)
  show ?thesis using main_cli_exit_code [OF m d] m d by blast
qed

end
