(* ===== verification/Harness.thy ===== *)
theory Harness
  imports Recipe_Mutator
begin

text \<open>
  The test harness \<^verbatim>\<open>src/.github/scripts/test_component_updates.py\<close>: class
  \<^verbatim>\<open>ComponentTester\<close> (lines 37--207). Its state is the record \<open>tester\<close>: the two
  counters of \<^verbatim>\<open>__init__\<close> and the status lines printed so far (the colour codes
  of \<^verbatim>\<open>print_status\<close> are left out). Every method is a function from a tester (and
  the file system and remote it reads) to its result and the new tester.
\<close>

datatype status = Success | Error | Warning | Info

record comp_config =
  cfg_bb_file :: string
  cfg_name :: string
  cfg_display :: string

text \<open>\<^verbatim>\<open>COMPONENTS\<close> (lines 41--72), in the dictionary's order.\<close>

definition components :: "(string \<times> comp_config) list" where
  "components = [
    (''ppp-manager'', \<lparr>cfg_bb_file = ''recipes-ccsp/ccsp/rdk-ppp-manager.bb'', cfg_name = ''PPPManager'', cfg_display = ''PPP Manager''\<rparr>),
    (''vlan-manager'', \<lparr>cfg_bb_file = ''recipes-ccsp/ccsp/rdk-vlanmanager.bb'', cfg_name = ''VLANManager'', cfg_display = ''VLAN Manager''\<rparr>),
    (''wan-manager'', \<lparr>cfg_bb_file = ''recipes-ccsp/ccsp/rdk-wanmanager.bb'', cfg_name = ''WanManager'', cfg_display = ''WAN Manager''\<rparr>),
    (''gpon-manager'', \<lparr>cfg_bb_file = ''recipes-ccsp/ccsp/rdkgponmanager.bb'', cfg_name = ''GPONManager'', cfg_display = ''GPON Manager''\<rparr>),
    (''xdsl-manager'', \<lparr>cfg_bb_file = ''recipes-ccsp/ccsp/rdkxdslmanager.bb'', cfg_name = ''xDSLManager'', cfg_display = ''xDSL Manager''\<rparr>),
    (''ipoe-health-check'', \<lparr>cfg_bb_file = ''recipes-support/ipoe-health-check/ipoe-health-check.bb'', cfg_name = ''IPoEHealthCheck'', cfg_display = ''IPoE Health Check''\<rparr>)]"

text \<open>\<^verbatim>\<open>COMPONENTS[repo]\<close>: \<^verbatim>\<open>KeyError\<close> for an unknown component.\<close>

definition component_of :: "string \<Rightarrow> exn + comp_config" where
  "component_of repo = (case map_of components repo of None \<Rightarrow> Inl KeyError | Some c \<Rightarrow> Inr c)"

record tester =
  t_errors :: nat
  t_warnings :: nat
  t_out :: "(status \<times> string) list"

definition tester_init :: tester where
  "tester_init = \<lparr>t_errors = 0, t_warnings = 0, t_out = []\<rparr>"

text \<open>\<^verbatim>\<open>print_status\<close> (lines 79--95): print, then count errors and warnings.\<close>

definition print_status :: "status \<Rightarrow> string \<Rightarrow> tester \<Rightarrow> tester" where
  "print_status st msg t =
     (let t' = t\<lparr>t_out := t_out t @ [(st, msg)]\<rparr> in
      if st = Error then t'\<lparr>t_errors := t_errors t + 1\<rparr>
      else if st = Warning then t'\<lparr>t_warnings := t_warnings t + 1\<rparr>
      else t')"

text \<open>\<^verbatim>\<open>validate_input_format\<close> (lines 97--113).\<close>

definition validate_input_format :: "string \<Rightarrow> string \<Rightarrow> tester \<Rightarrow> bool \<times> tester" where
  "validate_input_format v component t =
     (if \<not> is_version_tag v \<and> \<not> is_release_branch v then
        (False, print_status Info
                  ''Expected formats: v1.3.0 (version tag) or releases/1.3.0-main (release branch)''
                  (print_status Error (''Invalid format for '' @ component @ '': '' @ v) t))
      else if is_version_tag v then
        (True, print_status Success (''Valid version tag for '' @ component @ '': '' @ v) t)
      else (True, print_status Success (''Valid release branch for '' @ component @ '': '' @ v) t))"

text \<open>\<^verbatim>\<open>_get_current_tag\<close> (lines 166--171): \<^verbatim>\<open>^#GIT_TAG = "([^"]*)"\<close> under
  \<^verbatim>\<open>re.MULTILINE\<close>, searched in the whole recipe.\<close>

definition current_tag_re :: regex where
  "current_tag_re =
     Bol # lits ''#GIT_TAG = '' @ [Atom (Chr dq), Mark, Rep (NoneOf [dq]) 0 None True, Mark, Atom (Chr dq)]"

definition get_current_tag :: "string \<Rightarrow> string" where
  "get_current_tag content =
     (case re_search current_tag_re content of Some m \<Rightarrow> group1 content m | None \<Rightarrow> [])"

text \<open>
  The branch detection of \<^verbatim>\<open>test_component_update\<close> (lines 142--155), for a version tag:
  the same three tiers as \<^verbatim>\<open>update_bb_file\<close>, with their status lines.
\<close>

definition detect_branch ::
  "updater \<Rightarrow> remote \<Rightarrow> fs \<Rightarrow> string \<Rightarrow> string \<Rightarrow> string \<Rightarrow> tester \<Rightarrow> exn + (string \<times> tester)" where
  "detect_branch u env files bb repo tag t =
     sbind (find_tag_branch u env repo tag) (\<lambda>b.
       if opt_truthy b then Inr (the b, t)
       else (let t1 = print_status Warning ''Could not determine branch from repository, using fallback'' t;
                 b' = get_current_branch_from_bb u files bb repo in
             if opt_truthy b' then Inr (the b', print_status Info (''Using current branch from BB file: '' @ the b') t1)
             else (let br = fallback_branch tag in
                   Inr (br, print_status Info (''Using fallback branch pattern: '' @ br) t1))))"

text \<open>Lines 132--139 of \<^verbatim>\<open>test_component_update\<close>: report the tag recorded in the recipe.\<close>

definition report_current_tag :: "string \<Rightarrow> string \<Rightarrow> string \<Rightarrow> tester \<Rightarrow> tester" where
  "report_current_tag bb tb content t =
     (let ct = get_current_tag content in
      if ct \<noteq> [] then
        (let t' = print_status Info (''Current tag in '' @ bb @ '': '' @ ct) t in
         if ct = tb then print_status Warning (''Tag '' @ tb @ '' is already current in '' @ bb) t' else t')
      else print_status Info (''No current tag found in '' @ bb) t)"

text \<open>Lines 141--157: the branch a version tag would use, or the given release branch.\<close>

definition report_branch ::
  "updater \<Rightarrow> remote \<Rightarrow> fs \<Rightarrow> string \<Rightarrow> string \<Rightarrow> string \<Rightarrow> tester \<Rightarrow> exn + tester" where
  "report_branch u env files bb repo tb t =
     (if py_startswith tb ''v'' then
        sbind (detect_branch u env files bb repo tb t) (\<lambda>(branch, t').
          Inr (print_status Info (''Would use branch: '' @ branch) t'))
      else Inr (print_status Info (''Using provided release branch: '' @ tb) t))"

text \<open>\<^verbatim>\<open>test_component_update\<close> (lines 115--164); the file system changes only in a live run.\<close>

definition test_component_update ::
  "updater \<Rightarrow> remote \<Rightarrow> fs \<Rightarrow> string \<Rightarrow> string \<Rightarrow> bool \<Rightarrow> tester \<Rightarrow> exn + (bool \<times> tester \<times> fs)" where
  "test_component_update u env files repo tb dry_run t =
     (case map_of components repo of
        None \<Rightarrow> Inr (False, print_status Error (''Unknown component: '' @ repo) t, files)
      | Some config \<Rightarrow>
          (let bb = cfg_bb_file config;
               input_type = (if py_startswith tb ''v'' then ''tag'' else ''branch'');
               t1 = print_status Info (''Testing update for '' @ cfg_display config @ '' with '' @ input_type @ '' '' @ tb) t in
           case files bb of
             None \<Rightarrow> Inr (False, print_status Error (''BB file not found: '' @ bb) t1, files)
           | Some content \<Rightarrow>
               sbind (report_branch u env files bb repo tb (report_current_tag bb tb content t1)) (\<lambda>t2.
                 if \<not> dry_run then
                   sbind (update_bb_file u env files tb repo bb (cfg_name config)) (\<lambda>(ok, files').
                     Inr (ok, t2, files'))
                 else Inr (True, t2, files))))"

text \<open>The validation loop of \<^verbatim>\<open>run_tests\<close> (lines 183--185); \<^verbatim>\<open>COMPONENTS[repo]\<close> may raise.\<close>

fun validate_all :: "(string \<times> string) list \<Rightarrow> tester \<Rightarrow> exn + tester" where
  "validate_all [] t = Inr t"
| "validate_all ((repo, tb) # rest) t =
     sbind (component_of repo) (\<lambda>c. validate_all rest (snd (validate_input_format tb (cfg_display c) t)))"

text \<open>The test loop (lines 196--197): results are ignored, the tester and files are threaded.\<close>

fun test_all ::
  "updater \<Rightarrow> remote \<Rightarrow> (string \<times> string) list \<Rightarrow> bool \<Rightarrow> fs \<Rightarrow> tester \<Rightarrow> exn + (tester \<times> fs)" where
  "test_all u env [] dry files t = Inr (t, files)"
| "test_all u env ((repo, tb) # rest) dry files t =
     sbind (test_component_update u env files repo tb dry t) (\<lambda>(_, t', files').
       test_all u env rest dry files' t')"

definition wan_recipe_path :: string where
  "wan_recipe_path = ''recipes-ccsp/ccsp/rdk-wanmanager.bb''"

text \<open>The summary of \<^verbatim>\<open>run_tests\<close> (lines 199--205).\<close>

definition summary :: "bool \<Rightarrow> tester \<Rightarrow> tester" where
  "summary dry t =
     (if t_errors t = 0 then
        (let t' = print_status Success ''All tests completed successfully!'' t in
         if dry then print_status Info ''This was a dry run. No files were modified.'' t' else t')
      else print_status Error (''Tests completed with '' @ dec_nat (t_errors t) @ '' error(s) and '' @
             dec_nat (t_warnings t) @ '' warning(s)'') t)"

text \<open>Lines 187--207 of \<^verbatim>\<open>run_tests\<close>, once every input has been validated.\<close>

definition run_updates ::
  "updater \<Rightarrow> remote \<Rightarrow> fs \<Rightarrow> (string \<times> string) list \<Rightarrow> bool \<Rightarrow> tester \<Rightarrow> exn + (bool \<times> tester \<times> fs)" where
  "run_updates u env files tags dry t =
     (if 0 < t_errors t then
        Inr (False, print_status Error (''Validation failed with '' @ dec_nat (t_errors t) @ '' error(s)'') t, files)
      else
        (let t1 = print_status Info (''Testing component updates ('' @ (if dry then ''dry run'' else ''live run'') @ '')...'')
                    (print_status Success ''All inputs validated successfully'' t) in
         sbind (test_all u env tags dry files t1) (\<lambda>(t2, files').
           (let t3 = summary dry t2 in Inr (t_errors t3 = 0, t3, files')))))"

text \<open>\<^verbatim>\<open>run_tests\<close> (lines 173--207); \<open>tags\<close> is the dictionary \<^verbatim>\<open>component_tags\<close> in order.\<close>

definition run_tests ::
  "updater \<Rightarrow> remote \<Rightarrow> fs \<Rightarrow> (string \<times> string) list \<Rightarrow> bool \<Rightarrow> tester \<Rightarrow> exn + (bool \<times> tester \<times> fs)" where
  "run_tests u env files tags dry t =
     (let t1 = print_status Info ''Starting component version update tests...'' t in
      if files wan_recipe_path = None then
        Inr (False, print_status Error ''Not in meta-rdk-wan repository root. Please run from repository root.'' t1, files)
      else sbind (validate_all tags t1) (run_updates u env files tags dry))"

text \<open>A tester that has printed \<open>ps\<close> after \<open>t\<close>.\<close>

definition prints :: "(status \<times> string) list \<Rightarrow> tester \<Rightarrow> tester" where
  "prints ps t = fold (\<lambda>(st, msg). print_status st msg) ps t"

definition count_status :: "status \<Rightarrow> (status \<times> string) list \<Rightarrow> nat" where
  "count_status st ps = length (filter (\<lambda>p. fst p = st) ps)"

text \<open>\<open>t'\<close> is \<open>t\<close> after some more status lines.\<close>

definition extends :: "tester \<Rightarrow> tester \<Rightarrow> bool" where
  "extends t t' \<longleftrightarrow> (\<exists>ps. t' = prints ps t)"

text \<open>The counters agree with what was printed.\<close>

definition counters_ok :: "tester \<Rightarrow> bool" where
  "counters_ok t \<longleftrightarrow> t_errors t = count_status Error (t_out t) \<and> t_warnings t = count_status Warning (t_out t)"

text \<open>
  The harness as a state machine: a step is one call of a method of the tester on the
  current file system, with the tester and files it leaves.
\<close>

inductive tester_step :: "updater \<Rightarrow> remote \<Rightarrow> tester \<times> fs \<Rightarrow> tester \<times> fs \<Rightarrow> bool"
  for u env where
  print: "tester_step u env (t, files) (print_status st msg t, files)"
| validate: "tester_step u env (t, files) (snd (validate_input_format v c t), files)"
| test: "test_component_update u env files repo tb dry t = Inr (ok, t', files') \<Longrightarrow>
     tester_step u env (t, files) (t', files')"
| run: "run_tests u env files tags dry t = Inr (ok, t', files') \<Longrightarrow>
     tester_step u env (t, files) (t', files')"

text \<open>
  \<^verbatim>\<open>main\<close> of the harness (lines 210--280), after argument parsing: \<open>h_args\<close> holds
  \<^verbatim>\<open>--list-components\<close>, \<^verbatim>\<open>--all-components\<close>, the per-component options and
  \<^verbatim>\<open>--live-run\<close>. \<^verbatim>\<open>parser.error\<close> exits with status 2.
\<close>

record h_args =
  h_list_components :: bool
  h_all_components :: "string option"
  h_component :: "string \<Rightarrow> string option"
  h_live_run :: bool

text \<open>Lines 259--271: the tags to test, in the table's order.\<close>

definition collect_tags :: "h_args \<Rightarrow> (string \<times> string) list" where
  "collect_tags a =
     (if opt_truthy (h_all_components a) then map (\<lambda>(r, _). (r, the (h_all_components a))) components
      else concat (map (\<lambda>(r, _). if opt_truthy (h_component a r) then [(r, the (h_component a r))] else [])
                     components))"

definition harness_main :: "remote \<Rightarrow> fs \<Rightarrow> h_args \<Rightarrow> exn + (int \<times> fs \<times> tester option)" where
  "harness_main env files a =
     (if h_list_components a then Inr (0, files, None)
      else (let tags = collect_tags a in
            if tags = [] then Inr (2, files, None)
            else sbind (run_tests (mk_updater ''rdkcentral'') env files tags (\<not> h_live_run a) tester_init)
                   (\<lambda>(ok, t, files'). Inr (if ok then 0 else 1, files', Some t))))"

text \<open>A checkout whose WAN Manager recipe is the tag-mode example recipe.\<close>

definition harness_fs :: fs where
  "harness_fs = (\<lambda>p. if p = wan_recipe_path then Some tagged_recipe else None)"

definition demo_h_args :: h_args where
  "demo_h_args = \<lparr>h_list_components = False, h_all_components = None,
     h_component = (\<lambda>r. if r = ''wan-manager'' then Some ''releases/2.12.0-main'' else None), h_live_run = False\<rparr>"

lemmas harness_defs [py_simps] = components_def component_of_def tester_init_def print_status_def
  validate_input_format_def current_tag_re_def get_current_tag_def detect_branch_def
  report_current_tag_def report_branch_def
  test_component_update_def wan_recipe_path_def summary_def run_updates_def run_tests_def
  collect_tags_def harness_main_def

section \<open>Lemmas\<close>

inductive_cases tester_stepE: "tester_step u env s s'"

subsection \<open>Printing\<close>

lemma prints_Nil [simp]: "prints [] t = t"
  by (simp add: prints_def)

lemma prints_append: "prints (ps @ qs) t = prints qs (prints ps t)"
  by (simp add: prints_def)

lemma print_status_prints: "print_status st msg t = prints [(st, msg)] t"
  by (simp add: prints_def)

lemma prints_out: "t_out (prints ps t) = t_out t @ ps"
  by (induction ps arbitrary: t) (auto simp: prints_def print_status_def Let_def)

lemma prints_errors: "t_errors (prints ps t) = t_errors t + count_status Error ps"
  by (induction ps arbitrary: t) (auto simp: prints_def count_status_def print_status_def Let_def)

lemma prints_warnings: "t_warnings (prints ps t) = t_warnings t + count_status Warning ps"
  by (induction ps arbitrary: t) (auto simp: prints_def count_status_def print_status_def Let_def)

lemma extends_refl [simp, intro]: "extends t t"
  by (auto simp: extends_def intro: exI [of _ "[]"])

lemma extends_trans [trans]: "extends t t' \<Longrightarrow> extends t' t'' \<Longrightarrow> extends t t''"
  unfolding extends_def by (metis prints_append)

lemma extends_print [simp, intro]: "extends t t' \<Longrightarrow> extends t (print_status st msg t')"
  unfolding extends_def print_status_prints by (metis prints_append)

lemma extends_counters_ok: "extends t t' \<Longrightarrow> counters_ok t \<Longrightarrow> counters_ok t'"
  by (auto simp: extends_def counters_ok_def prints_out prints_errors prints_warnings count_status_def)

lemma extends_errors_mono: "extends t t' \<Longrightarrow> t_errors t \<le> t_errors t'"
  by (auto simp: extends_def prints_errors)

lemma counters_ok_init: "counters_ok tester_init"
  by (simp add: counters_ok_def tester_init_def count_status_def)

subsection \<open>Every method only prints\<close>

lemma validate_input_format_extends: "extends t (snd (validate_input_format v c t))"
  by (simp add: validate_input_format_def)

lemma detect_branch_extends:
  "detect_branch u env files bb repo tag t = Inr (b, t') \<Longrightarrow> extends t t'"
  by (auto simp: detect_branch_def sbind_eq_Inr_iff Let_def split: if_splits)

lemma report_current_tag_extends: "extends t (report_current_tag bb tb content t)"
  by (simp add: report_current_tag_def Let_def)

lemma report_branch_extends: "report_branch u env files bb repo tb t = Inr t' \<Longrightarrow> extends t t'"
  by (auto simp: report_branch_def sbind_eq_Inr_iff split: if_splits prod.splits
      dest!: detect_branch_extends)

lemma test_component_update_extends:
  assumes "test_component_update u env files repo tb dry t = Inr (ok, t', files')"
  shows "extends t t'"
proof (cases "map_of components repo")
  case None
  with assms show ?thesis by (auto simp: test_component_update_def)
next
  case (Some config)
  let ?t1 = "print_status Info (''Testing update for '' @ cfg_display config @ '' with '' @
               (if py_startswith tb ''v'' then ''tag'' else ''branch'') @ '' '' @ tb) t"
  show ?thesis
  proof (cases "files (cfg_bb_file config)")
    case None
    with assms Some show ?thesis by (auto simp: test_component_update_def Let_def)
  next
    case (Some content)
    from assms \<open>map_of components repo = Some config\<close> Some obtain t2 where
      r: "report_branch u env files (cfg_bb_file config) repo tb
            (report_current_tag (cfg_bb_file config) tb content ?t1) = Inr t2" and "t' = t2"
      by (auto simp: test_component_update_def Let_def sbind_eq_Inr_iff split: if_splits prod.splits)
    have "extends t ?t1" by simp
    also have "extends ?t1 (report_current_tag (cfg_bb_file config) tb content ?t1)"
      by (rule report_current_tag_extends)
    also have "extends (report_current_tag (cfg_bb_file config) tb content ?t1) t2"
      using r by (rule report_branch_extends)
    finally show ?thesis using \<open>t' = t2\<close> by simp
  qed
qed

lemma validate_all_extends: "validate_all tags t = Inr t' \<Longrightarrow> extends t t'"
proof (induction tags arbitrary: t)
  case Nil
  then show ?case by simp
next
  case (Cons p tags)
  then show ?case
    by (cases p) (auto simp: sbind_eq_Inr_iff intro: extends_trans validate_input_format_extends)
qed

lemma test_all_extends: "test_all u env tags dry files t = Inr (t', files') \<Longrightarrow> extends t t'"
proof (induction tags arbitrary: files t)
  case Nil
  then show ?case by simp
next
  case (Cons p tags)
  then show ?case
    by (cases p) (auto simp: sbind_eq_Inr_iff split: prod.splits
        intro: extends_trans dest!: test_component_update_extends)
qed

lemma summary_extends: "extends t (summary dry t)"
  by (simp add: summary_def Let_def)

lemma run_updates_extends:
  assumes "run_updates u env files tags dry t = Inr (ok, t', files')"
  shows "extends t t'"
proof (cases "0 < t_errors t")
  case True
  with assms show ?thesis by (auto simp: run_updates_def)
next
  case False
  let ?t1 = "print_status Info (''Testing component updates ('' @ (if dry then ''dry run'' else ''live run'') @ '')...'')
               (print_status Success ''All inputs validated successfully'' t)"
  from False assms obtain t2 where a: "test_all u env tags dry files ?t1 = Inr (t2, files')"
    and t': "t' = summary dry t2"
    by (auto simp: run_updates_def Let_def sbind_eq_Inr_iff)
  have "extends t ?t1" by simp
  also have "extends ?t1 t2" using a by (rule test_all_extends)
  also have "extends t2 t'" unfolding t' by (rule summary_extends)
  finally show ?thesis .
qed

lemma run_tests_extends: "run_tests u env files tags dry t = Inr (ok, t', files') \<Longrightarrow> extends t t'"
  by (auto simp: run_tests_def sbind_eq_Inr_iff Let_def split: if_splits
      dest!: validate_all_extends run_updates_extends intro: extends_trans)

lemma tester_step_extends: "tester_step u env (t, files) (t', files') \<Longrightarrow> extends t t'"
  by (erule tester_stepE)
     (auto simp: validate_input_format_extends dest: test_component_update_extends run_tests_extends)

subsection \<open>Dry runs and validation\<close>

lemma test_component_update_dry:
  "test_component_update u env files repo tb True t = Inr (ok, t', files') \<Longrightarrow> files' = files"
  by (auto simp: test_component_update_def sbind_eq_Inr_iff Let_def split: option.splits)

lemma test_all_dry: "test_all u env tags True files t = Inr (t', files') \<Longrightarrow> files' = files"
proof (induction tags arbitrary: files t)
  case Nil
  then show ?case by simp
next
  case (Cons p tags)
  then show ?case
    by (cases p) (auto simp: sbind_eq_Inr_iff split: prod.splits dest!: test_component_update_dry)
qed

lemma validate_input_format_errors:
  "t_errors (snd (validate_input_format v c t)) =
     t_errors t + (if is_version_tag v \<or> is_release_branch v then 0 else 1)"
  by (simp add: validate_input_format_def print_status_def Let_def)

text \<open>Validation raises \<^verbatim>\<open>KeyError\<close> at the first unknown component; otherwise it
  adds one error per malformed specifier.\<close>

lemma validate_all_known:
  assumes "\<forall>(r, tb) \<in> set tags. map_of components r \<noteq> None"
  shows "\<exists>t'. validate_all tags t = Inr t' \<and>
           t_errors t' = t_errors t + length (filter (\<lambda>(r, tb). \<not> is_version_tag tb \<and> \<not> is_release_branch tb) tags)"
  using assms
proof (induction tags arbitrary: t)
  case Nil
  then show ?case by simp
next
  case (Cons p tags)
  obtain r tb where p: "p = (r, tb)" by (cases p)
  with Cons.prems obtain c where c: "map_of components r = Some c" by auto
  let ?t1 = "snd (validate_input_format tb (cfg_display c) t)"
  from Cons.IH [of ?t1] Cons.prems p obtain t' where
    "validate_all tags ?t1 = Inr t'"
    "t_errors t' = t_errors ?t1 + length (filter (\<lambda>(r, tb). \<not> is_version_tag tb \<and> \<not> is_release_branch tb) tags)"
    by auto
  with c p show ?case by (simp add: component_of_def validate_input_format_errors)
qed

lemma validate_all_unknown:
  "(r, tb) \<in> set tags \<Longrightarrow> map_of components r = None \<Longrightarrow> validate_all tags t = Inl KeyError"
proof (induction tags arbitrary: t)
  case Nil
  then show ?case by simp
next
  case (Cons p tags)
  obtain r' tb' where p: "p = (r', tb')" by (cases p)
  show ?case
  proof (cases "map_of components r'")
    case None
    with p show ?thesis by (simp add: component_of_def)
  next
    case (Some c)
    with Cons p show ?thesis by (auto simp: component_of_def)
  qed
qed

lemma detect_branch_fst:
  "map_sum id fst (detect_branch u env files bb repo tag t) = resolve_branch u env files bb repo tag"
proof -
  obtain r where "find_tag_branch u env repo tag = Inr r"
    using find_tag_branch_total by blast
  then show ?thesis by (simp add: detect_branch_def resolve_branch_def Let_def)
qed

subsection \<open>The harness's contract\<close>

text \<open>
  C17. The counters agree with the output: in every state the tester reaches from
  \<^verbatim>\<open>ComponentTester()\<close> by calls of its methods, \<^verbatim>\<open>errors\<close> is the number of error
  lines printed and \<^verbatim>\<open>warnings\<close> the number of warning lines.
\<close>

theorem tester_counters_invariant:
  assumes "(tester_step u env)\<^sup>*\<^sup>* (tester_init, files0) (t, files)"
  shows "counters_ok t"
  using assms
proof (induction "(t, files)" arbitrary: t files rule: rtranclp_induct)
  case base
  then show ?case by (simp add: counters_ok_init)
next
  case (step s)
  obtain t0 f0 where s: "s = (t0, f0)" by (cases s)
  with step show ?case by (blast dest: tester_step_extends intro: extends_counters_ok)
qed

lemma tester_counters_invariant_witness:
  "(tester_step (mk_updater ''rdkcentral'') demo_remote)\<^sup>*\<^sup>* (tester_init, harness_fs)
     (snd (validate_input_format ''1.3.0'' ''WAN Manager'' tester_init), harness_fs) \<and>
   counters_ok (snd (validate_input_format ''1.3.0'' ''WAN Manager'' tester_init))"
proof -
  have r: "(tester_step (mk_updater ''rdkcentral'') demo_remote)\<^sup>*\<^sup>* (tester_init, harness_fs)
     (snd (validate_input_format ''1.3.0'' ''WAN Manager'' tester_init), harness_fs)"
    by (rule r_into_rtranclp) (rule tester_step.validate)
  show ?thesis using tester_counters_invariant [OF r] r by blast
qed

lemma run_tests_dry:
  "run_tests u env files tags True t = Inr (ok, t', files') \<Longrightarrow> files' = files"
  by (auto simp: run_tests_def run_updates_def sbind_eq_Inr_iff Let_def split: if_splits prod.splits
      dest!: test_all_dry)

text \<open>
  C18. The harness is a dry run unless asked otherwise: without \<^verbatim>\<open>--live-run\<close> its
  \<^verbatim>\<open>main\<close> writes no file.
\<close>

theorem harness_main_no_write:
  assumes "\<not> h_live_run a" "harness_main env files a = Inr (code, files', r)"
  shows "files' = files"
  using assms
  by (auto simp: harness_main_def Let_def sbind_eq_Inr_iff split: if_splits prod.splits dest!: run_tests_dry)

lemma harness_main_no_write_witness:
  "\<exists>code r. \<not> h_live_run demo_h_args \<and>
     harness_main (\<lambda>_. None) harness_fs demo_h_args = Inr (code, harness_fs, r)"
proof -
  have n: "\<not> h_live_run demo_h_args" by (simp add: demo_h_args_def)
  have "\<not> isl (harness_main (\<lambda>_. None) harness_fs demo_h_args)" by code_simp
  then obtain code f r where h: "harness_main (\<lambda>_. None) harness_fs demo_h_args = Inr (code, f, r)"
    by (cases "harness_main (\<lambda>_. None) harness_fs demo_h_args") auto
  with harness_main_no_write [OF n h] n show ?thesis by blast
qed

text \<open>
  C19. Validation comes before any update: when every component is known but one
  specifier is malformed, \<^verbatim>\<open>run_tests\<close> returns \<^verbatim>\<open>False\<close> without testing or
  writing anything, also in a live run.
\<close>

theorem run_tests_rejects_invalid:
  assumes "files wan_recipe_path \<noteq> None"
    and "\<forall>(r, tb) \<in> set tags. map_of components r \<noteq> None"
    and "(r, tb) \<in> set tags" "\<not> is_version_tag tb" "\<not> is_release_branch tb"
  shows "\<exists>t'. run_tests u env files tags dry t = Inr (False, t', files)"
proof -
  let ?t1 = "print_status Info ''Starting component version update tests...'' t"
  obtain t2 where v: "validate_all tags ?t1 = Inr t2" and
    e: "t_errors t2 = t_errors ?t1 + length (filter (\<lambda>(r, tb). \<not> is_version_tag tb \<and> \<not> is_release_branch tb) tags)"
    using validate_all_known [OF assms(2)] by blast
  have "filter (\<lambda>(r, tb). \<not> is_version_tag tb \<and> \<not> is_release_branch tb) tags \<noteq> []"
    using assms(3-5) by (auto simp: filter_empty_conv)
  with e have "0 < t_errors t2" by simp
  with v assms(1) show ?thesis by (auto simp: run_tests_def run_updates_def)
qed

lemma run_tests_rejects_invalid_witness:
  "harness_fs wan_recipe_path \<noteq> None \<and>
   (''wan-manager'', ''1.3.0'') \<in> set [(''wan-manager'', ''1.3.0'')] \<and>
   \<not> is_version_tag ''1.3.0'' \<and> \<not> is_release_branch ''1.3.0'' \<and>
   (\<exists>t'. run_tests (mk_updater ''rdkcentral'') demo_remote harness_fs [(''wan-manager'', ''1.3.0'')] False
      tester_init = Inr (False, t', harness_fs))"
proof -
  have a: "harness_fs wan_recipe_path \<noteq> None" by (simp add: harness_fs_def)
  have b: "\<forall>(r, tb) \<in> set [(''wan-manager'', ''1.3.0'')]. map_of components r \<noteq> None"
    by (simp add: components_def)
  have c: "(''wan-manager'', ''1.3.0'') \<in> set [(''wan-manager'', ''1.3.0'')]" by simp
  have d: "\<not> is_version_tag ''1.3.0''" "\<not> is_release_branch ''1.3.0''" by code_simp+
  show ?thesis using run_tests_rejects_invalid [where files = harness_fs, OF a b c d] a c d by blast
qed

text \<open>
  C20. A component the table does not know makes \<^verbatim>\<open>run_tests\<close> raise \<^verbatim>\<open>KeyError\<close>
  in its validation loop, so the \<^verbatim>\<open>Unknown component\<close> branch of
  \<^verbatim>\<open>test_component_update\<close> is never reached from \<^verbatim>\<open>run_tests\<close>.
\<close>

theorem run_tests_unknown_component:
  assumes "files wan_recipe_path \<noteq> None" "(r, tb) \<in> set tags" "map_of components r = None"
  shows "run_tests u env files tags dry t = Inl KeyError"
  by (simp add: run_tests_def Let_def assms(1) validate_all_unknown [OF assms(2,3)])

lemma run_tests_unknown_component_witness:
  "harness_fs wan_recipe_path \<noteq> None \<and>
   (''dsl-manager'', ''v1.0.0'') \<in> set [(''dsl-manager'', ''v1.0.0'')] \<and>
   map_of components ''dsl-manager'' = None \<and>
   run_tests (mk_updater ''rdkcentral'') demo_remote harness_fs [(''dsl-manager'', ''v1.0.0'')] True tester_init
     = Inl KeyError"
proof -
  have a: "harness_fs wan_recipe_path \<noteq> None" by (simp add: harness_fs_def)
  have b: "(''dsl-manager'', ''v1.0.0'') \<in> set [(''dsl-manager'', ''v1.0.0'')]" by simp
  have c: "map_of components ''dsl-manager'' = None" by (simp add: components_def)
  show ?thesis using run_tests_unknown_component [where files = harness_fs, OF a b c] a b c by blast
qed

text \<open>
  C21. The harness resolves a tag's branch exactly as the updater does: the branch of
  \<^verbatim>\<open>test_component_update\<close>'s detection (lines 142--153 of the harness) is the
  branch \<^verbatim>\<open>update_bb_file\<close> resolves (lines 214--230 of the updater), for every remote
  and recipe.
\<close>

theorem detect_branch_is_resolve_branch:
  "detect_branch u env files bb repo tag t = Inr (b, t') \<Longrightarrow> resolve_branch u env files bb repo tag = Inr b"
  using detect_branch_fst [of u env files bb repo tag t] by simp

lemma detect_branch_is_resolve_branch_witness:
  "detect_branch (mk_updater ''rdkcentral'') demo_remote harness_fs wan_recipe_path ''wan-manager'' ''v2.11.0''
     tester_init = Inr (''releases/2.11.0-main'', tester_init) \<and>
   resolve_branch (mk_updater ''rdkcentral'') demo_remote harness_fs wan_recipe_path ''wan-manager'' ''v2.11.0''
     = Inr ''releases/2.11.0-main''"
proof -
  have d: "detect_branch (mk_updater ''rdkcentral'') demo_remote harness_fs wan_recipe_path ''wan-manager'' ''v2.11.0''
     tester_init = Inr (''releases/2.11.0-main'', tester_init)"
    by (simp add: detect_branch_def demo_simps)
  show ?thesis using detect_branch_is_resolve_branch [OF d] d by blast
qed

text \<open>
  C22. The harness reads the current tag from a disabled \<^verbatim>\<open>#GIT_TAG\<close> line only:
  on every recipe in which no line starts with \<^verbatim>\<open>#GIT_TAG = \<close>, in particular one
  whose tag is held by the active \<^verbatim>\<open>GIT_TAG = "..."\<close> line tag mode inserts,
  \<^verbatim>\<open>_get_current_tag\<close> finds no tag, so re-testing the current tag gives no
  \<^verbatim>\<open>already current\<close> warning.
\<close>

theorem get_current_tag_needs_disabled_line:
  assumes "\<forall>l \<in> set (py_split nl c). \<not> py_startswith l ''#GIT_TAG = ''"
  shows "get_current_tag c = []"
proof -
  have "bol_free ''#GIT_TAG = '' None c" using assms by (simp add: bol_free_lines)
  then have "re_search current_tag_re c = None"
    unfolding current_tag_re_def re_search_def by (rule search_from_bol_free)
  then show ?thesis by (simp add: get_current_tag_def)
qed

lemma get_current_tag_needs_disabled_line_witness:
  "list_all (\<lambda>l. \<not> py_startswith l ''#GIT_TAG = '') (py_split nl tagged_recipe) \<and>
   git_tag_line ''v2.11.0'' \<in> set (py_split nl tagged_recipe) \<and> get_current_tag tagged_recipe = []"
proof -
  have l: "list_all (\<lambda>l. \<not> py_startswith l ''#GIT_TAG = '') (py_split nl tagged_recipe)" by code_simp
  have g: "git_tag_line ''v2.11.0'' \<in> set (py_split nl tagged_recipe)" by code_simp
  from l have "\<forall>l \<in> set (py_split nl tagged_recipe). \<not> py_startswith l ''#GIT_TAG = ''"
    by (simp add: list_all_iff)
  from get_current_tag_needs_disabled_line [OF this] l g show ?thesis by blast
qed

subsection \<open>A successful run\<close>

lemma update_bb_file_dom:
  "update_bb_file u env files tb repo path cname = Inr (ok, files') \<Longrightarrow> (files' p = None) = (files p = None)"
  by (auto simp: update_bb_file_def sbind_eq_Inr_iff split: option.splits if_splits)

lemma test_component_update_dom:
  "test_component_update u env files repo tb dry t = Inr (ok, t', files') \<Longrightarrow> (files' p = None) = (files p = None)"
  by (auto simp: test_component_update_def sbind_eq_Inr_iff Let_def split: option.splits if_splits
      dest: update_bb_file_dom)

lemma test_component_update_missing:
  assumes "map_of components repo = Some c" "files (cfg_bb_file c) = None"
    and "test_component_update u env files repo tb dry t = Inr (ok, t', files')"
  shows "t_errors t < t_errors t'"
  using assms by (auto simp: test_component_update_def Let_def print_status_def)

lemma test_all_missing:
  assumes "test_all u env tags dry files t = Inr (t', files')" "(r, tb) \<in> set tags"
    "map_of components r = Some c" "files (cfg_bb_file c) = None"
  shows "t_errors t < t_errors t'"
  using assms
proof (induction tags arbitrary: files t)
  case Nil
  then show ?case by simp
next
  case (Cons p tags)
  obtain r' tb' where p: "p = (r', tb')" by (cases p)
  from Cons.prems(1) p obtain ok t1 f1 where
    h: "test_component_update u env files r' tb' dry t = Inr (ok, t1, f1)" and
    rest: "test_all u env tags dry f1 t1 = Inr (t', files')"
    by (auto simp: sbind_eq_Inr_iff split: prod.splits)
  have e: "t_errors t \<le> t_errors t1" "t_errors t1 \<le> t_errors t'"
    using test_component_update_extends [OF h] test_all_extends [OF rest] by (auto dest: extends_errors_mono)
  show ?case
  proof (cases "(r, tb) = (r', tb')")
    case True
    with Cons.prems h e show ?thesis by (auto dest: test_component_update_missing)
  next
    case False
    with Cons.prems(2) p have "(r, tb) \<in> set tags" by auto
    moreover have "f1 (cfg_bb_file c) = None"
      using test_component_update_dom [OF h] Cons.prems(4) by simp
    ultimately have "t_errors t1 < t_errors t'" using Cons.IH [OF rest] Cons.prems(3) by blast
    with e show ?thesis by simp
  qed
qed

text \<open>
  C23. A run of the harness that reports success checked what it claims: every
  component was known, every specifier well formed and every recipe present.
\<close>

theorem run_tests_success_sound:
  assumes "run_tests u env files tags dry t = Inr (True, t', files')"
  shows "\<forall>(r, tb) \<in> set tags. (is_version_tag tb \<or> is_release_branch tb) \<and>
           (\<exists>c. map_of components r = Some c \<and> files (cfg_bb_file c) \<noteq> None)"
proof -
  let ?t1 = "print_status Info ''Starting component version update tests...'' t"
  have w: "files wan_recipe_path \<noteq> None" using assms by (auto simp: run_tests_def Let_def split: if_splits)
  have known: "\<forall>(r, tb) \<in> set tags. map_of components r \<noteq> None"
  proof (rule ccontr)
    assume "\<not> ?thesis"
    then obtain r tb where "(r, tb) \<in> set tags" "map_of components r = None" by auto
    then have "validate_all tags ?t1 = Inl KeyError" by (rule validate_all_unknown)
    with assms w show False by (simp add: run_tests_def Let_def)
  qed
  obtain t2 where v: "validate_all tags ?t1 = Inr t2" and
    e: "t_errors t2 = t_errors ?t1 + length (filter (\<lambda>(r, tb). \<not> is_version_tag tb \<and> \<not> is_release_branch tb) tags)"
    using validate_all_known [OF known] by blast
  from assms w v have u: "run_updates u env files tags dry t2 = Inr (True, t', files')"
    by (simp add: run_tests_def Let_def)
  then have z: "t_errors t2 = 0" by (auto simp: run_updates_def split: if_splits)
  let ?t3 = "print_status Info (''Testing component updates ('' @ (if dry then ''dry run'' else ''live run'') @ '')...'')
               (print_status Success ''All inputs validated successfully'' t2)"
  from u z obtain t4 where a: "test_all u env tags dry files ?t3 = Inr (t4, files')"
    and t': "t' = summary dry t4" "t_errors t' = 0"
    by (auto simp: run_updates_def Let_def sbind_eq_Inr_iff split: prod.splits)
  have "t_errors t4 = 0"
    using extends_errors_mono [OF summary_extends [of t4 dry]] t' by simp
  moreover have "t_errors ?t3 = 0" using z by (simp add: print_status_def)
  ultimately have nomiss: "\<not> (\<exists>r tb c. (r, tb) \<in> set tags \<and> map_of components r = Some c \<and> files (cfg_bb_file c) = None)"
    using test_all_missing [OF a] by fastforce
  from e z have valid: "filter (\<lambda>(r, tb). \<not> is_version_tag tb \<and> \<not> is_release_branch tb) tags = []"
    by simp
  show ?thesis
  proof (clarify)
    fix r tb assume m: "(r, tb) \<in> set tags"
    with valid have "is_version_tag tb \<or> is_release_branch tb" by (auto simp: filter_empty_conv)
    moreover from m known obtain c where "map_of components r = Some c" by auto
    ultimately show "(is_version_tag tb \<or> is_release_branch tb) \<and>
           (\<exists>c. map_of components r = Some c \<and> files (cfg_bb_file c) \<noteq> None)"
      using nomiss m by blast
  qed
qed

lemma run_tests_success_sound_witness:
  "\<exists>t' f'. run_tests (mk_updater ''rdkcentral'') (\<lambda>_. None) harness_fs
      [(''wan-manager'', ''releases/2.12.0-main'')] True tester_init = Inr (True, t', f') \<and>
   (\<forall>(r, tb) \<in> set [(''wan-manager'', ''releases/2.12.0-main'')]. (is_version_tag tb \<or> is_release_branch tb) \<and>
      (\<exists>c. map_of components r = Some c \<and> harness_fs (cfg_bb_file c) \<noteq> None))"
proof -
  have "\<not> isl (run_tests (mk_updater ''rdkcentral'') (\<lambda>_. None) harness_fs
     [(''wan-manager'', ''releases/2.12.0-main'')] True tester_init) \<and>
    fst (projr (run_tests (mk_updater ''rdkcentral'') (\<lambda>_. None) harness_fs
     [(''wan-manager'', ''releases/2.12.0-main'')] True tester_init))"
    by code_simp
  then obtain t' f' where r: "run_tests (mk_updater ''rdkcentral'') (\<lambda>_. None) harness_fs
     [(''wan-manager'', ''releases/2.12.0-main'')] True tester_init = Inr (True, t', f')"
    by (cases "run_tests (mk_updater ''rdkcentral'') (\<lambda>_. None) harness_fs
     [(''wan-manager'', ''releases/2.12.0-main'')] True tester_init") auto
  then show ?thesis using run_tests_success_sound [OF r] by blast
qed

end
