(* ===== verification/Resolver_Spec.thy ===== *)
theory Resolver_Spec
  imports Branch_Resolver
begin

text \<open>
  The contract of the branch resolver as the specification states it (section 4.1):
  the tiers are tried in order and the first success wins; a tier succeeds when it
  yields a non-empty branch name; when none does, the branch synthesized from the tag
  is used. \<open>resolve_spec\<close> is that contract over the tiers' answers, and
  \<open>resolve_branch_refines_spec\<close> shows that the code's nesting of
  \<^verbatim>\<open>find_tag_branch\<close>, \<^verbatim>\<open>get_current_branch_from_bb\<close> and the fallback implements it,
  with the tiers' answers given by the methods of \<open>Branch_Resolver\<close>.
\<close>

definition first_success :: "string option list \<Rightarrow> string option" where
  "first_success bs = first_some (\<lambda>b. if opt_truthy b then b else None) bs"

definition resolve_spec :: "string option list \<Rightarrow> string \<Rightarrow> string" where
  "resolve_spec tiers dflt = (case first_success tiers of Some b \<Rightarrow> b | None \<Rightarrow> dflt)"

text \<open>Tier 1 of the specification: the tag's commit, dereferenced, and a release branch containing it.\<close>

definition commit_tier :: "updater \<Rightarrow> remote \<Rightarrow> string \<Rightarrow> string \<Rightarrow> string option" where
  "commit_tier u env repo tag =
     (case get_tag_sha u env repo tag of
        Inr s \<Rightarrow>
          if py_truthy s then
            (case get_commit_sha u env repo s of
               Inr c \<Rightarrow> if py_truthy c then
                          (case find_branch_containing_commit u env repo c of Inr b \<Rightarrow> b | Inl _ \<Rightarrow> None)
                        else None
             | Inl _ \<Rightarrow> None)
          else None
      | Inl _ \<Rightarrow> None)"

text \<open>Tier 2: the naming-convention guesses.\<close>

definition pattern_tier :: "updater \<Rightarrow> remote \<Rightarrow> string \<Rightarrow> string \<Rightarrow> string option" where
  "pattern_tier u env repo tag = (case find_branch_by_pattern u env repo tag of Inr b \<Rightarrow> b | Inl _ \<Rightarrow> None)"

section \<open>Lemmas\<close>

lemma get_tag_sha_total: "\<exists>s. get_tag_sha u env repo tag = Inr s"
  by (simp add: get_tag_sha_def py_try_const)

lemma get_commit_sha_total: "\<exists>c. get_commit_sha u env repo s = Inr c"
  by (simp add: get_commit_sha_def py_try_const)

lemma find_branch_containing_commit_total: "\<exists>b. find_branch_containing_commit u env repo c = Inr b"
  by (simp add: find_branch_containing_commit_def py_try_const)

lemma find_tag_branch_tiers:
  "find_tag_branch u env repo tag =
     Inr (if opt_truthy (commit_tier u env repo tag) then commit_tier u env repo tag
          else if opt_truthy (pattern_tier u env repo tag) then pattern_tier u env repo tag else None)"
proof -
  obtain s where s: "get_tag_sha u env repo tag = Inr s" using get_tag_sha_total by blast
  obtain c where c: "get_commit_sha u env repo s = Inr c" using get_commit_sha_total by blast
  obtain b where b: "find_branch_containing_commit u env repo c = Inr b"
    using find_branch_containing_commit_total by blast
  show ?thesis
    by (simp add: find_tag_branch_def commit_tier_def pattern_tier_def s c b find_branch_by_pattern_def
        first_existing_find)
qed

text \<open>
  C24. Refinement: \<^verbatim>\<open>update_bb_file\<close>'s resolution is the specification's ordered
  first-success over the commit tier, the naming tier and the recorded branch, with the
  synthesized \<^verbatim>\<open>releases/{major}.{minor}.0-main\<close> as the last resort.
\<close>

theorem resolve_branch_refines_spec:
  "resolve_branch u env files path repo tag =
     Inr (resolve_spec [commit_tier u env repo tag, pattern_tier u env repo tag,
                        get_current_branch_from_bb u files path repo] (fallback_branch tag))"
  by (auto simp: resolve_branch_def find_tag_branch_tiers resolve_spec_def first_success_def Let_def
      split: option.splits)

end
