(* ===== verification/Recipe_Lines.thy ===== *)
theory Recipe_Lines
  imports Recipe_Mutator
begin

text \<open>
  The line insertion of tag mode (\<^verbatim>\<open>update_bb_file\<close> lines 233--250) against a
  reference: \<open>insert_point\<close> states where the specification puts a missing
  \<^verbatim>\<open>GIT_TAG\<close> (after the license-checksum line, else after a dependency line), and the
  lemmas show that the loop \<open>insert_index\<close> computes it and that \<open>insert_git_tag\<close>
  leaves the recipe's lines in place with the three new lines after that point.
\<close>

text \<open>The index of the first line mentioning \<open>w\<close>.\<close>

definition first_line :: "string \<Rightarrow> string list \<Rightarrow> nat option" where
  "first_line w ls =
     (if list_ex (\<lambda>l. py_in w l) ls then Some (length (takeWhile (\<lambda>l. \<not> py_in w l) ls)) else None)"

definition insert_point :: "string list \<Rightarrow> int" where
  "insert_point ls =
     (case first_line ''LIC_FILES_CHKSUM'' ls of
        Some i \<Rightarrow> int (i + 1)
      | None \<Rightarrow> (case first_line ''DEPENDS'' ls of Some j \<Rightarrow> int (j + 1) | None \<Rightarrow> -1))"

section \<open>Lemmas\<close>

lemma first_line_simps [simp]:
  "first_line w [] = None"
  "first_line w (l # ls) = (if py_in w l then Some 0 else map_option Suc (first_line w ls))"
  by (simp_all add: first_line_def)

text \<open>The loop from line \<open>i\<close> on, with \<open>idx\<close> found so far.\<close>

lemma insert_index_first_line:
  "insert_index i idx ls =
     (case first_line ''LIC_FILES_CHKSUM'' ls of
        Some k \<Rightarrow> int (i + k + 1)
      | None \<Rightarrow> if idx = -1 then
                  (case first_line ''DEPENDS'' ls of Some k \<Rightarrow> int (i + k + 1) | None \<Rightarrow> -1)
                else idx)"
proof (induction ls arbitrary: i idx)
  case Nil
  then show ?case by simp
next
  case (Cons l ls)
  show ?case
  proof (cases "py_in ''LIC_FILES_CHKSUM'' l")
    case True
    then show ?thesis by simp
  next
    case False
    note IH1 = Cons.IH [where i = "Suc i" and idx = "int (i + 1)"]
    note IH2 = Cons.IH [where i = "Suc i" and idx = idx]
    show ?thesis
    proof (cases "py_in ''DEPENDS'' l \<and> idx = -1")
      case True
      with False IH1 show ?thesis by (simp split: option.splits)
    next
      case nd: False
      with False IH2 show ?thesis by (auto split: option.splits)
    qed
  qed
qed

lemma first_line_less: "first_line w ls = Some k \<Longrightarrow> k < length ls"
  by (induction ls arbitrary: k) (auto split: if_splits)

lemma insert_point_le: "insert_point ls = int i \<Longrightarrow> 0 < i \<Longrightarrow> i \<le> length ls"
  by (auto simp: insert_point_def split: option.splits dest!: first_line_less)

lemma insert_git_tag_split:
  assumes "nl \<notin> set tag" "insert_point (py_split nl c) = int i" "0 < i"
  shows "py_split nl (insert_git_tag tag c) =
           take i (py_split nl c) @ [[], release_comment, git_tag_line tag] @ drop i (py_split nl c)"
proof -
  let ?ls = "py_split nl c"
  have le: "i \<le> length ?ls" using insert_point_le [OF assms(2,3)] .
  have idx: "insert_index 0 (-1) ?ls = int i"
    using assms(2) by (simp add: insert_index_first_line insert_point_def split: option.splits)
  have ins: "insert_git_tag tag c = py_join [nl] (take i ?ls @ [[], release_comment, git_tag_line tag] @ drop i ?ls)"
    using assms(3) le
    by (simp add: insert_git_tag_def idx py_list_insert_def Let_def min_def
        nth_append take_Cons' drop_Cons')
  have "\<forall>w \<in> set (take i ?ls @ [[], release_comment, git_tag_line tag] @ drop i ?ls). nl \<notin> set w"
    using assms(1) py_split_no_sep [of _ nl c]
    by (auto simp: release_comment_def git_tag_line_def dest: in_set_takeD in_set_dropD)
  then show ?thesis unfolding ins by (intro py_split_join) simp_all
qed

lemma insert_point_cases: "insert_point ls = -1 \<or> (\<exists>i. 0 < i \<and> insert_point ls = int i)"
  by (auto simp: insert_point_def split: option.splits)

lemma insert_point_none:
  "insert_point ls = -1 \<longleftrightarrow> (\<forall>l \<in> set ls. \<not> py_in ''LIC_FILES_CHKSUM'' l \<and> \<not> py_in ''DEPENDS'' l)"
  by (auto simp: insert_point_def first_line_def list_ex_iff split: option.splits)

text \<open>
  C25. The insertion point the loop of lines 236--243 computes is the reference one: one
  past the first line that mentions \<^verbatim>\<open>LIC_FILES_CHKSUM\<close>, else one past the first that
  mentions \<^verbatim>\<open>DEPENDS\<close>, else \<open>-1\<close> (no insertion).
\<close>

theorem insert_index_is_insert_point: "insert_index 0 (-1) ls = insert_point ls"
  by (simp add: insert_index_first_line insert_point_def split: option.splits)

text \<open>
  C26. Round trip of the insertion: splitting the recipe that \<open>insert_git_tag\<close> writes
  back into lines gives the old lines, unchanged and in order, with the blank line, the
  release comment and \<^verbatim>\<open>GIT_TAG = "tag"\<close> at the insertion point.
\<close>

theorem insert_git_tag_lines:
  assumes "nl \<notin> set tag" "insert_point (py_split nl c) = int i" "0 < i"
  shows "py_split nl (insert_git_tag tag c) =
           take i (py_split nl c) @ [[], release_comment, git_tag_line tag] @ drop i (py_split nl c)"
  using insert_git_tag_split [OF assms] .

lemma insert_git_tag_lines_witness:
  "nl \<notin> set ''v2.11.0'' \<and> insert_point (py_split nl branch_recipe) = int 2 \<and> 0 < (2::nat) \<and>
   py_split nl (insert_git_tag ''v2.11.0'' branch_recipe) =
     take 2 (py_split nl branch_recipe) @ [[], release_comment, git_tag_line ''v2.11.0''] @
     drop 2 (py_split nl branch_recipe)"
proof -
  have a: "nl \<notin> set ''v2.11.0''" by simp
  have b: "insert_point (py_split nl branch_recipe) = int 2" by code_simp
  have c: "0 < (2::nat)" by simp
  show ?thesis using insert_git_tag_lines [OF a b c] a b c by blast
qed

text \<open>
  C27. Tag mode ensures a \<^verbatim>\<open>GIT_TAG\<close> line only where it finds an anchor:
  \<open>insert_git_tag\<close> returns the recipe unchanged exactly when no line mentions
  \<^verbatim>\<open>LIC_FILES_CHKSUM\<close> or \<^verbatim>\<open>DEPENDS\<close>; then the source only prints a warning
  and goes on with the tag-mode rewrite.
\<close>

theorem insert_git_tag_unchanged_iff:
  assumes "nl \<notin> set tag"
  shows "insert_git_tag tag c = c \<longleftrightarrow>
           (\<forall>l \<in> set (py_split nl c). \<not> py_in ''LIC_FILES_CHKSUM'' l \<and> \<not> py_in ''DEPENDS'' l)"
proof (cases "insert_point (py_split nl c) = -1")
  case True
  then have "insert_index 0 (-1) (py_split nl c) = -1"
    by (simp add: insert_index_first_line insert_point_def split: option.splits)
  with True show ?thesis by (simp add: insert_git_tag_def insert_point_none [symmetric])
next
  case False
  then obtain i where i: "0 < i" "insert_point (py_split nl c) = int i"
    using insert_point_cases by blast
  have "length (py_split nl (insert_git_tag tag c)) = length (py_split nl c) + 3"
    using insert_git_tag_split [OF assms i(2,1)] insert_point_le [OF i(2,1)] by simp
  then have "insert_git_tag tag c \<noteq> c" by auto
  with False show ?thesis by (simp add: insert_point_none [symmetric])
qed

lemma insert_git_tag_unchanged_iff_witness:
  "nl \<notin> set ''v2.11.0'' \<and>
   insert_git_tag ''v2.11.0'' (''SUMMARY = x'' @ [nl] @ ''SRCREV = abc'') = ''SUMMARY = x'' @ [nl] @ ''SRCREV = abc''"
proof -
  have a: "nl \<notin> set ''v2.11.0''" by simp
  have "\<forall>l \<in> set (py_split nl (''SUMMARY = x'' @ [nl] @ ''SRCREV = abc'')).
          \<not> py_in ''LIC_FILES_CHKSUM'' l \<and> \<not> py_in ''DEPENDS'' l"
    by code_simp
  with insert_git_tag_unchanged_iff [OF a] a show ?thesis by blast
qed

end
