(* ===== verification/Version_Tags.thy ===== *)
theory Version_Tags
  imports Recipe_Mutator
begin

text \<open>
  Version tags as release tooling prints them, \<^verbatim>\<open>v{major}.{minor}.{patch}\<close> with
  decimal components, read back by the two parsers of \<^verbatim>\<open>update_component.py\<close>:
  the classification \<open>is_version_tag\<close> (line 197) and the split of the version into
  major and minor that names the candidate branches (\<open>branch_patterns\<close>, lines
  133--142) and the fallback branch (lines 227--229).
\<close>

section \<open>Lemmas\<close>

lemma digits_no_sep: "list_all is_digit w \<Longrightarrow> CHR ''.'' \<notin> set w \<and> CHR ''v'' \<notin> set w"
  by (auto simp: list_all_iff is_digit_def)

lemma is_version_tag_digits:
  assumes "a \<noteq> []" "b \<noteq> []" "c \<noteq> []" "list_all is_digit a" "list_all is_digit b" "list_all is_digit c"
  shows "is_version_tag (''v'' @ a @ ''.'' @ b @ ''.'' @ c)"
proof -
  have dot: "\<not> is_digit CHR ''.''" by (simp add: is_digit_def)
  have ds: "list_all (in_class Digit) a" "list_all (in_class Digit) b" "list_all (in_class Digit) c"
    using assms(4-6) by (simp_all add: in_class_Digit)
  have m3: "rmatch [Rep Digit 1 None True] p q c \<noteq> None" for p q
    using rmatch_greedy_run [of c Digit "[]" "[]" q "(q + length c, [])" p] assms(3) ds(3) by simp
  have m2: "rmatch [Rep Digit 1 None True, Atom (Chr CHR ''.''), Rep Digit 1 None True] p q (b @ CHR ''.'' # c) \<noteq> None"
    for p q
  proof -
    obtain m where m: "rmatch [Rep Digit 1 None True] (Some CHR ''.'') (Suc (q + length b)) c = Some m"
      using m3 by blast
    show ?thesis
      using rmatch_greedy_run [of b Digit "CHR ''.'' # c" "[Atom (Chr CHR ''.''), Rep Digit 1 None True]" q m p]
        assms(2) ds(2) dot m by simp
  qed
  obtain m where m: "rmatch [Rep Digit 1 None True, Atom (Chr CHR ''.''), Rep Digit 1 None True]
      (Some CHR ''.'') (Suc (1 + length a)) (b @ CHR ''.'' # c) = Some m"
    using m2 by blast
  have m1: "rmatch (drop 2 version_tag_re) (Some CHR ''v'') 1 (a @ CHR ''.'' # b @ CHR ''.'' # c) = Some m"
    using rmatch_greedy_run [of a Digit "CHR ''.'' # b @ CHR ''.'' # c"
        "[Atom (Chr CHR ''.''), Rep Digit 1 None True, Atom (Chr CHR ''.''), Rep Digit 1 None True]" 1 m
        "Some CHR ''v''"]
      assms(1) ds(1) dot m by (simp add: version_tag_re_def)
  then show ?thesis by (simp add: is_version_tag_def re_match_def version_tag_re_def)
qed

lemma major_minor_digits:
  assumes "CHR ''.'' \<notin> set a" "CHR ''.'' \<notin> set b" "CHR ''.'' \<notin> set c"
  shows "major_minor (a @ ''.'' @ b @ ''.'' @ c) = a @ ''.'' @ b"
  using assms by (simp add: major_minor_def py_split_append_sep py_split_no_sep_word)

lemma lstrip_v_digits: "list_all is_digit a \<Longrightarrow> a \<noteq> [] \<Longrightarrow> py_lstrip CHR ''v'' (''v'' @ a @ r) = a @ r"
  by (cases a) (auto simp: py_lstrip_def is_digit_def)

text \<open>
  C28. Round trip of a printed version: \<^verbatim>\<open>v{a}.{b}.{c}\<close> with non-empty decimal
  components is accepted as a version tag, its five candidate branches are built from
  \<open>a.b\<close> and \<open>a.b.c\<close> exactly as printed, and its fallback branch is
  \<^verbatim>\<open>releases/{a}.{b}.0-main\<close>.
\<close>

theorem version_tag_roundtrip:
  assumes "a \<noteq> []" "b \<noteq> []" "c \<noteq> []" "list_all is_digit a" "list_all is_digit b" "list_all is_digit c"
  shows "is_version_tag (''v'' @ a @ ''.'' @ b @ ''.'' @ c) \<and>
         branch_patterns (''v'' @ a @ ''.'' @ b @ ''.'' @ c) =
           [''releases/'' @ a @ ''.'' @ b @ ''.0-main'', ''releases/'' @ a @ ''.'' @ b @ ''.'' @ c @ ''-main'',
            ''releases/'' @ a @ ''.'' @ b @ ''-main'', ''release-'' @ a @ ''.'' @ b,
            ''release-'' @ a @ ''.'' @ b @ ''.'' @ c] \<and>
         fallback_branch (''v'' @ a @ ''.'' @ b @ ''.'' @ c) = ''releases/'' @ a @ ''.'' @ b @ ''.0-main''"
proof -
  have s: "py_lstrip CHR ''v'' (''v'' @ a @ ''.'' @ b @ ''.'' @ c) = a @ ''.'' @ b @ ''.'' @ c"
    using lstrip_v_digits [OF assms(4,1)] by simp
  have m: "major_minor (a @ ''.'' @ b @ ''.'' @ c) = a @ ''.'' @ b"
    using digits_no_sep [OF assms(4)] digits_no_sep [OF assms(5)] digits_no_sep [OF assms(6)]
    by (intro major_minor_digits) simp_all
  show ?thesis
    using is_version_tag_digits [OF assms] s m by (simp add: branch_patterns_def fallback_branch_def Let_def)
qed

lemma version_tag_roundtrip_witness:
  "''2'' \<noteq> [] \<and> ''11'' \<noteq> [] \<and> ''0'' \<noteq> [] \<and>
   list_all is_digit ''2'' \<and> list_all is_digit ''11'' \<and> list_all is_digit ''0'' \<and>
   is_version_tag ''v2.11.0'' \<and> fallback_branch ''v2.11.0'' = ''releases/2.11.0-main''"
proof -
  have d: "list_all is_digit ''2''" "list_all is_digit ''11''" "list_all is_digit ''0''"
    by (simp_all add: is_digit_def)
  from version_tag_roundtrip [of "''2''" "''11''" "''0''", OF _ _ _ d] d show ?thesis by simp
qed

end
