(* ===== verification/Spec2Isabelle.thy ===== *)
theory Spec2Isabelle
  imports Cli_Main Harness Resolver_Spec Recipe_Lines Version_Tags
begin

text \<open>
  \<^bold>\<open>A verified model of the component version updater of meta-rdk-wan.\<close>

  \<^bold>\<open>The program.\<close> \<^verbatim>\<open>src/.github/scripts/update_component.py\<close> rewrites a BitBake
  recipe so that it builds a component from a release tag (\<^verbatim>\<open>v2.11.0\<close>) or from a
  release-validation branch (\<^verbatim>\<open>releases/1.4.0-main\<close>). Its class
  \<^verbatim>\<open>ComponentUpdater\<close> has two parts that interact through one string, the branch:
  \<^item> the \<^emph>\<open>branch resolver\<close> (\<^verbatim>\<open>find_tag_branch\<close> and its helpers, lines 47--157,
    and \<^verbatim>\<open>get_current_branch_from_bb\<close>, lines 164--177) asks the GitHub API which
    \<^verbatim>\<open>releases/\<close> branch contains the tag's commit, falls back to five
    naming-convention guesses, then to the branch recorded in the recipe's disabled
    \<^verbatim>\<open>#SRC_URI\<close> line, then to \<^verbatim>\<open>releases/{major}.{minor}.0-main\<close>;
  \<^item> the \<^emph>\<open>recipe mutator\<close> (\<^verbatim>\<open>update_bb_file\<close>, lines 179--341) classifies its
    input, and rewrites the recipe text with \<^verbatim>\<open>re.sub\<close>, \<^verbatim>\<open>str.replace\<close> and a line
    insertion: \<^verbatim>\<open>GIT_TAG\<close>, \<^verbatim>\<open>SRC_URI\<close>, \<^verbatim>\<open>PV\<close>, \<^verbatim>\<open>SRCREV\<close>.
  \<^verbatim>\<open>main\<close> (lines 344--396) validates the input before any I/O and offers a dry run.
  \<^verbatim>\<open>src/.github/scripts/test_component_updates.py\<close> is a harness that re-runs the
  resolution per component and counts errors and warnings.

  \<^bold>\<open>The library.\<close>
  \<^item> \<open>Prelude\<close>: Python's exceptions (\<open>exn\<close>), \<open>exn + 'a\<close> with \<open>sbind\<close> and
    \<open>py_try\<close> for \<^verbatim>\<open>try/except\<close>, the file system \<open>fs\<close> (path to contents), and the
    \<^verbatim>\<open>str\<close>/\<^verbatim>\<open>list\<close> methods the scripts call, with their lemmas (split/join round
    trip, substring characterisation).
  \<^item> \<open>Regex\<close>: the fragment of Python's \<^verbatim>\<open>re\<close> the scripts use, as a matcher
    \<open>rmatch\<close> that follows the backtracking order of Python's engine (greedy and lazy
    repetition, \<^verbatim>\<open>^\<close> with and without \<^verbatim>\<open>re.MULTILINE\<close>, capture marks), the
    replacement-template parser \<open>ptpl\<close>, and the general lemmas (match bounds, the
    value of a trailing \<^verbatim>\<open>([c]+)\<close> group). \<open>Regex_Sub\<close>: \<^verbatim>\<open>re.sub\<close>'s scanning
    loop \<open>sub_scan\<close> (terminating by a measure on the remaining input).
  \<^item> \<open>Remote_Api\<close>: decoded JSON, \<^verbatim>\<open>dict.get\<close>, subscripting, iteration,
    truthiness and \<^verbatim>\<open>str()\<close>; the API is a parameter \<open>remote\<close>, any function from
    URLs to a JSON document or failure, so every theorem holds for every behaviour of
    the service.
  \<^item> \<open>Branch_Resolver\<close>: record \<open>updater\<close> (\<^verbatim>\<open>ComponentUpdater\<close>'s fields), one
    definition per method (\<open>get_tag_sha\<close>, \<open>get_commit_sha\<close>,
    \<open>find_branch_containing_commit\<close>, \<open>branch_contains_commit\<close>,
    \<open>find_branch_by_pattern\<close>, \<open>branch_exists\<close>, \<open>find_tag_branch\<close>,
    \<open>get_current_branch_from_bb\<close>), and \<open>resolve_branch\<close>, the three-tier chain of
    \<^verbatim>\<open>update_bb_file\<close> lines 214--230. Its claims C1--C5: resolution always yields a
    non-empty branch; a returned branch is backed by a successful answer of the API
    (a compare status \<^verbatim>\<open>identical\<close> or \<^verbatim>\<open>behind\<close>, or an existing branch); the
    outage behaviour; the
    naming tier is the first confirmed candidate; a recorded branch is non-empty and
    \<^verbatim>\<open>;\<close>-free. Organisation and repository names enter patterns through
    \<open>re_name\<close>, which is faithful for GitHub's name alphabet (\<open>github_name\<close>);
    C11 assumes it.
  \<^item> \<open>Recipe_Mutator\<close>: \<^verbatim>\<open>update_bb_file\<close> (lines 179--341) over the file
    system \<open>fs\<close>. The classification (\<open>is_version_tag\<close>, \<open>is_release_branch\<close>), every
    pattern and replacement line as a definition, \<open>insert_git_tag\<close> (the line
    insertion, lines 233--250), \<open>tag_mode_edit\<close> (lines 232--288),
    \<open>branch_mode_edit\<close> (lines 290--332), and \<open>update_bb_file\<close>, which adds the
    existence check, the classification, the blank-line collapse and the write. Its
    claims C6--C12: malformed specifiers and missing files change nothing; after tag mode
    no line starts with \<^verbatim>\<open>SRCREV = \<close>; after branch mode none starts with
    \<^verbatim>\<open>#SRCREV = \<close>; only the given recipe is written; the only exception that
    escapes is a replacement-template error caused by a backslash in the specifier, the
    component name or the branch; the modes are exclusive. The lemma
    \<open>update_bb_file_branch_duplicates_srcrev\<close> records, on the example recipes, the
    duplicated \<^verbatim>\<open>SRCREV\<close> line that branch mode leaves on a recipe in tag mode.
    The line invariants are proved with
    \<open>bol_free\<close> (\<open>Regex\<close>), an executable \<open>no line starts with w\<close>, and its
    preservation by \<^verbatim>\<open>re.sub\<close> (\<open>sub_scan_bol_free\<close>), by the blank-line collapse
    (\<open>collapse_bol_free\<close>) and by \<^verbatim>\<open>str.replace\<close> (\<open>py_replace_not_in\<close>).

  \<^item> \<open>Resolver_Spec\<close>: the specification's contract of resolution (section 4.1) as
    \<open>resolve_spec\<close>, the first success over an ordered list of tiers, and the
    refinement theorem C24 that \<open>resolve_branch\<close> implements it.
  \<^item> \<open>Recipe_Lines\<close>: where tag mode inserts a missing \<^verbatim>\<open>GIT_TAG\<close>: the reference
    \<open>insert_point\<close>, its equivalence with the loop \<open>insert_index\<close> (C25), the
    split/join round trip of \<open>insert_git_tag\<close> (C26), and C27: the insertion is
    skipped, silently but for a warning, exactly when no line mentions
    \<^verbatim>\<open>LIC_FILES_CHKSUM\<close> or \<^verbatim>\<open>DEPENDS\<close>.
  \<^item> \<open>Version_Tags\<close>: C28, the round trip of a printed version
    \<^verbatim>\<open>v{a}.{b}.{c}\<close> through the classification and the major/minor split that
    names the candidate and fallback branches.
  \<^item> \<open>Cli_Main\<close>: \<^verbatim>\<open>main\<close> of the updater (lines 344--396) after argument parsing,
    \<open>main_cli\<close> over the record \<open>cli_args\<close>, with the dry run's branch
    \<open>dry_run_branch\<close>. Claims C13--C16: validation before any I/O, a dry run never
    writes, the dry run's report against the real resolution (it prints
    \<^verbatim>\<open>fallback-pattern\<close> where the real run synthesizes a branch), and what the exit
    status says about the file system.
  \<^item> \<open>Harness\<close>: \<^verbatim>\<open>ComponentTester\<close> of \<^verbatim>\<open>test_component_updates.py\<close> as the record
    \<open>tester\<close> (its two counters and the status lines printed), one definition per
    method and per block of \<^verbatim>\<open>test_component_update\<close> and \<^verbatim>\<open>run_tests\<close>, the
    harness's \<^verbatim>\<open>main\<close>, and the inductive step relation \<open>tester_step\<close> of method
    calls. Every method only appends status lines (\<open>extends\<close>), which carries the
    invariant C17 (counters equal the printed error and warning lines) by rule induction.
    Claims C18--C23: no write without \<^verbatim>\<open>--live-run\<close>, validation before updates, the
    \<^verbatim>\<open>KeyError\<close> that makes a branch of \<^verbatim>\<open>test_component_update\<close> dead, the harness's
    branch equals \<open>resolve_branch\<close> (the two scripts agree), the harness finds no current
    tag in any recipe without a disabled \<^verbatim>\<open>#GIT_TAG\<close> line, and what a reported success guarantees.

  \<^bold>\<open>Evaluation.\<close> Example runs are evaluated with \<open>code_simp\<close>. \<open>Prelude\<close> gives
  \<open>py_startswith\<close> and \<open>py_replace\<close> code equations that recurse on the string, so
  that evaluation stops at the first mismatching character and never unfolds on a
  string that is not yet computed.

  \<^bold>\<open>Modelling choices.\<close> Python \<^verbatim>\<open>str\<close> is \<^typ>\<open>string\<close>; a \<^typ>\<open>char\<close> stands for a
  code point below U+0100, which covers the ASCII recipes and names the scripts see,
  and on which \<^verbatim>\<open>\s\<close>, \<^verbatim>\<open>\d\<close> and \<^verbatim>\<open>.\<close> are defined exactly as Python
  defines them. Each \<^verbatim>\<open>try\<close> block is a \<open>py_try\<close> over the block's computation,
  so that which failures are absorbed where is a lemma, not an assumption. Every loop of
  the scripts runs over a finite list and is structural recursion; \<^verbatim>\<open>re.sub\<close>'s scan
  and the template parser terminate by a measure on the input length. No fuel is needed.

  \<^bold>\<open>Not modelled.\<close> Failures of the file system (\<^verbatim>\<open>read_text\<close> and
  \<^verbatim>\<open>write_text\<close> always succeed on \<open>fs\<close>); regex metacharacters other than
  \<^verbatim>\<open>.\<close> in organisation and repository names (see \<open>github_name\<close>). Console output (\<^verbatim>\<open>print\<close>, except the harness's status lines,
  which its counters count), argument parsing (\<^verbatim>\<open>argparse\<close>: both \<^verbatim>\<open>main\<close>s start
  from the parsed arguments), \<^verbatim>\<open>Path\<close> normalisation (paths are strings as given) and
  the HTTP transport: the API is an arbitrary function, and a failing request is
  \<open>None\<close>.

  \<^bold>\<open>Plan.\<close> On the mutator: idempotence of tag mode for every recipe, the removal
  of every complete \<^verbatim>\<open>GIT_TAG\<close> line in branch mode, and general theorems for the
  duplicated \<^verbatim>\<open>SRCREV\<close> line and the disabled \<^verbatim>\<open>#GIT_TAG\<close> line.
\<close>

end
